theory Spec2Isabelle
  imports Main "HOL-Library.Sublist" "HOL-Library.AList"
begin

section \<open>Shared API types\<close>

text \<open>
  The custom-resource types of package \<open>api/v1\<close> and the fragments of the Kubernetes
  core types that the controllers and the admission handlers read. Go strings are
  \<open>string\<close>, a nil pointer is \<open>None\<close>, a slice is a list, \<open>metav1.Time\<close> is a
  natural number of seconds.
\<close>

record ResourceRef =
  rr_APIVersion :: string
  rr_Kind :: string
  rr_Name :: string
  rr_Namespace :: string

record PodRef =
  pr_Name :: string
  pr_Namespace :: string

record SecretRef =
  sr_Name :: string
  sr_Namespace :: string

record Registry =
  reg_URL :: string
  reg_SecretRef :: "SecretRef option"

record Container =
  c_Name :: string
  c_Image :: string

record CheckpointFile =
  cf_ContainerName :: string
  cf_FilePath :: string
  cf_CheckpointTime :: nat

record BuiltImage =
  bi_ContainerName :: string
  bi_ImageName :: string
  bi_BuildTime :: nat
  bi_Pushed :: bool

record CheckpointBackupSpec =
  sp_Schedule :: string
  sp_StopPod :: "bool option"
  sp_PodRef :: PodRef
  sp_ResourceRef :: ResourceRef
  sp_Registry :: "Registry option"
  sp_Containers :: "Container list"

record CheckpointBackupStatus =
  st_Phase :: string
  st_LastCheckpointTime :: "nat option"
  st_Message :: string
  st_BuiltImages :: "BuiltImage list"
  st_CheckpointFiles :: "CheckpointFile list"

record CheckpointBackup =
  cb_Name :: string
  cb_Namespace :: string
  cb_Finalizers :: "string list"
  cb_DeletionTimestamp :: "nat option"
  cb_Spec :: CheckpointBackupSpec
  cb_Status :: CheckpointBackupStatus

record OwnerReference =
  or_APIVersion :: string
  or_Kind :: string
  or_Name :: string

record PodContainer =
  pc_Name :: string
  pc_Image :: string

record Pod =
  pod_Name :: string
  pod_Namespace :: string
  pod_GenerateName :: string
  pod_OwnerReferences :: "OwnerReference list"
  pod_NodeName :: string
  pod_Phase :: string
  pod_Containers :: "PodContainer list"
  pod_InitContainers :: "PodContainer list"

text \<open>One JSON-Patch operation, \<open>map[string]interface{}{"op", "path", "value"}\<close>.\<close>

record Patch =
  p_op :: string
  p_path :: string
  p_value :: string

text \<open>\<open>fmt.Sprintf("%d", n)\<close> for a slice index.\<close>

definition digit :: "nat \<Rightarrow> char" where
  "digit d = ''0123456789'' ! d"

fun string_of_nat :: "nat \<Rightarrow> string" where
  "string_of_nat n =
     (if n < 10 then [digit n] else string_of_nat (n div 10) @ [digit (n mod 10)])"

declare string_of_nat.simps [simp del]

text \<open>A Go map from container name to image, kept as an association list with distinct keys.\<close>

type_synonym image_map = "(string \<times> string) list"

text \<open>A JSON document, as \<open>encoding/json\<close> reads it into \<open>interface{}\<close>.\<close>

datatype json =
  JNull
| JBool bool
| JNum int
| JStr string
| JArr "json list"
| JObj "(string \<times> json) list"

type_synonym json_object = "(string \<times> json) list"

section \<open>Admission handler of the operator: internal/webhook/admission\_webhook.go\<close>

text \<open>
  The answers of the handler. A patch answer is the value of
  \<open>admission.PatchResponseFromRaw(original, current)\<close>: the library takes two JSON
  documents and answers with the JSON patch that leads from the first to the second. The
  constructor keeps the two documents of the call, the pod of the request and the second
  document.
\<close>

datatype Response =
  Allowed string
| Errored nat string
| PatchResponseFromRaw Pod json

text \<open>
  \<open>json.Marshal(patches)\<close>: an array with one object for each patch, the keys of a Go
  map in sorted order.
\<close>

definition marshalPatches :: "Patch list \<Rightarrow> json" where
  "marshalPatches patches =
     JArr (map (\<lambda>p. JObj [(''op'', JStr (p_op p)), (''path'', JStr (p_path p)),
                           (''value'', JStr (p_value p))]) patches)"

definition isPodFromJob :: "Pod \<Rightarrow> bool" where
  "isPodFromJob pod =
     list_ex (\<lambda>ownerRef. or_Kind ownerRef = ''Job'' \<and> or_APIVersion ownerRef = ''batch/v1'')
       (pod_OwnerReferences pod)"

definition getJobName :: "Pod \<Rightarrow> string" where
  "getJobName pod =
     (case find (\<lambda>ownerRef. or_Kind ownerRef = ''Job'' \<and> or_APIVersion ownerRef = ''batch/v1'')
             (pod_OwnerReferences pod) of
        Some ownerRef \<Rightarrow> or_Name ownerRef
      | None \<Rightarrow> '''')"

definition doesResourceRefMatchJob :: "ResourceRef \<Rightarrow> string \<Rightarrow> string \<Rightarrow> bool" where
  "doesResourceRefMatchJob resourceRef jobName namespace =
     (if rr_Kind resourceRef = ''Job'' \<and> rr_APIVersion resourceRef = ''batch/v1'' then
        (let refNamespace =
               (if rr_Namespace resourceRef = '''' then namespace else rr_Namespace resourceRef)
         in rr_Name resourceRef = jobName \<and> refNamespace = namespace)
      else if rr_Kind resourceRef = ''CronJob'' \<and> rr_APIVersion resourceRef = ''batch/v1'' then
        prefix (rr_Name resourceRef @ ''-'') jobName
      else False)"

text \<open>
  \<open>listed\<close> is what \<open>p.Client.List(ctx, &checkpointBackups, client.InNamespace(namespace))\<close>
  gave: an error, or the items of the namespace in the order of the list.
\<close>

definition findMatchingCheckpointBackup ::
  "string + CheckpointBackup list \<Rightarrow> string \<Rightarrow> string \<Rightarrow> string + CheckpointBackup option" where
  "findMatchingCheckpointBackup listed namespace jobName =
     (case listed of
        Inl err \<Rightarrow> Inl (''failed to list CheckpointBackup CRs: '' @ err)
      | Inr items \<Rightarrow>
          Inr (find (\<lambda>backup. doesResourceRefMatchJob (sp_ResourceRef (cb_Spec backup)) jobName namespace)
                 items))"

definition specImages :: "Container list \<Rightarrow> image_map \<Rightarrow> image_map" where
  "specImages containers imageMap =
     fold (\<lambda>container m. if c_Image container \<noteq> '''' then AList.update (c_Name container) (c_Image container) m else m)
       containers imageMap"

definition statusImages :: "BuiltImage list \<Rightarrow> image_map \<Rightarrow> image_map" where
  "statusImages builtImages imageMap =
     fold (\<lambda>builtImage m.
             if map_of m (bi_ContainerName builtImage) = None \<and> bi_ImageName builtImage \<noteq> ''''
             then AList.update (bi_ContainerName builtImage) (bi_ImageName builtImage) m else m)
       builtImages imageMap"

fun containerPatches :: "image_map \<Rightarrow> nat \<Rightarrow> PodContainer list \<Rightarrow> Patch list" where
  "containerPatches imageMap i [] = []"
| "containerPatches imageMap i (container # rest) =
     (case map_of imageMap (pc_Name container) of
        Some newImage \<Rightarrow>
          \<lparr>p_op = ''replace'',
           p_path = ''/spec/containers/'' @ string_of_nat i @ ''/image'',
           p_value = newImage\<rparr> # containerPatches imageMap (Suc i) rest
      | None \<Rightarrow> containerPatches imageMap (Suc i) rest)"

definition generateImagePatches :: "Pod \<Rightarrow> CheckpointBackup \<Rightarrow> Patch list" where
  "generateImagePatches pod backup =
     (let imageMap = specImages (sp_Containers (cb_Spec backup)) [];
          imageMap = statusImages (st_BuiltImages (cb_Status backup)) imageMap
      in containerPatches imageMap 0 (pod_Containers pod))"

text \<open>
  \<open>Handle\<close> from the decoded pod on; \<open>listed\<close> is the result of the client's
  \<open>List\<close> in the pod's namespace. The last line hands the marshalled list of patches
  to \<open>PatchResponseFromRaw\<close> as its second document, in the place of a mutated pod: the
  answer is the library's patch from the pod to that array, not the list itself.
\<close>

definition Handle :: "Pod \<Rightarrow> string + CheckpointBackup list \<Rightarrow> Response" where
  "Handle pod listed =
     (if \<not> isPodFromJob pod then Allowed ''Pod not from Job''
      else let jobName = getJobName pod in
        if jobName = '''' then Allowed ''Job name not found''
        else case findMatchingCheckpointBackup listed (pod_Namespace pod) jobName of
               Inl err \<Rightarrow> Errored 500 err
             | Inr None \<Rightarrow> Allowed ''No matching CheckpointBackup''
             | Inr (Some checkpointBackup) \<Rightarrow>
                 (let patches = generateImagePatches pod checkpointBackup in
                  if length patches = 0 then Allowed ''No patches required''
                  else PatchResponseFromRaw pod (marshalPatches patches)))"

section \<open>Stand-alone admission server: Mutation/webhook-server/main.go\<close>

text \<open>
  The server reads the CheckpointRestore objects through the dynamic client, so an item is
  an untyped JSON object (\<open>map[string]interface{}\<close>). A type assertion \<open>v.(string)\<close>
  with the result ignored gives the empty string on a missing key or another type.
\<close>

definition as_string :: "json option \<Rightarrow> string" where
  "as_string v = (case v of Some (JStr s) \<Rightarrow> s | _ \<Rightarrow> '''')"

definition as_map :: "json option \<Rightarrow> json_object option" where
  "as_map v = (case v of Some (JObj m) \<Rightarrow> Some m | _ \<Rightarrow> None)"

definition as_slice :: "json option \<Rightarrow> json list option" where
  "as_slice v = (case v of Some (JArr xs) \<Rightarrow> Some xs | _ \<Rightarrow> None)"

record AdmissionRequest =
  ar_Kind :: string
  ar_Version :: string
  ar_Operation :: string
  ar_Namespace :: string

text \<open>The three disjuncts of \<open>nameMatch\<close>.\<close>

definition nameMatch :: "string \<Rightarrow> string \<Rightarrow> json_object \<Rightarrow> bool" where
  "nameMatch targetName genPrefix spec =
     (let specPodName = as_string (map_of spec ''podName'');
          specGenName = as_string (map_of spec ''podGenerateName'')
      in (targetName \<noteq> '''' \<and> specPodName = targetName) \<or>
         (genPrefix \<noteq> '''' \<and> specGenName \<noteq> '''' \<and> prefix genPrefix specGenName) \<or>
         (genPrefix \<noteq> '''' \<and> specPodName \<noteq> '''' \<and> prefix genPrefix specPodName))"

text \<open>The body of the loop over \<open>spec.containers[]\<close>, on the pair \<open>(imageMap, defaultImage)\<close>.\<close>

definition containerEntry :: "json \<Rightarrow> image_map \<times> string \<Rightarrow> image_map \<times> string" where
  "containerEntry c acc =
     (case as_map (Some c) of
        None \<Rightarrow> acc
      | Some m \<Rightarrow>
          (let cname = as_string (map_of m ''name'');
               cimg = as_string (map_of m ''image'')
           in if cimg = '''' then acc
              else (let imageMap = (if cname \<noteq> '''' then AList.update cname cimg (fst acc) else fst acc);
                        defaultImage = (if snd acc = '''' then cimg else snd acc)
                    in (imageMap, defaultImage))))"

definition matchedImages :: "json_object \<Rightarrow> image_map \<times> string" where
  "matchedImages spec =
     (let acc = (case as_slice (map_of spec ''containers'') of
                   Some raw \<Rightarrow> fold containerEntry raw ([], '''')
                 | None \<Rightarrow> ([], ''''));
          defaultImage =
            (if snd acc = '''' then
               (let img = as_string (map_of spec ''image'') in if img \<noteq> '''' then img else snd acc)
             else snd acc)
      in (fst acc, defaultImage))"

text \<open>
  The loop over \<open>crList.Items\<close>: an item without a \<open>spec\<close> object or without a name
  match is skipped by \<open>continue\<close>; the first item that matches fills the map and the
  default image, and the loop ends with \<open>break\<close>.
\<close>

fun scanItems :: "string \<Rightarrow> string \<Rightarrow> json_object list \<Rightarrow> image_map \<times> string" where
  "scanItems targetName genPrefix [] = ([], '''')"
| "scanItems targetName genPrefix (it # rest) =
     (case as_map (map_of it ''spec'') of
        None \<Rightarrow> scanItems targetName genPrefix rest
      | Some spec \<Rightarrow>
          if \<not> nameMatch targetName genPrefix spec then scanItems targetName genPrefix rest
          else matchedImages spec)"

definition wantImage :: "image_map \<Rightarrow> string \<Rightarrow> string \<Rightarrow> string" where
  "wantImage imageMap defaultImage name =
     (let want = (case map_of imageMap name of Some v \<Rightarrow> v | None \<Rightarrow> '''')
      in if want = '''' then defaultImage else want)"

fun patchesFor :: "string \<Rightarrow> image_map \<Rightarrow> string \<Rightarrow> nat \<Rightarrow> PodContainer list \<Rightarrow> Patch list" where
  "patchesFor field imageMap defaultImage i [] = []"
| "patchesFor field imageMap defaultImage i (c # rest) =
     (let want = wantImage imageMap defaultImage (pc_Name c) in
      if want = '''' \<or> pc_Image c = want then patchesFor field imageMap defaultImage (Suc i) rest
      else \<lparr>p_op = ''replace'',
            p_path = ''/spec/'' @ field @ ''/'' @ string_of_nat i @ ''/image'',
            p_value = want\<rparr> # patchesFor field imageMap defaultImage (Suc i) rest)"

text \<open>
  \<open>handleMutate\<close> from the decoded review on. The result is the patch handed to
  \<open>writeResponse\<close>: \<open>None\<close> is "allowed, no patch". \<open>listed\<close> is the result of the
  dynamic client's \<open>List\<close> in the request's namespace.
\<close>

definition handleMutate :: "AdmissionRequest \<Rightarrow> Pod \<Rightarrow> string + json_object list \<Rightarrow> Patch list option" where
  "handleMutate req pod listed =
     (if ar_Kind req \<noteq> ''Pod'' \<or> ar_Version req \<noteq> ''v1'' \<or> ar_Operation req \<noteq> ''CREATE'' then None
      else case listed of
        Inl err \<Rightarrow> None
      | Inr items \<Rightarrow>
          (let targetName = pod_Name pod;
               genPrefix = pod_GenerateName pod;
               found = scanItems targetName genPrefix items;
               imageMap = fst found;
               defaultImage = snd found
           in if length imageMap = 0 \<and> defaultImage = '''' then None
              else (let patches = patchesFor ''containers'' imageMap defaultImage 0 (pod_Containers pod)
                                  @ patchesFor ''initContainers'' imageMap defaultImage 0 (pod_InitContainers pod)
                    in if length patches = 0 then None else Some patches)))"

section \<open>Errors of the API clients\<close>

text \<open>
  The controllers tell errors apart with \<open>errors.IsNotFound\<close> and \<open>errors.IsConflict\<close>
  only. Both look through \<open>fmt.Errorf("...: %w", err)\<close>, so wrapping keeps the kind and
  extends the text.
\<close>

datatype apierr =
  NotFound string
| Conflict string
| Failure string

fun errText :: "apierr \<Rightarrow> string" where
  "errText (NotFound m) = m"
| "errText (Conflict m) = m"
| "errText (Failure m) = m"

fun wrap :: "string \<Rightarrow> apierr \<Rightarrow> apierr" where
  "wrap msg (NotFound m) = NotFound (msg @ '': '' @ m)"
| "wrap msg (Conflict m) = Conflict (msg @ '': '' @ m)"
| "wrap msg (Failure m) = Failure (msg @ '': '' @ m)"

fun IsNotFound :: "apierr \<Rightarrow> bool" where
  "IsNotFound (NotFound m) = True"
| "IsNotFound e = False"

fun IsConflict :: "apierr \<Rightarrow> bool" where
  "IsConflict (Conflict m) = True"
| "IsConflict e = False"

section \<open>Restore controller: MigrationRestoreReconciler\<close>

record StatefulMigration =
  sm_Name :: string
  sm_Namespace :: string
  sm_ResourceRef :: ResourceRef
  sm_SourceClusters :: "string list"

record TargetCluster =
  tc_Name :: string
  tc_Replicas :: int

record ResourceBinding =
  rb_Name :: string
  rb_Resource :: ResourceRef
  rb_Clusters :: "TargetCluster list"

record CheckpointRestore =
  cr_Name :: string
  cr_Namespace :: string
  cr_Labels :: "(string \<times> string) list"
  cr_BackupRef :: string
  cr_PodName :: string
  cr_Containers :: "Container list"

record ResourceSelector =
  rs_APIVersion :: string
  rs_Kind :: string
  rs_Name :: string

record PropagationPolicy =
  pp_Name :: string
  pp_Namespace :: string
  pp_ResourceSelectors :: "ResourceSelector list"
  pp_ClusterNames :: "string list"

text \<open>
  A manifest of a Work is raw JSON; \<open>None\<close> stands for bytes that
  \<open>obj.UnmarshalJSON\<close> rejects.
\<close>

record Work =
  wk_Name :: string
  wk_Manifests :: "json_object option list"

datatype karmada_call =
  ListBindings | ListBackups | GetRestore | CreateRestore | WritePolicy | ListWorks | UpdateWork

text \<open>
  The objects behind \<open>r.KarmadaClient\<close>, and for each kind of call the error the
  federation API server answers with, if any.
\<close>

record Karmada =
  k_bindings :: "ResourceBinding list"
  k_backups :: "CheckpointBackup list"
  k_restores :: "CheckpointRestore list"
  k_policies :: "PropagationPolicy list"
  k_works :: "Work list"
  k_fault :: "karmada_call \<Rightarrow> apierr option"

definition sameResource :: "ResourceRef \<Rightarrow> ResourceRef \<Rightarrow> bool" where
  "sameResource a b =
     (rr_APIVersion a = rr_APIVersion b \<and> rr_Kind a = rr_Kind b \<and>
      rr_Name a = rr_Name b \<and> rr_Namespace a = rr_Namespace b)"

definition findResourceBinding :: "Karmada \<Rightarrow> ResourceRef \<Rightarrow> string \<Rightarrow> apierr + ResourceBinding" where
  "findResourceBinding k resourceRef sourceCluster =
     (case k_fault k ListBindings of
        Some err \<Rightarrow> Inl (wrap ''failed to list resource bindings'' err)
      | None \<Rightarrow>
          (case find (\<lambda>binding. sameResource (rb_Resource binding) resourceRef \<and>
                                 list_ex (\<lambda>cluster. tc_Name cluster = sourceCluster) (rb_Clusters binding))
                  (k_bindings k) of
             Some binding \<Rightarrow> Inr binding
           | None \<Rightarrow> Inl (NotFound ''resourcebindings.work.karmada.io not found'')))"

definition isSourceClusterStillAvailable :: "ResourceBinding \<Rightarrow> string \<Rightarrow> bool" where
  "isSourceClusterStillAvailable binding sourceCluster =
     list_ex (\<lambda>cluster. tc_Name cluster = sourceCluster) (rb_Clusters binding)"

definition findCheckpointBackups :: "Karmada \<Rightarrow> ResourceRef \<Rightarrow> string \<Rightarrow> apierr + CheckpointBackup list" where
  "findCheckpointBackups k resourceRef sourceCluster =
     (case k_fault k ListBackups of
        Some err \<Rightarrow> Inl (wrap ''failed to list checkpoint backups'' err)
      | None \<Rightarrow>
          Inr (filter (\<lambda>backup. sameResource (sp_ResourceRef (cb_Spec backup)) resourceRef \<and>
                                 pr_Namespace (sp_PodRef (cb_Spec backup)) = rr_Namespace resourceRef)
                 (k_backups k)))"

text \<open>
  Modelled from the spec: \<open>KarmadaClient.CreateOrUpdatePropagationPolicy\<close> is not part of
  the sources at hand. The spec has the restore pass "ensure propagation policy": the
  policy of that namespace and name is replaced when it exists and added otherwise.
\<close>

definition CreateOrUpdatePropagationPolicy :: "Karmada \<Rightarrow> PropagationPolicy \<Rightarrow> Karmada \<times> apierr option" where
  "CreateOrUpdatePropagationPolicy k policy =
     (case k_fault k WritePolicy of
        Some err \<Rightarrow> (k, Some err)
      | None \<Rightarrow>
          (let same = (\<lambda>p. pp_Name p = pp_Name policy \<and> pp_Namespace p = pp_Namespace policy) in
           if list_ex same (k_policies k)
           then (k\<lparr>k_policies := map (\<lambda>p. if same p then policy else p) (k_policies k)\<rparr>, None)
           else (k\<lparr>k_policies := k_policies k @ [policy]\<rparr>, None)))"

text \<open>
  The loop of \<open>createRestorePropagationPolicy\<close> assigns the first element of
  \<open>Spec.SourceClusters\<close> and leaves with \<open>break\<close>.
\<close>

definition targetClusterOf :: "StatefulMigration \<Rightarrow> string" where
  "targetClusterOf statefulMigration =
     (case sm_SourceClusters statefulMigration of [] \<Rightarrow> '''' | cluster # rest \<Rightarrow> cluster)"

definition createRestorePropagationPolicy ::
  "Karmada \<Rightarrow> CheckpointRestore \<Rightarrow> StatefulMigration \<Rightarrow> Karmada \<times> apierr option" where
  "createRestorePropagationPolicy k restore statefulMigration =
     (let policyName = cr_Name restore @ ''-restore-policy'';
          targetCluster = targetClusterOf statefulMigration
      in if targetCluster = '''' then (k, Some (Failure ''no target cluster available for restore''))
         else CreateOrUpdatePropagationPolicy k
                \<lparr>pp_Name = policyName,
                 pp_Namespace = cr_Namespace restore,
                 pp_ResourceSelectors =
                   [\<lparr>rs_APIVersion = ''migration.dcnlab.com/v1'', rs_Kind = ''CheckpointRestore'',
                     rs_Name = cr_Name restore\<rparr>],
                 pp_ClusterNames = [targetCluster]\<rparr>)"

definition getRestore :: "Karmada \<Rightarrow> string \<Rightarrow> string \<Rightarrow> apierr + CheckpointRestore" where
  "getRestore k name namespace =
     (case k_fault k GetRestore of
        Some err \<Rightarrow> Inl err
      | None \<Rightarrow>
          (case find (\<lambda>r. cr_Name r = name \<and> cr_Namespace r = namespace) (k_restores k) of
             Some r \<Rightarrow> Inr r
           | None \<Rightarrow> Inl (NotFound (''checkpointrestores '' @ name @ '' not found''))))"

definition createRestoreObject :: "Karmada \<Rightarrow> CheckpointRestore \<Rightarrow> Karmada \<times> apierr option" where
  "createRestoreObject k restore =
     (case k_fault k CreateRestore of
        Some err \<Rightarrow> (k, Some err)
      | None \<Rightarrow>
          if list_ex (\<lambda>r. cr_Name r = cr_Name restore \<and> cr_Namespace r = cr_Namespace restore) (k_restores k)
          then (k, Some (Failure (''checkpointrestores '' @ cr_Name restore @ '' already exists'')))
          else (k\<lparr>k_restores := k_restores k @ [restore]\<rparr>, None))"

definition createCheckpointRestore ::
  "Karmada \<Rightarrow> CheckpointBackup \<Rightarrow> StatefulMigration \<Rightarrow> Karmada \<times> apierr option" where
  "createCheckpointRestore k backup statefulMigration =
     (let restoreName = cb_Name backup @ ''-restore'' in
      case getRestore k restoreName (cb_Namespace backup) of
        Inr existingRestore \<Rightarrow> (k, None)
      | Inl err \<Rightarrow>
          if \<not> IsNotFound err then (k, Some (wrap ''failed to check existing CheckpointRestore'' err))
          else (let restore =
                      \<lparr>cr_Name = restoreName,
                       cr_Namespace = cb_Namespace backup,
                       cr_Labels = [(''migration.dcnlab.com/restore'', ''true''),
                                    (''migration.dcnlab.com/backup'', cb_Name backup)],
                       cr_BackupRef = cb_Name backup,
                       cr_PodName = pr_Name (sp_PodRef (cb_Spec backup)),
                       cr_Containers = sp_Containers (cb_Spec backup)\<rparr>
                in case createRestoreObject k restore of
                     (k', Some err) \<Rightarrow> (k', Some (wrap ''failed to create CheckpointRestore'' err))
                   | (k', None) \<Rightarrow> createRestorePropagationPolicy k' restore statefulMigration))"

text \<open>Accessors of \<open>unstructured.Unstructured\<close>.\<close>

definition GetAPIVersion :: "json_object \<Rightarrow> string" where
  "GetAPIVersion obj = as_string (map_of obj ''apiVersion'')"

definition GetKind :: "json_object \<Rightarrow> string" where
  "GetKind obj = as_string (map_of obj ''kind'')"

definition metadataField :: "json_object \<Rightarrow> string \<Rightarrow> string" where
  "metadataField obj f =
     (case as_map (map_of obj ''metadata'') of Some m \<Rightarrow> as_string (map_of m f) | None \<Rightarrow> '''')"

definition manifestIsFor :: "ResourceRef \<Rightarrow> json_object option \<Rightarrow> bool" where
  "manifestIsFor resourceRef manifest =
     (case manifest of
        None \<Rightarrow> False
      | Some obj \<Rightarrow>
          GetAPIVersion obj = rr_APIVersion resourceRef \<and> GetKind obj = rr_Kind resourceRef \<and>
          metadataField obj ''name'' = rr_Name resourceRef \<and>
          metadataField obj ''namespace'' = rr_Namespace resourceRef)"

definition findWorkForResource :: "Karmada \<Rightarrow> ResourceRef \<Rightarrow> apierr + Work" where
  "findWorkForResource k resourceRef =
     (case k_fault k ListWorks of
        Some err \<Rightarrow> Inl (wrap ''failed to list Work resources'' err)
      | None \<Rightarrow>
          (case find (\<lambda>work. list_ex (manifestIsFor resourceRef) (wk_Manifests work)) (k_works k) of
             Some work \<Rightarrow> Inr work
           | None \<Rightarrow> Inl (NotFound ''works.work.karmada.io not found'')))"

definition updateContainerImage :: "image_map \<Rightarrow> json \<Rightarrow> json" where
  "updateContainerImage checkpointImages container =
     (case container of
        JObj containerMap \<Rightarrow>
          (case map_of containerMap ''name'' of
             Some (JStr containerName) \<Rightarrow>
               (case map_of checkpointImages containerName of
                  Some checkpointImage \<Rightarrow> JObj (AList.update ''image'' (JStr checkpointImage) containerMap)
                | None \<Rightarrow> container)
           | _ \<Rightarrow> container)
      | _ \<Rightarrow> container)"

text \<open>
  \<open>unstructured.NestedSlice(pod.Object, "spec", "containers")\<close> fails or finds nothing
  unless \<open>spec\<close> is an object whose \<open>containers\<close> is an array; both give the error return.
\<close>

definition updatePodContainerImages :: "json_object \<Rightarrow> image_map \<Rightarrow> apierr + json_object" where
  "updatePodContainerImages pod checkpointImages =
     (case as_map (map_of pod ''spec'') of
        None \<Rightarrow> Inl (Failure ''failed to get containers from pod spec'')
      | Some spec \<Rightarrow>
          (case as_slice (map_of spec ''containers'') of
             None \<Rightarrow> Inl (Failure ''failed to get containers from pod spec'')
           | Some containers \<Rightarrow>
               Inr (AList.update ''spec''
                      (JObj (AList.update ''containers''
                               (JArr (map (updateContainerImage checkpointImages) containers)) spec))
                      pod)))"

definition rewriteManifest :: "image_map \<Rightarrow> json_object option \<Rightarrow> json_object option" where
  "rewriteManifest checkpointImages manifest =
     (case manifest of
        None \<Rightarrow> None
      | Some obj \<Rightarrow>
          if GetKind obj = ''Pod'' \<and> GetAPIVersion obj = ''v1'' then
            (case updatePodContainerImages obj checkpointImages of
               Inl err \<Rightarrow> manifest
             | Inr obj' \<Rightarrow> Some obj')
          else manifest)"

definition updateWork :: "Karmada \<Rightarrow> Work \<Rightarrow> Karmada \<times> apierr option" where
  "updateWork k work =
     (case k_fault k UpdateWork of
        Some err \<Rightarrow> (k, Some err)
      | None \<Rightarrow>
          if list_ex (\<lambda>w. wk_Name w = wk_Name work) (k_works k)
          then (k\<lparr>k_works := map (\<lambda>w. if wk_Name w = wk_Name work then work else w) (k_works k)\<rparr>, None)
          else (k, Some (NotFound (''works '' @ wk_Name work @ '' not found''))))"

definition updateWorkWithCheckpointImages ::
  "Karmada \<Rightarrow> Work \<Rightarrow> CheckpointBackup list \<Rightarrow> Karmada \<times> apierr option" where
  "updateWorkWithCheckpointImages k work checkpointBackups =
     (let checkpointImages =
            fold (\<lambda>backup m. fold (\<lambda>container m'. AList.update (c_Name container) (c_Image container) m')
                                (sp_Containers (cb_Spec backup)) m)
              checkpointBackups []
      in updateWork k (work\<lparr>wk_Manifests := map (rewriteManifest checkpointImages) (wk_Manifests work)\<rparr>))"

definition handlePodRestore ::
  "Karmada \<Rightarrow> StatefulMigration \<Rightarrow> CheckpointBackup list \<Rightarrow> Karmada \<times> apierr option" where
  "handlePodRestore k statefulMigration checkpointBackups =
     (case findWorkForResource k (sm_ResourceRef statefulMigration) of
        Inl err \<Rightarrow> (k, Some (wrap ''failed to find Work for pod'' err))
      | Inr work \<Rightarrow>
          (case updateWorkWithCheckpointImages k work checkpointBackups of
             (k', Some err) \<Rightarrow> (k', Some (wrap ''failed to update Work with checkpoint images'' err))
           | (k', None) \<Rightarrow> (k', None)))"

text \<open>\<open>strings.ToLower\<close> on the ASCII letters of a kind.\<close>

definition ToLower :: "string \<Rightarrow> string" where
  "ToLower s =
     map (\<lambda>c. if (65::nat) \<le> of_char c \<and> of_char c \<le> (90::nat)
               then char_of ((of_char c :: nat) + 32) else c) s"

fun createRestores ::
  "Karmada \<Rightarrow> StatefulMigration \<Rightarrow> CheckpointBackup list \<Rightarrow> Karmada \<times> apierr option" where
  "createRestores k statefulMigration [] = (k, None)"
| "createRestores k statefulMigration (backup # rest) =
     (case createCheckpointRestore k backup statefulMigration of
        (k', Some err) \<Rightarrow> (k', Some err)
      | (k', None) \<Rightarrow> createRestores k' statefulMigration rest)"

definition startRestoreProcess ::
  "Karmada \<Rightarrow> StatefulMigration \<Rightarrow> string \<Rightarrow> CheckpointBackup list \<Rightarrow> Karmada \<times> apierr option" where
  "startRestoreProcess k statefulMigration sourceCluster checkpointBackups =
     (case createRestores k statefulMigration checkpointBackups of
        (k', Some err) \<Rightarrow> (k', Some err)
      | (k', None) \<Rightarrow>
          (let kind = ToLower (rr_Kind (sm_ResourceRef statefulMigration)) in
           if kind = ''pod'' then handlePodRestore k' statefulMigration checkpointBackups
           else if kind = ''statefulset'' then (k', None)
           else (k', None)))"

definition processSourceCluster ::
  "Karmada \<Rightarrow> StatefulMigration \<Rightarrow> string \<Rightarrow> Karmada \<times> apierr option" where
  "processSourceCluster k statefulMigration sourceCluster =
     (case findResourceBinding k (sm_ResourceRef statefulMigration) sourceCluster of
        Inl err \<Rightarrow>
          if IsNotFound err then (k, None)
          else (k, Some (wrap ''failed to find resource binding'' err))
      | Inr resourceBinding \<Rightarrow>
          if isSourceClusterStillAvailable resourceBinding sourceCluster then (k, None)
          else (case findCheckpointBackups k (sm_ResourceRef statefulMigration) sourceCluster of
                  Inl err \<Rightarrow> (k, Some (wrap ''failed to find checkpoint backups'' err))
                | Inr checkpointBackups \<Rightarrow>
                    if length checkpointBackups = 0 then (k, None)
                    else startRestoreProcess k statefulMigration sourceCluster checkpointBackups))"

text \<open>
  One pass of the restore controller over a StatefulMigration that exists, with the
  Karmada client at hand: the loop over \<open>Spec.SourceClusters\<close>, left at the first error.
\<close>

fun restorePass :: "Karmada \<Rightarrow> StatefulMigration \<Rightarrow> string list \<Rightarrow> Karmada \<times> apierr option" where
  "restorePass k statefulMigration [] = (k, None)"
| "restorePass k statefulMigration (sourceCluster # rest) =
     (case processSourceCluster k statefulMigration sourceCluster of
        (k', Some err) \<Rightarrow> (k', Some err)
      | (k', None) \<Rightarrow> restorePass k' statefulMigration rest)"

definition RestoreReconcile :: "Karmada \<Rightarrow> StatefulMigration \<Rightarrow> Karmada \<times> apierr option" where
  "RestoreReconcile k statefulMigration =
     restorePass k statefulMigration (sm_SourceClusters statefulMigration)"

section \<open>Checkpoint controller: internal/controller/checkpointbackup\_controller.go\<close>

abbreviation CheckpointBackupFinalizer :: string where
  "CheckpointBackupFinalizer \<equiv> ''checkpointbackup.migration.dcnlab.com/finalizer''"

abbreviation CheckpointBasePath :: string where
  "CheckpointBasePath \<equiv> ''/var/lib/kubelet/checkpoints''"

abbreviation PhaseCheckpointing :: string where "PhaseCheckpointing \<equiv> ''Checkpointing''"
abbreviation PhaseCheckpointed :: string where "PhaseCheckpointed \<equiv> ''Checkpointed''"
abbreviation PhaseImageBuilding :: string where "PhaseImageBuilding \<equiv> ''ImageBuilding''"
abbreviation PhaseImageBuilt :: string where "PhaseImageBuilt \<equiv> ''ImageBuilt''"
abbreviation PhaseImagePushing :: string where "PhaseImagePushing \<equiv> ''ImagePushing''"
abbreviation PhaseImagePushed :: string where "PhaseImagePushed \<equiv> ''ImagePushed''"
abbreviation PhaseCompleted :: string where "PhaseCompleted \<equiv> ''Completed''"
abbreviation PhaseCompletedPodDeleted :: string where "PhaseCompletedPodDeleted \<equiv> ''CompletedPodDeleted''"
abbreviation PhaseCompletedWithError :: string where "PhaseCompletedWithError \<equiv> ''CompletedWithError''"
abbreviation PhaseFailed :: string where "PhaseFailed \<equiv> ''Failed''"

record KubeletClient =
  kc_token :: string
  kc_kubeletURL :: string

record RegistryClient =
  rc_username :: string
  rc_password :: string
  rc_registry :: string

text \<open>
  What the kubelet answers to the checkpoint request: no answer at all, or a status code
  with the body and, when the body is JSON of the expected shape, its \<open>items\<close>.
\<close>

datatype KubeletReply =
  TransportError string
| HttpReply nat string "string list option"

text \<open>
  Everything the controller does to the outside is written to a trace, in order: the
  writes to the API server (also those the server rejects), the request to the kubelet,
  the subprocesses, the removal of a file, and the start of the capture pipeline for a
  request (the point where \<open>performCheckpoint\<close> has passed its phase guards).
\<close>

datatype event =
  EvUpdate string string
| EvStatusUpdate string string string
| EvDeletePod string string
| EvStart string string
| EvKubelet string
| EvExec "string list"
| EvRemove string

datatype api_call = GetBackup | GetPod | GetSecret | UpdateBackup | DeletePod | RemoveFile

text \<open>
  The state the controller runs in. The \<open>r_\<close> fields are those of
  \<open>CheckpointBackupReconciler\<close>; a cron entry holds the request object its closure
  captured. The \<open>w_\<close> fields are the member cluster's API objects, keyed by
  \<open>(namespace, name)\<close>, the paths that exist on the node with their modification times,
  and the trace. \<open>w_statusFaults\<close> gives the outcome of the coming calls of
  \<open>Status().Update\<close>, one after the other (none left: the call succeeds), and
  \<open>w_fault\<close> the error of every other kind of call, if it fails. The \<open>e_\<close> fields
  are the environment: the service-account token file, \<open>NODE_IP\<close>, the kubelet with the
  files a checkpoint leaves on disk, \<open>filepath.Glob\<close>, the outcome of a subprocess
  (its output, or the error), the clock as seconds and as \<open>Format("20060102-150405")\<close>,
  and whether the cron library accepts a schedule.
\<close>

record Sys =
  r_NodeName :: string
  r_KubeletClient :: "KubeletClient option"
  r_RegistryClient :: "RegistryClient option"
  r_Scheduler :: bool
  r_scheduledJobs :: "string \<rightharpoonup> nat"
  r_entries :: "nat \<rightharpoonup> CheckpointBackup"
  r_nextEntry :: nat
  w_backups :: "string \<times> string \<rightharpoonup> CheckpointBackup"
  w_pods :: "string \<times> string \<rightharpoonup> Pod"
  w_secrets :: "string \<times> string \<rightharpoonup> (string \<times> string) list"
  w_files :: "(string \<times> nat) list"
  w_trace :: "event list"
  w_statusFaults :: "apierr option list"
  w_fault :: "api_call \<Rightarrow> apierr option"
  e_token :: "string option"
  e_nodeIP :: string
  e_kubelet :: "string \<Rightarrow> KubeletReply \<times> (string \<times> nat) list"
  e_glob :: "string \<Rightarrow> string list"
  e_exec :: "string list \<Rightarrow> string + string"
  e_now :: nat
  e_timestamp :: string
  e_cronValid :: "string \<Rightarrow> bool"

definition emit :: "event \<Rightarrow> Sys \<Rightarrow> Sys" where
  "emit ev s = s\<lparr>w_trace := w_trace s @ [ev]\<rparr>"

definition backupKey :: "CheckpointBackup \<Rightarrow> string" where
  "backupKey backup = cb_Namespace backup @ ''/'' @ cb_Name backup"

subsection \<open>The API server of the member cluster\<close>

definition getBackup :: "Sys \<Rightarrow> string \<Rightarrow> string \<Rightarrow> apierr + CheckpointBackup" where
  "getBackup s namespace name =
     (case w_fault s GetBackup of
        Some err \<Rightarrow> Inl err
      | None \<Rightarrow>
          (case w_backups s (namespace, name) of
             None \<Rightarrow> Inl (NotFound (''checkpointbackups '' @ name @ '' not found''))
           | Some backup \<Rightarrow> Inr backup))"

definition getPod :: "Sys \<Rightarrow> string \<Rightarrow> string \<Rightarrow> apierr + Pod" where
  "getPod s namespace name =
     (case w_fault s GetPod of
        Some err \<Rightarrow> Inl err
      | None \<Rightarrow>
          (case w_pods s (namespace, name) of
             None \<Rightarrow> Inl (NotFound (''pods '' @ name @ '' not found''))
           | Some pod \<Rightarrow> Inr pod))"

text \<open>
  \<open>r.Update\<close>: the type has the status subresource, so the server takes finalizers and
  spec from the request and keeps the stored status and deletion timestamp. An object
  that is being deleted goes away with its last finalizer. The answer is the stored object.
\<close>

definition Update :: "Sys \<Rightarrow> CheckpointBackup \<Rightarrow> Sys \<times> (apierr + CheckpointBackup)" where
  "Update s backup =
     (let s1 = emit (EvUpdate (cb_Namespace backup) (cb_Name backup)) s in
      case w_fault s1 UpdateBackup of
        Some err \<Rightarrow> (s1, Inl err)
      | None \<Rightarrow>
          (case w_backups s1 (cb_Namespace backup, cb_Name backup) of
             None \<Rightarrow> (s1, Inl (NotFound (''checkpointbackups '' @ cb_Name backup @ '' not found'')))
           | Some stored \<Rightarrow>
               (let new = stored\<lparr>cb_Finalizers := cb_Finalizers backup, cb_Spec := cb_Spec backup\<rparr> in
                if cb_DeletionTimestamp new \<noteq> None \<and> cb_Finalizers new = []
                then (s1\<lparr>w_backups := (w_backups s1)((cb_Namespace backup, cb_Name backup) := None)\<rparr>, Inr new)
                else (s1\<lparr>w_backups := (w_backups s1)((cb_Namespace backup, cb_Name backup) \<mapsto> new)\<rparr>, Inr new))))"

text \<open>\<open>r.Status().Update\<close>: only the status of the stored object is replaced.\<close>

definition StatusUpdate :: "Sys \<Rightarrow> CheckpointBackup \<Rightarrow> Sys \<times> apierr option" where
  "StatusUpdate s backup =
     (let s1 = emit (EvStatusUpdate (cb_Namespace backup) (cb_Name backup) (st_Phase (cb_Status backup))) s;
          outcome = (case w_statusFaults s1 of [] \<Rightarrow> None | f # fs \<Rightarrow> f);
          s2 = s1\<lparr>w_statusFaults := tl (w_statusFaults s1)\<rparr>
      in case outcome of
           Some err \<Rightarrow> (s2, Some err)
         | None \<Rightarrow>
             (case w_backups s2 (cb_Namespace backup, cb_Name backup) of
                None \<Rightarrow> (s2, Some (NotFound (''checkpointbackups '' @ cb_Name backup @ '' not found'')))
              | Some stored \<Rightarrow>
                  (s2\<lparr>w_backups := (w_backups s2)((cb_Namespace backup, cb_Name backup) \<mapsto>
                                      stored\<lparr>cb_Status := cb_Status backup\<rparr>)\<rparr>, None)))"

definition DeletePodCall :: "Sys \<Rightarrow> Pod \<Rightarrow> Sys \<times> apierr option" where
  "DeletePodCall s pod =
     (let s1 = emit (EvDeletePod (pod_Namespace pod) (pod_Name pod)) s in
      case w_fault s1 DeletePod of
        Some err \<Rightarrow> (s1, Some err)
      | None \<Rightarrow>
          (case w_pods s1 (pod_Namespace pod, pod_Name pod) of
             None \<Rightarrow> (s1, Some (NotFound (''pods '' @ pod_Name pod @ '' not found'')))
           | Some p \<Rightarrow> (s1\<lparr>w_pods := (w_pods s1)((pod_Namespace pod, pod_Name pod) := None)\<rparr>, None)))"

subsection \<open>Files on the node\<close>

text \<open>\<open>os.Stat(path)\<close> without an \<open>IsNotExist\<close> error.\<close>

definition fileExists :: "Sys \<Rightarrow> string \<Rightarrow> bool" where
  "fileExists s path = (map_of (w_files s) path \<noteq> None)"

text \<open>
  \<open>filepath.Clean\<close>, \<open>filepath.Join\<close> and \<open>filepath.Rel\<close> on Unix paths.
  \<open>Clean\<close> works on the elements between the slashes: empty elements and \<open>.\<close> go
  away, \<open>..\<close> takes the element before it with it, is dropped at the root and is kept at
  the head of a relative path. \<open>Join\<close> joins the elements from the first one that is not
  empty and cleans the result. \<open>Rel\<close> fails when only one of the two paths is rooted (the
  controller ignores the error and goes on with the empty string).
\<close>

fun splitSlash :: "string \<Rightarrow> string list" where
  "splitSlash [] = [[]]"
| "splitSlash (c # cs) =
     (if c = CHR ''/'' then [] # splitSlash cs
      else (case splitSlash cs of
              [] \<Rightarrow> [[c]]
            | x # xs \<Rightarrow> (c # x) # xs))"

fun joinSlash :: "string list \<Rightarrow> string" where
  "joinSlash [] = []"
| "joinSlash [x] = x"
| "joinSlash (x # y # xs) = x @ ''/'' @ joinSlash (y # xs)"

fun cleanElements :: "bool \<Rightarrow> string list \<Rightarrow> string list \<Rightarrow> string list" where
  "cleanElements rooted [] kept = rev kept"
| "cleanElements rooted (e # es) kept =
     (if e = '''' \<or> e = ''.'' then cleanElements rooted es kept
      else if e = ''..'' then
        (case kept of
           [] \<Rightarrow> if rooted then cleanElements rooted es kept else cleanElements rooted es [e]
         | k # ks \<Rightarrow> if k = ''..'' then cleanElements rooted es (e # kept)
                     else cleanElements rooted es ks)
      else cleanElements rooted es (e # kept))"

definition isRooted :: "string \<Rightarrow> bool" where
  "isRooted path = (case path of [] \<Rightarrow> False | c # cs \<Rightarrow> c = CHR ''/'')"

definition Clean :: "string \<Rightarrow> string" where
  "Clean path =
     (let out = (if isRooted path then ''/'' else '''')
                @ joinSlash (cleanElements (isRooted path) (splitSlash path) [])
      in if out = '''' then ''.'' else out)"

definition Join :: "string \<Rightarrow> string \<Rightarrow> string" where
  "Join dir name =
     (if dir \<noteq> '''' then Clean (dir @ ''/'' @ name)
      else if name \<noteq> '''' then Clean name
      else '''')"

fun dropCommon :: "string list \<Rightarrow> string list \<Rightarrow> string list \<times> string list" where
  "dropCommon (b # bs) (t # ts) = (if b = t then dropCommon bs ts else (b # bs, t # ts))"
| "dropCommon bs ts = (bs, ts)"

definition Rel :: "string \<Rightarrow> string \<Rightarrow> string" where
  "Rel basepath targpath =
     (let base = Clean basepath; targ = Clean targpath in
      if targ = base then ''.''
      else if isRooted base \<noteq> isRooted targ then ''''
      else (case dropCommon (cleanElements (isRooted base) (splitSlash base) [])
                            (cleanElements (isRooted targ) (splitSlash targ) []) of
              (bs, ts) \<Rightarrow>
                if bs \<noteq> [] \<and> hd bs = ''..'' then ''''
                else joinSlash (map (\<lambda>b. ''..'') bs @ ts)))"

definition TrimPrefix :: "string \<Rightarrow> string \<Rightarrow> string" where
  "TrimPrefix s p = (if prefix p s then drop (length p) s else s)"

definition deleteCheckpointFile :: "Sys \<Rightarrow> string \<Rightarrow> Sys \<times> apierr option" where
  "deleteCheckpointFile s checkpointPath =
     (if \<not> fileExists s checkpointPath then (s, None)
      else (let s1 = emit (EvRemove checkpointPath) s in
            case w_fault s1 RemoveFile of
              Some err \<Rightarrow> (s1, Some (wrap (''failed to remove checkpoint file '' @ checkpointPath) err))
            | None \<Rightarrow> (s1\<lparr>w_files := AList.delete checkpointPath (w_files s1)\<rparr>, None)))"

subsection \<open>Status helpers\<close>

definition shouldStopPod :: "CheckpointBackup \<Rightarrow> bool" where
  "shouldStopPod backup = (sp_StopPod (cb_Spec backup) = Some True)"

definition getCheckpointFilePath :: "CheckpointBackup \<Rightarrow> string \<Rightarrow> string option" where
  "getCheckpointFilePath backup containerName =
     map_option cf_FilePath
       (find (\<lambda>checkpointFile. cf_ContainerName checkpointFile = containerName)
          (st_CheckpointFiles (cb_Status backup)))"

definition setPhase :: "string \<Rightarrow> string \<Rightarrow> CheckpointBackup \<Rightarrow> CheckpointBackup" where
  "setPhase phase message backup =
     backup\<lparr>cb_Status := (cb_Status backup)\<lparr>st_Phase := phase, st_Message := message\<rparr>\<rparr>"

text \<open>
  The retry loops run \<open>for i := 0; i < maxRetries; i++\<close> with \<open>maxRetries = 3\<close>; the
  first argument counts the rounds that are left, so \<open>i < maxRetries - 1\<close> is "a round is
  left after this one".
\<close>

fun updatePhaseLoop ::
  "nat \<Rightarrow> Sys \<Rightarrow> CheckpointBackup \<Rightarrow> string \<Rightarrow> string \<Rightarrow> Sys \<times> CheckpointBackup \<times> apierr option" where
  "updatePhaseLoop 0 s backup phase message =
     (s, backup, Some (Failure ''failed to update backup status after 3 retries''))"
| "updatePhaseLoop (Suc n) s backup phase message =
     (case getBackup s (cb_Namespace backup) (cb_Name backup) of
        Inl err \<Rightarrow> (s, backup, Some (wrap ''failed to get latest backup'' err))
      | Inr latestBackup \<Rightarrow>
          (case StatusUpdate s (setPhase phase message latestBackup) of
             (s', Some err) \<Rightarrow>
               if IsConflict err \<and> n \<noteq> 0 then updatePhaseLoop n s' backup phase message
               else (s', backup, Some (wrap ''failed to update backup status'' err))
           | (s', None) \<Rightarrow> (s', setPhase phase message backup, None)))"

definition updatePhase ::
  "Sys \<Rightarrow> CheckpointBackup \<Rightarrow> string \<Rightarrow> string \<Rightarrow> Sys \<times> CheckpointBackup \<times> apierr option" where
  "updatePhase s backup phase message = updatePhaseLoop 3 s backup phase message"

fun recordCheckpointFileLoop ::
  "nat \<Rightarrow> Sys \<Rightarrow> CheckpointBackup \<Rightarrow> string \<Rightarrow> string \<Rightarrow> Sys \<times> CheckpointBackup \<times> apierr option" where
  "recordCheckpointFileLoop 0 s backup containerName checkpointPath =
     (s, backup, Some (Failure ''failed to record checkpoint file after 3 retries''))"
| "recordCheckpointFileLoop (Suc n) s backup containerName checkpointPath =
     (case getBackup s (cb_Namespace backup) (cb_Name backup) of
        Inl err \<Rightarrow> (s, backup, Some (wrap ''failed to get latest backup'' err))
      | Inr latestBackup \<Rightarrow>
          if list_ex (\<lambda>checkpointFile. cf_ContainerName checkpointFile = containerName \<and>
                                        cf_FilePath checkpointFile = checkpointPath)
               (st_CheckpointFiles (cb_Status latestBackup))
          then (s, backup, None)
          else
            (let newCheckpointFile =
                   \<lparr>cf_ContainerName = containerName, cf_FilePath = checkpointPath,
                    cf_CheckpointTime = e_now s\<rparr>;
                 files = st_CheckpointFiles (cb_Status latestBackup) @ [newCheckpointFile];
                 latestBackup' = latestBackup\<lparr>cb_Status := (cb_Status latestBackup)\<lparr>st_CheckpointFiles := files\<rparr>\<rparr>
             in case StatusUpdate s latestBackup' of
                  (s', Some err) \<Rightarrow>
                    if IsConflict err \<and> n \<noteq> 0
                    then recordCheckpointFileLoop n s' backup containerName checkpointPath
                    else (s', backup, Some (wrap ''failed to update backup status with checkpoint file'' err))
                | (s', None) \<Rightarrow>
                    (s', backup\<lparr>cb_Status := (cb_Status backup)\<lparr>st_CheckpointFiles := files\<rparr>\<rparr>, None)))"

definition recordCheckpointFile ::
  "Sys \<Rightarrow> CheckpointBackup \<Rightarrow> string \<Rightarrow> string \<Rightarrow> Sys \<times> CheckpointBackup \<times> apierr option" where
  "recordCheckpointFile s backup containerName checkpointPath =
     recordCheckpointFileLoop 3 s backup containerName checkpointPath"

fun recordBuiltImageLoop ::
  "nat \<Rightarrow> Sys \<Rightarrow> CheckpointBackup \<Rightarrow> string \<Rightarrow> string \<Rightarrow> bool \<Rightarrow> Sys \<times> CheckpointBackup \<times> apierr option" where
  "recordBuiltImageLoop 0 s backup containerName imageName pushed =
     (s, backup, Some (Failure ''failed to record built image after 3 retries''))"
| "recordBuiltImageLoop (Suc n) s backup containerName imageName pushed =
     (case getBackup s (cb_Namespace backup) (cb_Name backup) of
        Inl err \<Rightarrow> (s, backup, Some (wrap ''failed to get latest backup'' err))
      | Inr latestBackup \<Rightarrow>
          if list_ex (\<lambda>builtImage. bi_ContainerName builtImage = containerName \<and>
                                    bi_ImageName builtImage = imageName)
               (st_BuiltImages (cb_Status latestBackup))
          then (s, backup, None)
          else
            (let newBuiltImage =
                   \<lparr>bi_ContainerName = containerName, bi_ImageName = imageName,
                    bi_BuildTime = e_now s, bi_Pushed = pushed\<rparr>;
                 images = st_BuiltImages (cb_Status latestBackup) @ [newBuiltImage];
                 latestBackup' = latestBackup\<lparr>cb_Status := (cb_Status latestBackup)\<lparr>st_BuiltImages := images\<rparr>\<rparr>
             in case StatusUpdate s latestBackup' of
                  (s', Some err) \<Rightarrow>
                    if IsConflict err \<and> n \<noteq> 0
                    then recordBuiltImageLoop n s' backup containerName imageName pushed
                    else (s', backup, Some (wrap ''failed to update backup status with built image'' err))
                | (s', None) \<Rightarrow>
                    (s', backup\<lparr>cb_Status := (cb_Status backup)\<lparr>st_BuiltImages := images\<rparr>\<rparr>, None)))"

definition recordBuiltImage ::
  "Sys \<Rightarrow> CheckpointBackup \<Rightarrow> string \<Rightarrow> string \<Rightarrow> bool \<Rightarrow> Sys \<times> CheckpointBackup \<times> apierr option" where
  "recordBuiltImage s backup containerName imageName pushed =
     recordBuiltImageLoop 3 s backup containerName imageName pushed"

subsection \<open>Kubelet, builder and registry\<close>

text \<open>\<open>filepath.Base\<close>: the last element of a path, trailing slashes dropped first.\<close>

definition Base :: "string \<Rightarrow> string" where
  "Base path =
     (if path = '''' then ''.''
      else (let p = rev (dropWhile (\<lambda>c. c = CHR ''/'') (rev path));
                b = rev (takeWhile (\<lambda>c. c \<noteq> CHR ''/'') (rev p))
            in if b = '''' then ''/'' else b))"

definition CreateCheckpoint ::
  "Sys \<Rightarrow> KubeletClient \<Rightarrow> string \<Rightarrow> string \<Rightarrow> string \<Rightarrow> Sys \<times> (apierr + string)" where
  "CreateCheckpoint s kc namespace podName containerName =
     (let url = kc_kubeletURL kc @ ''/checkpoint/'' @ namespace @ ''/'' @ podName @ ''/'' @ containerName
                @ ''?timeout=300'';
          s1 = emit (EvKubelet url) s
      in case e_kubelet s1 url of
           (TransportError err, written) \<Rightarrow>
             (s1, Inl (Failure (''failed to call kubelet checkpoint API: '' @ err)))
         | (HttpReply code body items, written) \<Rightarrow>
             if code \<noteq> 200 then
               (s1, Inl (Failure (''kubelet checkpoint API returned status '' @ string_of_nat code @ '': '' @ body)))
             else
               (let s2 = s1\<lparr>w_files := fold (\<lambda>(p, t) fs. AList.update p t fs) written (w_files s1)\<rparr> in
                case items of
                  None \<Rightarrow> (s2, Inr ''unknown-checkpoint-file'')
                | Some [] \<Rightarrow> (s2, Inr ''unknown-checkpoint-file'')
                | Some (checkpointPath # rest) \<Rightarrow>
                    if prefix (CheckpointBasePath @ ''/'') checkpointPath
                    then (s2, Inr (TrimPrefix checkpointPath (CheckpointBasePath @ ''/'')))
                    else if prefix ''/var/lib/kubelet/checkpoints/'' checkpointPath
                    then (s2, Inr (TrimPrefix checkpointPath ''/var/lib/kubelet/checkpoints/''))
                    else (s2, Inr (Base checkpointPath))))"

text \<open>
  The scan of \<open>findCheckpointFile\<close>: among the matches of the pattern, the one modified
  last within the past 30 seconds (the first of those with the latest time), and when
  there is none, the last match. A match that cannot be read is passed over. The result is
  the chosen match relative to the base path (\<open>filepath.Rel\<close>, its error ignored).
\<close>

fun mostRecent :: "Sys \<Rightarrow> string list \<Rightarrow> (string \<times> nat) option \<Rightarrow> (string \<times> nat) option" where
  "mostRecent s [] best = best"
| "mostRecent s (m # matches) best =
     (case map_of (w_files s) m of
        None \<Rightarrow> mostRecent s matches best
      | Some modTime \<Rightarrow>
          if int (e_now s) - int modTime < 30 \<and>
             (case best of None \<Rightarrow> True | Some (f, t) \<Rightarrow> t < modTime)
          then mostRecent s matches (Some (m, modTime))
          else mostRecent s matches best)"

definition findCheckpointFile :: "Sys \<Rightarrow> string \<Rightarrow> string \<Rightarrow> string \<Rightarrow> string \<Rightarrow> apierr + string" where
  "findCheckpointFile s namespace podName containerName expectedPath =
     (if fileExists s (Join CheckpointBasePath expectedPath) then Inr expectedPath
      else
        (let podFullName = namespace @ ''_'' @ podName;
             pattern = ''checkpoint-'' @ podFullName @ ''-'' @ containerName @ ''-*.tar'';
             fullPattern = Join CheckpointBasePath pattern;
             matches = e_glob s fullPattern
         in if length matches = 0
            then Inl (Failure (''no checkpoint files found for pattern '' @ pattern))
            else (let mostRecentFile =
                        (case mostRecent s matches None of
                           Some (f, t) \<Rightarrow> f
                         | None \<Rightarrow> last matches)
                  in Inr (Rel CheckpointBasePath mostRecentFile))))"

definition run :: "Sys \<Rightarrow> string list \<Rightarrow> Sys \<times> (string + string)" where
  "run s cmd = (emit (EvExec cmd) s, e_exec s cmd)"

text \<open>
  \<open>strings.TrimSpace\<close> on the bytes of a Go string. White space is what
  \<open>unicode.IsSpace\<close> accepts: tab, line feed, vertical tab, form feed, carriage return
  and space, and in UTF-8 the characters U+0085, U+00A0, U+1680, U+2000 to U+200A, U+2028,
  U+2029, U+202F, U+205F and U+3000. \<open>spaceLen\<close> is the number of bytes of such a
  character at the head of the string, \<open>spaceLenRev\<close> the same for the end of a string
  that is given in reverse; both are 0 when there is none.
\<close>

definition asciiSpace :: "char \<Rightarrow> bool" where
  "asciiSpace c = (c = CHR 0x09 \<or> c = CHR 0x0A \<or> c = CHR 0x0B \<or> c = CHR 0x0C \<or> c = CHR 0x0D \<or> c = CHR 0x20)"

definition wideSpace :: "char \<Rightarrow> char \<Rightarrow> char \<Rightarrow> bool" where
  "wideSpace a b c =
     ((a = CHR 0xE1 \<and> b = CHR 0x9A \<and> c = CHR 0x80) \<or>
      (a = CHR 0xE2 \<and> b = CHR 0x80 \<and>
         (c \<in> set [CHR 0x80, CHR 0x81, CHR 0x82, CHR 0x83, CHR 0x84, CHR 0x85, CHR 0x86, CHR 0x87,
                    CHR 0x88, CHR 0x89, CHR 0x8A, CHR 0xA8, CHR 0xA9, CHR 0xAF])) \<or>
      (a = CHR 0xE2 \<and> b = CHR 0x81 \<and> c = CHR 0x9F) \<or>
      (a = CHR 0xE3 \<and> b = CHR 0x80 \<and> c = CHR 0x80))"

definition spaceLen :: "string \<Rightarrow> nat" where
  "spaceLen s =
     (case s of
        [] \<Rightarrow> 0
      | a # r1 \<Rightarrow>
          if asciiSpace a then 1
          else (case r1 of
                  [] \<Rightarrow> 0
                | b # r2 \<Rightarrow>
                    if a = CHR 0xC2 \<and> (b = CHR 0x85 \<or> b = CHR 0xA0) then 2
                    else (case r2 of
                            [] \<Rightarrow> 0
                          | c # r3 \<Rightarrow> if wideSpace a b c then 3 else 0)))"

definition spaceLenRev :: "string \<Rightarrow> nat" where
  "spaceLenRev s =
     (case s of
        [] \<Rightarrow> 0
      | c # r1 \<Rightarrow>
          if asciiSpace c then 1
          else (case r1 of
                  [] \<Rightarrow> 0
                | b # r2 \<Rightarrow>
                    if b = CHR 0xC2 \<and> (c = CHR 0x85 \<or> c = CHR 0xA0) then 2
                    else (case r2 of
                            [] \<Rightarrow> 0
                          | a # r3 \<Rightarrow> if wideSpace a b c then 3 else 0)))"

fun trimLeft :: "string \<Rightarrow> string" where
  "trimLeft [] = []"
| "trimLeft (a # s) =
     (if spaceLen (a # s) = 0 then a # s else trimLeft (drop (spaceLen (a # s) - 1) s))"

fun trimLeftRev :: "string \<Rightarrow> string" where
  "trimLeftRev [] = []"
| "trimLeftRev (c # s) =
     (if spaceLenRev (c # s) = 0 then c # s else trimLeftRev (drop (spaceLenRev (c # s) - 1) s))"

definition TrimSpace :: "string \<Rightarrow> string" where
  "TrimSpace s = rev (trimLeftRev (rev (trimLeft s)))"

text \<open>
  \<open>buildCheckpointImage\<close>. The deferred \<open>buildah rm\<close> runs on every return after the
  working container exists; its result is ignored.
\<close>

definition buildCheckpointImage ::
  "Sys \<Rightarrow> string \<Rightarrow> string \<Rightarrow> string \<Rightarrow> string \<Rightarrow> Sys \<times> apierr option" where
  "buildCheckpointImage s checkpointPath imageName baseImage containerName =
     (let fullCheckpointPath = Join CheckpointBasePath checkpointPath in
      if \<not> fileExists s fullCheckpointPath
      then (s, Some (Failure (''checkpoint file does not exist: '' @ fullCheckpointPath)))
      else
        (case run s [''buildah'', ''from'', ''scratch''] of
           (s1, Inl err) \<Rightarrow> (s1, Some (Failure (''failed to create buildah container: '' @ err)))
         | (s1, Inr out) \<Rightarrow>
             (let newContainer = TrimSpace out;
                  cleanup = (\<lambda>st. fst (run st [''buildah'', ''rm'', newContainer]))
              in case run s1 [''buildah'', ''add'', newContainer, fullCheckpointPath, ''/''] of
                   (s2, Inl err) \<Rightarrow>
                     (cleanup s2, Some (Failure (''failed to add checkpoint to container ('' @ fullCheckpointPath @ ''): '' @ err)))
                 | (s2, Inr out2) \<Rightarrow>
                     (case run s2 [''buildah'', ''config'',
                                   ''--annotation=io.kubernetes.cri-o.annotations.checkpoint.name='' @ imageName,
                                   newContainer] of
                        (s3, Inl err) \<Rightarrow>
                          (cleanup s3, Some (Failure (''failed to add checkpoint name annotation: '' @ err)))
                      | (s3, Inr out3) \<Rightarrow>
                          (case run s3 [''buildah'', ''config'',
                                        ''--annotation=io.kubernetes.cri-o.annotations.checkpoint.rootfsImageName='' @ baseImage,
                                        newContainer] of
                             (s4, Inl err) \<Rightarrow>
                               (cleanup s4, Some (Failure (''failed to add rootfs image annotation: '' @ err)))
                           | (s4, Inr out4) \<Rightarrow>
                               (case run s4 [''buildah'', ''commit'', newContainer, imageName] of
                                  (s5, Inl err) \<Rightarrow>
                                    (cleanup s5, Some (Failure (''failed to commit image: '' @ err)))
                                | (s5, Inr out5) \<Rightarrow> (cleanup s5, None)))))))"

definition registryHost :: "RegistryClient \<Rightarrow> string" where
  "registryHost rc = TrimPrefix (TrimPrefix (rc_registry rc) ''http://'') ''https://''"

definition login :: "Sys \<Rightarrow> RegistryClient \<Rightarrow> string \<Rightarrow> Sys \<times> apierr option" where
  "login s rc imageName =
     (let registryURL = registryHost rc in
      case run s [''buildah'', ''login'', ''-u'', rc_username rc, ''-p'', rc_password rc, registryURL] of
        (s1, Inl err) \<Rightarrow> (s1, Some (Failure (''failed to login to registry '' @ registryURL @ '': '' @ err)))
      | (s1, Inr out) \<Rightarrow> (s1, None))"

definition PushImage :: "Sys \<Rightarrow> RegistryClient \<Rightarrow> string \<Rightarrow> Sys \<times> apierr option" where
  "PushImage s rc imageName =
     (case login s rc imageName of
        (s1, Some err) \<Rightarrow> (s1, Some (wrap ''failed to login to registry'' err))
      | (s1, None) \<Rightarrow>
          (let destinationImage = registryHost rc @ ''/'' @ imageName in
           case run s1 [''buildah'', ''push'', imageName, destinationImage] of
             (s2, Inl err) \<Rightarrow>
               (s2, Some (Failure (''failed to push image '' @ imageName @ '' to '' @ destinationImage @ '': '' @ err)))
           | (s2, Inr out) \<Rightarrow> (s2, None)))"

subsection \<open>The capture pipeline for one container\<close>

text \<open>
  The resume check at the head of \<open>checkpointContainer\<close>. \<open>None\<close>: the status names a
  file that is gone and an image is recorded for the container, the function returns at
  once. \<open>Some path\<close>: the value of \<open>checkpointPath\<close> after the check, empty when a
  checkpoint has to be taken.
\<close>

definition resumeCheck :: "Sys \<Rightarrow> CheckpointBackup \<Rightarrow> Container \<Rightarrow> string option" where
  "resumeCheck s backup container =
     (case getCheckpointFilePath backup (c_Name container) of
        None \<Rightarrow> Some ''''
      | Some existingPath \<Rightarrow>
          if \<not> fileExists s (Join CheckpointBasePath existingPath) then
            (if list_ex (\<lambda>builtImage. bi_ContainerName builtImage = c_Name container)
                  (st_BuiltImages (cb_Status backup))
             then None else Some '''')
          else Some existingPath)"

text \<open>
  The block under \<open>if checkpointPath == ""\<close>. A failed status write is logged and the
  function goes on; only a failed kubelet call ends it. A reconciler whose kubelet client
  was never set up would dereference nil here, which the model returns as an error.
\<close>

definition createStage ::
  "Sys \<Rightarrow> CheckpointBackup \<Rightarrow> Container \<Rightarrow> Sys \<times> CheckpointBackup \<times> (apierr + string)" where
  "createStage s backup container =
     (case updatePhase s backup PhaseCheckpointing (''Creating checkpoint for container '' @ c_Name container) of
        (s1, b1, e1) \<Rightarrow>
          (case r_KubeletClient s1 of
             None \<Rightarrow> (s1, b1, Inl (Failure ''nil pointer dereference: KubeletClient''))
           | Some kc \<Rightarrow>
               (case CreateCheckpoint s1 kc (pr_Namespace (sp_PodRef (cb_Spec b1)))
                       (pr_Name (sp_PodRef (cb_Spec b1))) (c_Name container) of
                  (s2, Inl err) \<Rightarrow>
                    (case updatePhase s2 b1 PhaseFailed (''Failed to create checkpoint: '' @ errText err) of
                       (s3, b3, e3) \<Rightarrow> (s3, b3, Inl (wrap ''failed to create checkpoint via kubelet API'' err)))
                | (s2, Inr checkpointPath) \<Rightarrow>
                    (case recordCheckpointFile s2 b1 (c_Name container) checkpointPath of
                       (s3, b3, e3) \<Rightarrow>
                         (case updatePhase s3 b3 PhaseCheckpointed
                                 (''Checkpoint created for container '' @ c_Name container @ '': '' @ checkpointPath) of
                            (s4, b4, e4) \<Rightarrow> (s4, b4, Inr checkpointPath))))))"

text \<open>Step 3 of \<open>checkpointContainer\<close>: the name of the image to build.\<close>

definition resolveImageName :: "Sys \<Rightarrow> CheckpointBackup \<Rightarrow> Container \<Rightarrow> string" where
  "resolveImageName s backup container =
     (if sp_Registry (cb_Spec backup) = None \<or> c_Image container = ''''
      then ''localhost/checkpoint-'' @ pr_Name (sp_PodRef (cb_Spec backup)) @ ''-'' @ c_Name container
           @ '':'' @ e_timestamp s
      else c_Image container)"

definition baseImageOf :: "Pod \<Rightarrow> string \<Rightarrow> string" where
  "baseImageOf pod name =
     (case find (\<lambda>c. pc_Name c = name) (pod_Containers pod) of
        Some c \<Rightarrow> pc_Image c
      | None \<Rightarrow> '''')"

text \<open>Steps 5 to 7: push when a registry is configured, record the image, remove the file.\<close>

definition pushStage ::
  "Sys \<Rightarrow> CheckpointBackup \<Rightarrow> Container \<Rightarrow> string \<Rightarrow> string \<Rightarrow> Sys \<times> CheckpointBackup \<times> apierr option" where
  "pushStage s backup container imageName fullCheckpointPath =
     (case (case (sp_Registry (cb_Spec backup), r_RegistryClient s) of
              (Some registry, Some rc) \<Rightarrow>
                (case updatePhase s backup PhaseImagePushing (''Pushing image '' @ imageName @ '' to registry'') of
                   (s1, b1, e1) \<Rightarrow>
                     (case PushImage s1 rc imageName of
                        (s2, Some err) \<Rightarrow>
                          (case updatePhase s2 b1 PhaseFailed (''Failed to push image: '' @ errText err) of
                             (s3, b3, e3) \<Rightarrow> (s3, b3, Inl (wrap ''failed to push checkpoint image'' err)))
                      | (s2, None) \<Rightarrow>
                          (case updatePhase s2 b1 PhaseImagePushed (''Image pushed successfully: '' @ imageName) of
                             (s3, b3, e3) \<Rightarrow> (s3, b3, Inr True))))
            | _ \<Rightarrow> (s, backup, Inr False)) of
        (s3, b3, Inl err) \<Rightarrow> (s3, b3, Some err)
      | (s3, b3, Inr pushed) \<Rightarrow>
          (case recordBuiltImage s3 b3 (c_Name container) imageName pushed of
             (s4, b4, e4) \<Rightarrow>
               if sp_Registry (cb_Spec b4) = None \<or> pushed
               then (fst (deleteCheckpointFile s4 fullCheckpointPath), b4, None)
               else (s4, b4, None)))"

text \<open>
  Steps 1.5 to 4. \<open>fullCheckpointPath\<close> is computed before the search for another
  file and is not computed again after it; the build works on \<open>checkpointPath\<close>.
\<close>

definition buildStage ::
  "Sys \<Rightarrow> CheckpointBackup \<Rightarrow> Pod \<Rightarrow> Container \<Rightarrow> string \<Rightarrow> Sys \<times> CheckpointBackup \<times> apierr option" where
  "buildStage s backup pod container checkpointPath0 =
     (let fullCheckpointPath = Join CheckpointBasePath checkpointPath0 in
      case (if \<not> fileExists s fullCheckpointPath
            then findCheckpointFile s (pr_Namespace (sp_PodRef (cb_Spec backup)))
                   (pr_Name (sp_PodRef (cb_Spec backup))) (c_Name container) checkpointPath0
            else Inr checkpointPath0) of
        Inl err \<Rightarrow> (s, backup, Some (wrap ''failed to find checkpoint file after creation'' err))
      | Inr checkpointPath \<Rightarrow>
          (let baseImage = baseImageOf pod (c_Name container) in
           if baseImage = ''''
           then (s, backup, Some (Failure (''could not find base image for container '' @ c_Name container)))
           else
             (let imageName = resolveImageName s backup container in
              case updatePhase s backup PhaseImageBuilding
                     (''Building checkpoint image for container '' @ c_Name container) of
                (s1, b1, e1) \<Rightarrow>
                  (case buildCheckpointImage s1 checkpointPath imageName baseImage (c_Name container) of
                     (s2, Some err) \<Rightarrow>
                       (case updatePhase s2 b1 PhaseFailed (''Failed to build image: '' @ errText err) of
                          (s3, b3, e3) \<Rightarrow> (s3, b3, Some (wrap ''failed to build checkpoint image'' err)))
                   | (s2, None) \<Rightarrow>
                       (case updatePhase s2 b1 PhaseImageBuilt
                               (''Image built successfully for container '' @ c_Name container @ '': '' @ imageName) of
                          (s3, b3, e3) \<Rightarrow> pushStage s3 b3 container imageName fullCheckpointPath)))))"

definition checkpointContainer ::
  "Sys \<Rightarrow> CheckpointBackup \<Rightarrow> Pod \<Rightarrow> Container \<Rightarrow> Sys \<times> CheckpointBackup \<times> apierr option" where
  "checkpointContainer s backup pod container =
     (case resumeCheck s backup container of
        None \<Rightarrow> (s, backup, None)
      | Some checkpointPath \<Rightarrow>
          (case (if checkpointPath = '''' then createStage s backup container
                 else (s, backup, Inr checkpointPath)) of
             (s1, b1, Inl err) \<Rightarrow> (s1, b1, Some err)
           | (s1, b1, Inr path) \<Rightarrow> buildStage s1 b1 pod container path))"

subsection \<open>performCheckpoint\<close>

fun checkpointContainers ::
  "Sys \<Rightarrow> CheckpointBackup \<Rightarrow> Pod \<Rightarrow> Container list \<Rightarrow> Sys \<times> CheckpointBackup \<times> apierr option" where
  "checkpointContainers s backup pod [] = (s, backup, None)"
| "checkpointContainers s backup pod (container # rest) =
     (case checkpointContainer s backup pod container of
        (s1, b1, Some err) \<Rightarrow> (s1, b1, Some err)
      | (s1, b1, None) \<Rightarrow> checkpointContainers s1 b1 pod rest)"

definition containersToProcess :: "CheckpointBackup \<Rightarrow> Pod \<Rightarrow> Container list" where
  "containersToProcess backup pod =
     (if length (sp_Containers (cb_Spec backup)) = 0 \<and> sp_Registry (cb_Spec backup) = None
      then sp_Containers (cb_Spec backup)
           @ map (\<lambda>podContainer. \<lparr>c_Name = pc_Name podContainer, c_Image = ''''\<rparr>) (pod_Containers pod)
      else sp_Containers (cb_Spec backup))"

definition unscheduleJob :: "Sys \<Rightarrow> string \<Rightarrow> Sys" where
  "unscheduleJob s key =
     (case r_scheduledJobs s key of
        Some entryID \<Rightarrow>
          s\<lparr>r_entries := (r_entries s)(entryID := None),
            r_scheduledJobs := (r_scheduledJobs s)(key := None)\<rparr>
      | None \<Rightarrow> s)"

text \<open>The part of \<open>performCheckpoint\<close> after the loop over the containers.\<close>

definition completeCheckpoint ::
  "Sys \<Rightarrow> CheckpointBackup \<Rightarrow> Pod \<Rightarrow> Sys \<times> CheckpointBackup \<times> apierr option" where
  "completeCheckpoint s backup0 pod =
     (let backup = backup0\<lparr>cb_Status := (cb_Status backup0)\<lparr>st_LastCheckpointTime := Some (e_now s)\<rparr>\<rparr> in
      case updatePhase s backup PhaseCompleted ''All containers checkpointed successfully'' of
        (s1, b1, Some err) \<Rightarrow> (s1, b1, Some err)
      | (s1, b1, None) \<Rightarrow>
          if shouldStopPod b1 then
            (case DeletePodCall s1 pod of
               (s2, Some err) \<Rightarrow>
                 (case updatePhase s2 b1 PhaseCompletedWithError
                         (''Checkpoint completed but failed to delete pod: '' @ errText err) of
                    (s3, b3, e3) \<Rightarrow> (s3, b3, Some err))
             | (s2, None) \<Rightarrow>
                 (case updatePhase (unscheduleJob s2 (backupKey b1)) b1 PhaseCompletedPodDeleted
                         ''Checkpoint completed and pod deleted successfully'' of
                    (s3, b3, Some err) \<Rightarrow> (s3, b3, Some err)
                  | (s3, b3, None) \<Rightarrow> (s3, b3, None)))
          else (s1, b1, None))"

definition performCheckpoint :: "Sys \<Rightarrow> CheckpointBackup \<Rightarrow> Sys \<times> CheckpointBackup \<times> apierr option" where
  "performCheckpoint s backup =
     (let phase = st_Phase (cb_Status backup) in
      if phase = PhaseCompleted \<or> phase = PhaseCompletedPodDeleted \<or> phase = PhaseCompletedWithError
      then (s, backup, None)
      else if phase = PhaseCheckpointing \<or> phase = PhaseCheckpointed \<or> phase = PhaseImageBuilding \<or>
              phase = PhaseImageBuilt \<or> phase = PhaseImagePushing \<or> phase = PhaseImagePushed
      then (s, backup, None)
      else
        (let s0 = emit (EvStart (cb_Namespace backup) (cb_Name backup)) s in
         case getPod s0 (pr_Namespace (sp_PodRef (cb_Spec backup))) (pr_Name (sp_PodRef (cb_Spec backup))) of
           Inl err \<Rightarrow> (s0, backup, Some (wrap ''failed to get pod'' err))
         | Inr pod \<Rightarrow>
             if pod_Phase pod \<noteq> ''Running'' then (s0, backup, None)
             else (case checkpointContainers s0 backup pod (containersToProcess backup pod) of
                     (s1, b1, Some err) \<Rightarrow> (s1, b1, Some err)
                   | (s1, b1, None) \<Rightarrow> completeCheckpoint s1 b1 pod)))"

subsection \<open>Reconcile\<close>

datatype Result = Done | RequeueAfter nat | Error apierr

definition NewKubeletClient :: "Sys \<Rightarrow> apierr + KubeletClient" where
  "NewKubeletClient s =
     (case e_token s of
        None \<Rightarrow> Inl (Failure ''failed to read service account token'')
      | Some tokenBytes \<Rightarrow>
          Inr \<lparr>kc_token = tokenBytes,
               kc_kubeletURL = (if e_nodeIP s \<noteq> '''' then ''https://'' @ e_nodeIP s @ '':10250''
                                else ''https://localhost:10250'')\<rparr>)"

definition secretField :: "(string \<times> string) list \<Rightarrow> string \<Rightarrow> string" where
  "secretField secretData k = (case map_of secretData k of Some v \<Rightarrow> v | None \<Rightarrow> '''')"

definition NewRegistryClient :: "Sys \<Rightarrow> Registry \<Rightarrow> apierr + RegistryClient" where
  "NewRegistryClient s registryConfig =
     (let secretName = (case reg_SecretRef registryConfig of
                          Some ref \<Rightarrow> sr_Name ref | None \<Rightarrow> ''registry-credentials'');
          secretNamespace = (case reg_SecretRef registryConfig of
                               Some ref \<Rightarrow> (if sr_Namespace ref \<noteq> '''' then sr_Namespace ref
                                             else ''stateful-migration'')
                             | None \<Rightarrow> ''stateful-migration'');
          secretPath = secretNamespace @ ''/'' @ secretName
      in case (case w_fault s GetSecret of
                 Some err \<Rightarrow> Inl err
               | None \<Rightarrow> (case w_secrets s (secretNamespace, secretName) of
                             None \<Rightarrow> Inl (NotFound (''secrets '' @ secretName @ '' not found''))
                           | Some secretData \<Rightarrow> Inr secretData)) of
           Inl err \<Rightarrow> Inl (wrap (''failed to get registry credentials secret '' @ secretPath) err)
         | Inr secretData \<Rightarrow>
             (let username = secretField secretData ''username'';
                  password = secretField secretData ''password'';
                  registry = secretField secretData ''registry''
              in if username = '''' \<or> password = ''''
                 then Inl (Failure (''registry credentials are empty in secret '' @ secretPath))
                 else (let registryURL = reg_URL registryConfig;
                           registryURL = (if registryURL = '''' \<and> registry \<noteq> '''' then registry else registryURL);
                           registryURL = (if registryURL = '''' then ''docker.io'' else registryURL)
                       in Inr \<lparr>rc_username = username, rc_password = password, rc_registry = registryURL\<rparr>)))"

definition initializeClients :: "Sys \<Rightarrow> CheckpointBackup \<Rightarrow> Sys \<times> apierr option" where
  "initializeClients s backup =
     (case (if r_KubeletClient s = None
            then (case NewKubeletClient s of
                    Inl err \<Rightarrow> Inl (wrap ''failed to create kubelet client'' err)
                  | Inr kubeletClient \<Rightarrow> Inr (s\<lparr>r_KubeletClient := Some kubeletClient\<rparr>))
            else Inr s) of
        Inl err \<Rightarrow> (s, Some err)
      | Inr s1 \<Rightarrow>
          (case (case (r_RegistryClient s1, sp_Registry (cb_Spec backup)) of
                   (None, Some registry) \<Rightarrow>
                     (case NewRegistryClient s1 registry of
                        Inl err \<Rightarrow> Inl (wrap ''failed to create registry client'' err)
                      | Inr registryClient \<Rightarrow> Inr (s1\<lparr>r_RegistryClient := Some registryClient\<rparr>))
                 | _ \<Rightarrow> Inr s1) of
             Inl err \<Rightarrow> (s1, Some err)
           | Inr s2 \<Rightarrow>
               if \<not> r_Scheduler s2
               then (s2\<lparr>r_Scheduler := True, r_scheduledJobs := Map.empty, r_entries := Map.empty\<rparr>, None)
               else (s2, None)))"

definition isPodOnThisNode :: "Sys \<Rightarrow> CheckpointBackup \<Rightarrow> apierr + bool" where
  "isPodOnThisNode s backup =
     (case getPod s (pr_Namespace (sp_PodRef (cb_Spec backup))) (pr_Name (sp_PodRef (cb_Spec backup))) of
        Inl err \<Rightarrow> if IsNotFound err then Inr False else Inl err
      | Inr pod \<Rightarrow> Inr (pod_NodeName pod = r_NodeName s))"

text \<open>
  The closure handed to \<open>AddFunc\<close> holds the pointer \<open>backup\<close>, the same object that the
  reconcile passes to \<open>performCheckpoint\<close> and that \<open>updatePhase\<close> keeps in step with
  the writes. \<open>syncEntry\<close> stores the object as a call has left it in the entry, when the
  entry is still scheduled.
\<close>

definition syncEntry :: "Sys \<Rightarrow> nat \<Rightarrow> CheckpointBackup \<Rightarrow> Sys" where
  "syncEntry s entryID backup =
     (if r_entries s entryID \<noteq> None then s\<lparr>r_entries := (r_entries s)(entryID \<mapsto> backup)\<rparr> else s)"

definition reconcileNormal :: "Sys \<Rightarrow> CheckpointBackup \<Rightarrow> Sys \<times> Result" where
  "reconcileNormal s backup =
     (if sp_Schedule (cb_Spec backup) = ''immediately'' then
        (if st_Phase (cb_Status backup) \<noteq> '''' then (s, Done)
         else (case performCheckpoint s backup of
                 (s1, b1, Some err) \<Rightarrow> (s1, Error err)
               | (s1, b1, None) \<Rightarrow> (s1, Done)))
      else
        (let s1 = unscheduleJob s (backupKey backup) in
         if \<not> e_cronValid s1 (sp_Schedule (cb_Spec backup))
         then (s1, Error (Failure (''failed to parse schedule '' @ sp_Schedule (cb_Spec backup))))
         else
           (let entryID = r_nextEntry s1;
                s2 = s1\<lparr>r_entries := (r_entries s1)(entryID \<mapsto> backup),
                        r_nextEntry := Suc entryID,
                        r_scheduledJobs := (r_scheduledJobs s1)(backupKey backup \<mapsto> entryID)\<rparr>
            in if st_LastCheckpointTime (cb_Status backup) = None then
                 (case performCheckpoint s2 backup of
                    (s3, b3, Some err) \<Rightarrow> (syncEntry s3 entryID b3, Error err)
                  | (s3, b3, None) \<Rightarrow> (syncEntry s3 entryID b3, RequeueAfter 3600))
               else (s2, RequeueAfter 3600))))"

text \<open>A cron entry fires: its closure calls \<open>performCheckpoint\<close> on the captured object.\<close>

definition cronFire :: "Sys \<Rightarrow> nat \<Rightarrow> Sys" where
  "cronFire s entryID =
     (case r_entries s entryID of
        None \<Rightarrow> s
      | Some backup \<Rightarrow>
          (case performCheckpoint s backup of
             (s1, b1, e1) \<Rightarrow> syncEntry s1 entryID b1))"

definition reconcileDelete :: "Sys \<Rightarrow> CheckpointBackup \<Rightarrow> Sys \<times> Result" where
  "reconcileDelete s backup =
     (let s1 = unscheduleJob s (backupKey backup);
          backup' = backup\<lparr>cb_Finalizers := filter (\<lambda>f. f \<noteq> CheckpointBackupFinalizer) (cb_Finalizers backup)\<rparr>
      in case Update s1 backup' of
           (s2, Inl err) \<Rightarrow> (s2, Error err)
         | (s2, Inr stored) \<Rightarrow> (s2, Done))"

definition ensureFinalizer :: "Sys \<Rightarrow> CheckpointBackup \<Rightarrow> Sys \<times> (apierr + CheckpointBackup)" where
  "ensureFinalizer s backup =
     (if CheckpointBackupFinalizer \<notin> set (cb_Finalizers backup)
      then Update s (backup\<lparr>cb_Finalizers := cb_Finalizers backup @ [CheckpointBackupFinalizer]\<rparr>)
      else (s, Inr backup))"

definition Reconcile :: "Sys \<Rightarrow> string \<Rightarrow> string \<Rightarrow> Sys \<times> Result" where
  "Reconcile s namespace name =
     (case getBackup s namespace name of
        Inl err \<Rightarrow>
          if IsNotFound err
          then ((if r_Scheduler s then unscheduleJob s (namespace @ ''/'' @ name) else s), Done)
          else (s, Error err)
      | Inr checkpointBackup \<Rightarrow>
          (case initializeClients s checkpointBackup of
             (s1, Some err) \<Rightarrow> (s1, Error err)
           | (s1, None) \<Rightarrow>
               (case ensureFinalizer s1 checkpointBackup of
                  (s2, Inl err) \<Rightarrow> (s2, Error err)
                | (s2, Inr backup) \<Rightarrow>
                    if cb_DeletionTimestamp backup \<noteq> None then reconcileDelete s2 backup
                    else if st_Phase (cb_Status backup) = PhaseCompletedPodDeleted then (s2, Done)
                    else (case isPodOnThisNode s2 backup of
                            Inl err \<Rightarrow> (s2, Error err)
                          | Inr isOnThisNode \<Rightarrow>
                              if \<not> isOnThisNode then (s2, Done)
                              else reconcileNormal s2 backup))))"

section \<open>Statement vocabulary and example objects\<close>

text \<open>
  An item of the list matches the incoming pod in \<open>handleMutate\<close> when it has a
  \<open>spec\<close> object and passes \<open>nameMatch\<close>: the two tests the loop makes before it
  reads the images.
\<close>

definition itemMatches :: "string \<Rightarrow> string \<Rightarrow> json_object \<Rightarrow> bool" where
  "itemMatches targetName genPrefix it =
     (case as_map (map_of it ''spec'') of
        None \<Rightarrow> False
      | Some spec \<Rightarrow> nameMatch targetName genPrefix spec)"

text \<open>
  The objects of the spec's scenarios: namespace \<open>t\<close>, pod \<open>app-0\<close>, container
  \<open>web\<close>, the Job \<open>restore-xyz\<close> and its pod \<open>restore-xyz-r2d2\<close>.
\<close>

definition ex_jobRef :: ResourceRef where
  "ex_jobRef = \<lparr>rr_APIVersion = ''batch/v1'', rr_Kind = ''Job'', rr_Name = ''restore-xyz'', rr_Namespace = ''t''\<rparr>"

definition ex_cronRef :: ResourceRef where
  "ex_cronRef = \<lparr>rr_APIVersion = ''batch/v1'', rr_Kind = ''CronJob'', rr_Name = ''nightly'', rr_Namespace = ''t''\<rparr>"

definition ex_backup :: "string \<Rightarrow> ResourceRef \<Rightarrow> Container list \<Rightarrow> BuiltImage list \<Rightarrow> CheckpointBackup" where
  "ex_backup name ref containers images =
     \<lparr>cb_Name = name, cb_Namespace = ''t'', cb_Finalizers = [], cb_DeletionTimestamp = None,
      cb_Spec = \<lparr>sp_Schedule = ''immediately'', sp_StopPod = None,
                 sp_PodRef = \<lparr>pr_Name = ''app-0'', pr_Namespace = ''t''\<rparr>,
                 sp_ResourceRef = ref, sp_Registry = None, sp_Containers = containers\<rparr>,
      cb_Status = \<lparr>st_Phase = ''Completed'', st_LastCheckpointTime = None, st_Message = '''',
                   st_BuiltImages = images, st_CheckpointFiles = []\<rparr>\<rparr>"

definition ex_jobPod :: "string \<Rightarrow> Pod" where
  "ex_jobPod img =
     \<lparr>pod_Name = ''restore-xyz-r2d2'', pod_Namespace = ''t'', pod_GenerateName = ''restore-xyz-'',
      pod_OwnerReferences = [\<lparr>or_APIVersion = ''batch/v1'', or_Kind = ''Job'', or_Name = ''restore-xyz''\<rparr>],
      pod_NodeName = '''', pod_Phase = ''Pending'',
      pod_Containers = [\<lparr>pc_Name = ''web'', pc_Image = img\<rparr>],
      pod_InitContainers = []\<rparr>"

definition ex_restoreItem :: "string \<Rightarrow> string \<Rightarrow> string \<Rightarrow> json_object" where
  "ex_restoreItem name podName img =
     [(''metadata'', JObj [(''name'', JStr name), (''namespace'', JStr ''t'')]),
      (''spec'', JObj [(''podName'', JStr podName),
                       (''containers'', JArr [JObj [(''name'', JStr ''web''), (''image'', JStr img)]])])]"

definition ex_createPod :: AdmissionRequest where
  "ex_createPod = \<lparr>ar_Kind = ''Pod'', ar_Version = ''v1'', ar_Operation = ''CREATE'', ar_Namespace = ''t''\<rparr>"

text \<open>
  Scenario S5 of the spec: a migration over the clusters \<open>c1\<close> and \<open>c2\<close>, one
  binding for the workload, and one CheckpointBackup \<open>cb1\<close> taken for it.
\<close>

definition ex_podRef :: ResourceRef where
  "ex_podRef = \<lparr>rr_APIVersion = ''v1'', rr_Kind = ''Pod'', rr_Name = ''p'', rr_Namespace = ''t''\<rparr>"

definition ex_stsRef :: ResourceRef where
  "ex_stsRef = \<lparr>rr_APIVersion = ''apps/v1'', rr_Kind = ''StatefulSet'', rr_Name = ''db'', rr_Namespace = ''t''\<rparr>"

definition ex_migration :: "ResourceRef \<Rightarrow> StatefulMigration" where
  "ex_migration ref =
     \<lparr>sm_Name = ''mig'', sm_Namespace = ''stateful-migration'', sm_ResourceRef = ref,
      sm_SourceClusters = [''c1'', ''c2'']\<rparr>"

definition ex_karmada :: "ResourceRef \<Rightarrow> string list \<Rightarrow> Karmada" where
  "ex_karmada ref clusters =
     \<lparr>k_bindings = [\<lparr>rb_Name = ''binding'', rb_Resource = ref,
                      rb_Clusters = map (\<lambda>c. \<lparr>tc_Name = c, tc_Replicas = 1\<rparr>) clusters\<rparr>],
      k_backups = [ex_backup ''cb1'' ref [\<lparr>c_Name = ''web'', c_Image = ''reg.example/ckpt/web:abc''\<rparr>] []],
      k_restores = [], k_policies = [], k_works = [],
      k_fault = (\<lambda>call. None)\<rparr>"

text \<open>
  Scenarios S1, S2 and S6 of the spec: request \<open>cb1\<close> in namespace \<open>t\<close> for pod
  \<open>app-0\<close> with the one container \<open>web\<close>, the checkpoint controller of node
  \<open>N1\<close> before its first reconcile, a kubelet that writes the checkpoint archive and
  answers with its path, and a builder whose commands succeed (or whose push fails).
\<close>

definition ex_request :: "string \<Rightarrow> bool option \<Rightarrow> Registry option \<Rightarrow> Container list \<Rightarrow> string \<Rightarrow> CheckpointBackup" where
  "ex_request schedule stopPod registry containers phase =
     \<lparr>cb_Name = ''cb1'', cb_Namespace = ''t'', cb_Finalizers = [CheckpointBackupFinalizer],
      cb_DeletionTimestamp = None,
      cb_Spec = \<lparr>sp_Schedule = schedule, sp_StopPod = stopPod,
                 sp_PodRef = \<lparr>pr_Name = ''app-0'', pr_Namespace = ''t''\<rparr>,
                 sp_ResourceRef = \<lparr>rr_APIVersion = ''apps/v1'', rr_Kind = ''StatefulSet'', rr_Name = ''app'', rr_Namespace = ''t''\<rparr>,
                 sp_Registry = registry, sp_Containers = containers\<rparr>,
      cb_Status = \<lparr>st_Phase = phase, st_LastCheckpointTime = None, st_Message = '''',
                   st_BuiltImages = [], st_CheckpointFiles = []\<rparr>\<rparr>"

definition ex_appPod :: "string \<Rightarrow> string \<Rightarrow> Pod" where
  "ex_appPod node phase =
     \<lparr>pod_Name = ''app-0'', pod_Namespace = ''t'', pod_GenerateName = ''app-'',
      pod_OwnerReferences = [], pod_NodeName = node, pod_Phase = phase,
      pod_Containers = [\<lparr>pc_Name = ''web'', pc_Image = ''nginx:1.25''\<rparr>],
      pod_InitContainers = []\<rparr>"

definition ex_tar :: string where
  "ex_tar = ''checkpoint-t_app-0-web-2025-01-04T14:30:22Z.tar''"

definition ex_sys :: "CheckpointBackup \<Rightarrow> Pod option \<Rightarrow> (string list \<Rightarrow> string + string) \<Rightarrow> Sys" where
  "ex_sys request pod exec =
     \<lparr>r_NodeName = ''N1'', r_KubeletClient = None, r_RegistryClient = None, r_Scheduler = False,
      r_scheduledJobs = Map.empty, r_entries = Map.empty, r_nextEntry = 1,
      w_backups = [(''t'', ''cb1'') \<mapsto> request],
      w_pods = (\<lambda>k. if k = (''t'', ''app-0'') then pod else None),
      w_secrets = [(''stateful-migration'', ''registry-credentials'') \<mapsto>
                     [(''username'', ''u''), (''password'', ''p'')]],
      w_files = [], w_trace = [], w_statusFaults = [], w_fault = (\<lambda>call. None),
      e_token = Some ''token'', e_nodeIP = '''',
      e_kubelet = (\<lambda>url. (HttpReply 200 ''{}'' (Some [CheckpointBasePath @ ''/'' @ ex_tar]),
                           [(CheckpointBasePath @ ''/'' @ ex_tar, 100)])),
      e_glob = (\<lambda>pattern. []), e_exec = exec, e_now = 100,
      e_timestamp = ''20250104-143022'', e_cronValid = (\<lambda>schedule. True)\<rparr>"

definition ex_execOk :: "string list \<Rightarrow> string + string" where
  "ex_execOk cmd = Inr ''working-container''"

definition ex_pushFails :: "string list \<Rightarrow> string + string" where
  "ex_pushFails cmd = (if take 2 cmd = [''buildah'', ''push''] then Inl ''exit status 125'' else Inr ''working-container'')"

text \<open>
  What the capture pipeline leaves alone. \<open>outside\<close> is the state without the
  stored requests, the trace, the files and the pending status outcomes; \<open>meta\<close> is a
  request without its status. \<open>inSync\<close>: the API server answers, the object passed
  along is stored under its own name, and its phase is the stored phase. \<open>adds P\<close>:
  the trace has grown by events that satisfy \<open>P\<close>.
\<close>

definition outside :: "Sys \<Rightarrow> Sys" where
  "outside s = s\<lparr>w_backups := Map.empty, w_trace := [], w_files := [], w_statusFaults := []\<rparr>"

definition meta :: "CheckpointBackup \<Rightarrow> CheckpointBackup" where
  "meta b = b\<lparr>cb_Status := \<lparr>st_Phase = '''', st_LastCheckpointTime = None, st_Message = '''',
                              st_BuiltImages = [], st_CheckpointFiles = []\<rparr>\<rparr>"

definition metaView :: "Sys \<Rightarrow> string \<times> string \<Rightarrow> CheckpointBackup option" where
  "metaView s = (\<lambda>k. map_option meta (w_backups s k))"

definition inSync :: "Sys \<Rightarrow> CheckpointBackup \<Rightarrow> bool" where
  "inSync s b \<longleftrightarrow>
     w_statusFaults s = [] \<and> w_fault s GetBackup = None \<and>
     (case w_backups s (cb_Namespace b, cb_Name b) of
        None \<Rightarrow> False
      | Some x \<Rightarrow> cb_Namespace x = cb_Namespace b \<and> cb_Name x = cb_Name b \<and>
                  st_Phase (cb_Status x) = st_Phase (cb_Status b))"

definition sframed :: "Sys \<Rightarrow> Sys \<Rightarrow> bool" where
  "sframed s s' \<longleftrightarrow>
     outside s' = outside s \<and> metaView s' = metaView s \<and>
     (w_statusFaults s = [] \<longrightarrow> w_statusFaults s' = [])"

definition framed :: "Sys \<Rightarrow> CheckpointBackup \<Rightarrow> Sys \<Rightarrow> CheckpointBackup \<Rightarrow> bool" where
  "framed s b s' b' \<longleftrightarrow>
     sframed s s' \<and> meta b' = meta b \<and> (inSync s b \<longrightarrow> inSync s' b') \<and>
     (st_Phase (cb_Status b) \<noteq> '''' \<longrightarrow> st_Phase (cb_Status b') \<noteq> '''')"

definition adds :: "(event \<Rightarrow> bool) \<Rightarrow> Sys \<Rightarrow> Sys \<Rightarrow> bool" where
  "adds P s s' \<longleftrightarrow> (\<exists>evs. w_trace s' = w_trace s @ evs \<and> list_all P evs)"

definition cstep :: "(event \<Rightarrow> bool) \<Rightarrow> Sys \<Rightarrow> CheckpointBackup \<Rightarrow> Sys \<Rightarrow> CheckpointBackup \<Rightarrow> bool" where
  "cstep P s b s' b' \<longleftrightarrow> framed s b s' b' \<and> adds P s s'"

definition sstep :: "(event \<Rightarrow> bool) \<Rightarrow> Sys \<Rightarrow> Sys \<Rightarrow> bool" where
  "sstep P s s' \<longleftrightarrow>
     outside s' = outside s \<and> w_backups s' = w_backups s \<and>
     w_statusFaults s' = w_statusFaults s \<and> adds P s s'"

text \<open>
  Kinds of events. A builder event for image \<open>img\<close> is one of the five commands of
  \<open>buildCheckpointImage\<close>, the commit being a commit of \<open>img\<close>. \<open>containerEv\<close>
  lists what the pipeline for one container may do when it builds \<open>img\<close>: status
  writes, the kubelet call, builder commands, removal of the archive, and registry
  commands unless no registry is configured.
\<close>

fun isStatusEv :: "event \<Rightarrow> bool" where
  "isStatusEv (EvStatusUpdate ns n ph) = True"
| "isStatusEv ev = False"

fun isBuildEv :: "string \<Rightarrow> event \<Rightarrow> bool" where
  "isBuildEv img (EvExec cmd) =
     (take 2 cmd = [''buildah'', ''from''] \<or> take 2 cmd = [''buildah'', ''add''] \<or>
      take 2 cmd = [''buildah'', ''config''] \<or> take 2 cmd = [''buildah'', ''rm''] \<or>
      (take 2 cmd = [''buildah'', ''commit''] \<and> last cmd = img))"
| "isBuildEv img ev = False"

fun isPushEv :: "event \<Rightarrow> bool" where
  "isPushEv (EvExec cmd) = (take 2 cmd = [''buildah'', ''login''] \<or> take 2 cmd = [''buildah'', ''push''])"
| "isPushEv ev = False"

fun containerEv :: "bool \<Rightarrow> string \<Rightarrow> event \<Rightarrow> bool" where
  "containerEv noReg img (EvStatusUpdate ns n ph) = True"
| "containerEv noReg img (EvKubelet url) = True"
| "containerEv noReg img (EvRemove p) = True"
| "containerEv noReg img (EvExec cmd) = (isBuildEv img (EvExec cmd) \<or> (\<not> noReg \<and> isPushEv (EvExec cmd)))"
| "containerEv noReg img ev = False"

definition ex_reg :: Registry where
  "ex_reg = \<lparr>reg_URL = ''https://reg.example'', reg_SecretRef = None\<rparr>"

definition ex_web :: Container where
  "ex_web = \<lparr>c_Name = ''web'', c_Image = ''ckpt/web:abc''\<rparr>"

text \<open>
  Reconciles that leave the capture record alone: \<open>quiet s s'\<close> holds when the only calls
  made between the two states are metadata updates, and every stored request keeps its
  name, its spec and its status; \<open>idle s b\<close> collects the requests for which a reconcile has nothing to
  capture.
\<close>

fun isUpdateEv :: "event \<Rightarrow> bool" where
  "isUpdateEv (EvUpdate ns n) = True"
| "isUpdateEv ev = False"

definition quiet :: "Sys \<Rightarrow> Sys \<Rightarrow> bool" where
  "quiet s s' \<longleftrightarrow>
     adds isUpdateEv s s' \<and> w_pods s' = w_pods s \<and> w_files s' = w_files s \<and>
     w_fault s' = w_fault s \<and> r_NodeName s' = r_NodeName s \<and>
     (\<forall>k x'. w_backups s' k = Some x' \<longrightarrow>
        (\<exists>x. w_backups s k = Some x \<and> cb_Status x' = cb_Status x \<and> cb_Spec x' = cb_Spec x \<and>
             cb_Namespace x' = cb_Namespace x \<and> cb_Name x' = cb_Name x))"

definition idle :: "Sys \<Rightarrow> CheckpointBackup \<Rightarrow> bool" where
  "idle s b \<longleftrightarrow>
     isPodOnThisNode s b = Inr False \<or>
     st_Phase (cb_Status b) \<in> {PhaseCompleted, PhaseCompletedPodDeleted, PhaseCompletedWithError} \<or>
     (sp_Schedule (cb_Spec b) = ''immediately'' \<and> st_Phase (cb_Status b) \<noteq> '''')"

text \<open>
  The start of the capture pipeline in the trace, and the controller of node \<open>N1\<close> with
  its clients set up and a cron entry scheduled for \<open>cb1\<close>; \<open>ex_deleteFails\<close> is an
  API server that refuses to delete pods.
\<close>

fun isStartEv :: "event \<Rightarrow> bool" where
  "isStartEv (EvStart ns n) = True"
| "isStartEv ev = False"

definition ex_ready ::
  "CheckpointBackup \<Rightarrow> Pod option \<Rightarrow> (string list \<Rightarrow> string + string) \<Rightarrow> (api_call \<Rightarrow> apierr option) \<Rightarrow> Sys" where
  "ex_ready request pod exec fault =
     (ex_sys request pod exec)
       \<lparr>r_KubeletClient := Some \<lparr>kc_token = ''token'', kc_kubeletURL = ''https://localhost:10250''\<rparr>,
        r_Scheduler := True, r_scheduledJobs := [''t/cb1'' \<mapsto> 1], r_entries := [1 \<mapsto> request],
        r_nextEntry := 2, w_fault := fault\<rparr>"

definition ex_deleteFails :: "api_call \<Rightarrow> apierr option" where
  "ex_deleteFails call = (if call = DeletePod then Some (Failure ''pods app-0 is forbidden'') else None)"

text \<open>
  What a call keeps. \<open>imagesView\<close> is the built images recorded in each stored request.
  \<open>tidy\<close>: no stored request and not the object passed along has gained or lost a built
  image, and no file was removed (no \<open>EvRemove\<close> among the new events); \<open>kept\<close>: the
  files are the same as well. \<open>filesAfterCheckpoint\<close> is the files of the node once the
  kubelet has written what it writes for the checkpoint of the container.
  \<open>archiveKept\<close>: the new events hold no removal, one of them is the \<open>buildah add\<close>
  of an archive, and that archive exists in the later state.
\<close>

fun isRemoveEv :: "event \<Rightarrow> bool" where
  "isRemoveEv (EvRemove path) = True"
| "isRemoveEv ev = False"

definition imagesView :: "Sys \<Rightarrow> string \<times> string \<Rightarrow> BuiltImage list option" where
  "imagesView s = (\<lambda>k. map_option (st_BuiltImages \<circ> cb_Status) (w_backups s k))"

definition kept :: "Sys \<Rightarrow> CheckpointBackup \<Rightarrow> Sys \<Rightarrow> CheckpointBackup \<Rightarrow> bool" where
  "kept s b s' b' \<longleftrightarrow>
     imagesView s' = imagesView s \<and>
     st_BuiltImages (cb_Status b') = st_BuiltImages (cb_Status b) \<and>
     w_files s' = w_files s \<and>
     adds (\<lambda>ev. \<not> isRemoveEv ev) s s'"

definition filesAfterCheckpoint :: "Sys \<Rightarrow> KubeletClient \<Rightarrow> CheckpointBackup \<Rightarrow> Container \<Rightarrow> (string \<times> nat) list" where
  "filesAfterCheckpoint s kc b c =
     fold (\<lambda>(p, t) fs. AList.update p t fs)
       (snd (e_kubelet s (kc_kubeletURL kc @ ''/checkpoint/'' @ pr_Namespace (sp_PodRef (cb_Spec b)) @ ''/''
                          @ pr_Name (sp_PodRef (cb_Spec b)) @ ''/'' @ c_Name c @ ''?timeout=300'')))
       (w_files s)"

definition archiveKept :: "Sys \<Rightarrow> Sys \<Rightarrow> bool" where
  "archiveKept s s' \<longleftrightarrow>
     (\<exists>evs. w_trace s' = w_trace s @ evs \<and> list_all (\<lambda>ev. \<not> isRemoveEv ev) evs \<and>
        (\<exists>workingContainer archive.
            EvExec [''buildah'', ''add'', workingContainer, archive, ''/''] \<in> set evs \<and>
            fileExists s' archive))"

text \<open>What a failed push leaves behind: the phase and the message, in the object and in the store.\<close>

definition pushFailed :: "Sys \<Rightarrow> CheckpointBackup \<Rightarrow> string \<Rightarrow> bool" where
  "pushFailed s b text \<longleftrightarrow>
     st_Phase (cb_Status b) = PhaseFailed \<and>
     st_Message (cb_Status b) = ''Failed to push image: '' @ text \<and>
     map_option (st_Phase \<circ> cb_Status) (w_backups s (cb_Namespace b, cb_Name b)) = Some PhaseFailed \<and>
     map_option (st_Message \<circ> cb_Status) (w_backups s (cb_Namespace b, cb_Name b))
       = Some (''Failed to push image: '' @ text)"

text \<open>The controller with its registry client set up from the example secret.\<close>

definition ex_withRegistry :: "Sys \<Rightarrow> Sys" where
  "ex_withRegistry s =
     s\<lparr>r_RegistryClient := Some \<lparr>rc_username = ''u'', rc_password = ''p'', rc_registry = ''https://reg.example''\<rparr>\<rparr>"

definition tidy :: "Sys \<Rightarrow> CheckpointBackup \<Rightarrow> Sys \<Rightarrow> CheckpointBackup \<Rightarrow> bool" where
  "tidy s b s' b' \<longleftrightarrow>
     imagesView s' = imagesView s \<and>
     st_BuiltImages (cb_Status b') = st_BuiltImages (cb_Status b) \<and>
     adds (\<lambda>ev. \<not> isRemoveEv ev) s s'"

section \<open>Admission: which request is used, and which patches are written\<close>

lemmas ex_defs = ex_jobPod_def ex_backup_def ex_jobRef_def ex_cronRef_def ex_restoreItem_def ex_createPod_def

lemmas webhook_defs = Handle_def isPodFromJob_def getJobName_def
      findMatchingCheckpointBackup_def doesResourceRefMatchJob_def generateImagePatches_def
      specImages_def statusImages_def string_of_nat.simps digit_def marshalPatches_def
      handleMutate_def itemMatches_def nameMatch_def matchedImages_def containerEntry_def
      as_map_def as_string_def as_slice_def wantImage_def Let_def

text \<open>Scenario S4 of the spec, on the operator's handler.\<close>

lemma scenario_S4: "Handle (ex_jobPod ''nginx:1.25'')
   (Inr [ex_backup ''cb1'' ex_jobRef [] [\<lparr>bi_ContainerName = ''web'', bi_ImageName = ''reg.example/ckpt/web:abc'', bi_BuildTime = 0, bi_Pushed = True\<rparr>]])
  = PatchResponseFromRaw (ex_jobPod ''nginx:1.25'')
      (JArr [JObj [(''op'', JStr ''replace''), (''path'', JStr ''/spec/containers/0/image''),
                   (''value'', JStr ''reg.example/ckpt/web:abc'')]])"
  by (simp add: Handle_def ex_jobPod_def ex_backup_def ex_jobRef_def isPodFromJob_def getJobName_def
      findMatchingCheckpointBackup_def doesResourceRefMatchJob_def generateImagePatches_def
      specImages_def statusImages_def string_of_nat.simps digit_def marshalPatches_def)

text \<open>
  The stand-alone server compares the image it wants with the image the container has,
  so each of its patches changes the image of the container it addresses.
\<close>

lemma patchesFor_differs:
  "p \<in> set (patchesFor field imageMap defaultImage i cs) \<Longrightarrow>
   \<exists>j < length cs. p_path p = ''/spec/'' @ field @ ''/'' @ string_of_nat (i + j) @ ''/image'' \<and>
                    p_value p \<noteq> pc_Image (cs ! j)"
proof (induction cs arbitrary: i)
  case Nil
  then show ?case by simp
next
  case (Cons c cs)
  show ?case
  proof (cases "p \<in> set (patchesFor field imageMap defaultImage (Suc i) cs)")
    case True
    from Cons.IH [OF True] obtain j where
      "j < length cs" "p_path p = ''/spec/'' @ field @ ''/'' @ string_of_nat (Suc i + j) @ ''/image''"
      "p_value p \<noteq> pc_Image (cs ! j)" by blast
    then have "Suc j < length (c # cs) \<and>
         p_path p = ''/spec/'' @ field @ ''/'' @ string_of_nat (i + Suc j) @ ''/image'' \<and>
         p_value p \<noteq> pc_Image ((c # cs) ! Suc j)" by simp
    then show ?thesis by blast
  next
    case False
    with Cons.prems have "p = \<lparr>p_op = ''replace'',
            p_path = ''/spec/'' @ field @ ''/'' @ string_of_nat i @ ''/image'',
            p_value = wantImage imageMap defaultImage (pc_Name c)\<rparr> \<and>
            pc_Image c \<noteq> wantImage imageMap defaultImage (pc_Name c)"
      by (auto simp: Let_def split: if_splits)
    then have "0 < length (c # cs) \<and>
         p_path p = ''/spec/'' @ field @ ''/'' @ string_of_nat (i + 0) @ ''/image'' \<and>
         p_value p \<noteq> pc_Image ((c # cs) ! 0)" by auto
    then show ?thesis by blast
  qed
qed

lemma handleMutate_patch_differs:
  assumes "handleMutate req pod listed = Some patches" and "p \<in> set patches"
  shows "(\<exists>j < length (pod_Containers pod).
            p_path p = ''/spec/containers/'' @ string_of_nat j @ ''/image'' \<and>
            p_value p \<noteq> pc_Image (pod_Containers pod ! j))
       \<or> (\<exists>j < length (pod_InitContainers pod).
            p_path p = ''/spec/initContainers/'' @ string_of_nat j @ ''/image'' \<and>
            p_value p \<noteq> pc_Image (pod_InitContainers pod ! j))"
proof -
  from assms obtain imageMap defaultImage where
    "p \<in> set (patchesFor ''containers'' imageMap defaultImage 0 (pod_Containers pod))
     \<or> p \<in> set (patchesFor ''initContainers'' imageMap defaultImage 0 (pod_InitContainers pod))"
    by (auto simp: handleMutate_def Let_def split: if_splits sum.splits)
  then show ?thesis
    using patchesFor_differs [of p "''containers''" _ _ 0 "pod_Containers pod"]
          patchesFor_differs [of p "''initContainers''" _ _ 0 "pod_InitContainers pod"]
    by fastforce
qed

text \<open>
  C7. The admission interceptor never emits a replace operation whose value equals the
  container's current image. \<open>handleMutate\<close> keeps to it (lemma above);
  \<open>PodMutator.generateImagePatches\<close> has no such test: for a pod whose container
  \<open>web\<close> already runs the image the request maps it to, it writes a replace
  with that very image.
\<close>

theorem generateImagePatches_same_image:
  "generateImagePatches (ex_jobPod ''reg.example/ckpt/web:abc'')
     (ex_backup ''cb1'' ex_jobRef [\<lparr>c_Name = ''web'', c_Image = ''reg.example/ckpt/web:abc''\<rparr>] [])
   = [\<lparr>p_op = ''replace'', p_path = ''/spec/containers/0/image'', p_value = ''reg.example/ckpt/web:abc''\<rparr>]"
  by (simp add: ex_jobPod_def ex_backup_def generateImagePatches_def
      specImages_def statusImages_def string_of_nat.simps digit_def)

lemma find_append_first:
  "\<forall>x \<in> set pre. \<not> P x \<Longrightarrow> P m \<Longrightarrow> find P (pre @ m # rest) = Some m"
  by (induction pre) auto

lemma scanItems_first:
  "\<forall>it \<in> set pre. \<not> itemMatches t g it \<Longrightarrow> itemMatches t g m \<Longrightarrow>
   scanItems t g (pre @ m # rest) = scanItems t g [m]"
  by (induction pre) (auto simp: itemMatches_def split: option.splits)

text \<open>
  C10. In both admission handlers, when several requests of the namespace match the
  incoming pod, the images come from exactly one of them, the first match in the order
  of the list: the requests listed before it do not match and are skipped, and whatever
  follows it (\<open>rest\<close>, \<open>jrest\<close>) has no influence on the answer.
\<close>

theorem first_match_only:
  assumes "\<forall>b \<in> set pre. \<not> doesResourceRefMatchJob (sp_ResourceRef (cb_Spec b)) (getJobName pod) (pod_Namespace pod)"
    and "doesResourceRefMatchJob (sp_ResourceRef (cb_Spec m)) (getJobName pod) (pod_Namespace pod)"
    and "\<forall>it \<in> set jpre. \<not> itemMatches (pod_Name pod) (pod_GenerateName pod) it"
    and "itemMatches (pod_Name pod) (pod_GenerateName pod) jm"
  shows "findMatchingCheckpointBackup (Inr (pre @ m # rest)) (pod_Namespace pod) (getJobName pod) = Inr (Some m)
       \<and> Handle pod (Inr (pre @ m # rest)) = Handle pod (Inr [m])
       \<and> scanItems (pod_Name pod) (pod_GenerateName pod) (jpre @ jm # jrest)
           = scanItems (pod_Name pod) (pod_GenerateName pod) [jm]
       \<and> handleMutate req pod (Inr (jpre @ jm # jrest)) = handleMutate req pod (Inr [jm])"
proof -
  have f: "findMatchingCheckpointBackup (Inr (pre @ m # rest)) (pod_Namespace pod) (getJobName pod) = Inr (Some m)"
    using assms(1,2) by (simp add: findMatchingCheckpointBackup_def find_append_first)
  have f1: "findMatchingCheckpointBackup (Inr [m]) (pod_Namespace pod) (getJobName pod) = Inr (Some m)"
    using assms(2) by (simp add: findMatchingCheckpointBackup_def)
  have h: "Handle pod (Inr (pre @ m # rest)) = Handle pod (Inr [m])"
    using f f1 by (simp add: Handle_def Let_def)
  have sc: "scanItems (pod_Name pod) (pod_GenerateName pod) (jpre @ jm # jrest)
           = scanItems (pod_Name pod) (pod_GenerateName pod) [jm]"
    using assms(3,4) by (rule scanItems_first)
  have hm: "handleMutate req pod (Inr (jpre @ jm # jrest)) = handleMutate req pod (Inr [jm])"
    using sc by (simp add: handleMutate_def Let_def del: scanItems.simps)
  from f h sc hm show ?thesis by blast
qed

theorem first_match_only_witness:
  "Handle (ex_jobPod ''nginx:1.25'')
     (Inr [ex_backup ''other'' ex_cronRef [\<lparr>c_Name = ''web'', c_Image = ''reg.example/other:1''\<rparr>] [],
           ex_backup ''cb-a'' ex_jobRef [\<lparr>c_Name = ''web'', c_Image = ''reg.example/a:1''\<rparr>] [],
           ex_backup ''cb-b'' ex_jobRef [\<lparr>c_Name = ''web'', c_Image = ''reg.example/b:1''\<rparr>] []])
   = PatchResponseFromRaw (ex_jobPod ''nginx:1.25'')
       (JArr [JObj [(''op'', JStr ''replace''), (''path'', JStr ''/spec/containers/0/image''),
                    (''value'', JStr ''reg.example/a:1'')]])
   \<and> handleMutate ex_createPod (ex_jobPod ''nginx:1.25'')
     (Inr [ex_restoreItem ''r-other'' ''some-other-pod'' ''reg.example/other:1'',
           ex_restoreItem ''r-a'' ''restore-xyz-r2d2'' ''reg.example/a:1'',
           ex_restoreItem ''r-b'' ''restore-xyz-r2d2'' ''reg.example/b:1''])
   = Some [\<lparr>p_op = ''replace'', p_path = ''/spec/containers/0/image'', p_value = ''reg.example/a:1''\<rparr>]"
proof -
  let ?pod = "ex_jobPod ''nginx:1.25''"
  let ?other = "ex_backup ''other'' ex_cronRef [\<lparr>c_Name = ''web'', c_Image = ''reg.example/other:1''\<rparr>] []"
  let ?a = "ex_backup ''cb-a'' ex_jobRef [\<lparr>c_Name = ''web'', c_Image = ''reg.example/a:1''\<rparr>] []"
  let ?b = "ex_backup ''cb-b'' ex_jobRef [\<lparr>c_Name = ''web'', c_Image = ''reg.example/b:1''\<rparr>] []"
  let ?jo = "ex_restoreItem ''r-other'' ''some-other-pod'' ''reg.example/other:1''"
  let ?ja = "ex_restoreItem ''r-a'' ''restore-xyz-r2d2'' ''reg.example/a:1''"
  let ?jb = "ex_restoreItem ''r-b'' ''restore-xyz-r2d2'' ''reg.example/b:1''"
  have h1: "\<forall>b \<in> set [?other]. \<not> doesResourceRefMatchJob (sp_ResourceRef (cb_Spec b)) (getJobName ?pod) (pod_Namespace ?pod)"
    by (simp add: ex_defs webhook_defs)
  have h2: "doesResourceRefMatchJob (sp_ResourceRef (cb_Spec ?a)) (getJobName ?pod) (pod_Namespace ?pod)"
    by (simp add: ex_defs webhook_defs)
  have h3: "\<forall>it \<in> set [?jo]. \<not> itemMatches (pod_Name ?pod) (pod_GenerateName ?pod) it"
    by (simp add: ex_defs webhook_defs)
  have h4: "itemMatches (pod_Name ?pod) (pod_GenerateName ?pod) ?ja"
    by (simp add: ex_defs webhook_defs)
  have later: "doesResourceRefMatchJob (sp_ResourceRef (cb_Spec ?b)) (getJobName ?pod) (pod_Namespace ?pod)
               \<and> itemMatches (pod_Name ?pod) (pod_GenerateName ?pod) ?jb"
    by (simp add: ex_defs webhook_defs)
  have r1: "Handle ?pod (Inr [?a]) =
      PatchResponseFromRaw ?pod
        (JArr [JObj [(''op'', JStr ''replace''), (''path'', JStr ''/spec/containers/0/image''),
                     (''value'', JStr ''reg.example/a:1'')]])"
    by (simp add: ex_defs webhook_defs)
  have r2: "handleMutate ex_createPod ?pod (Inr [?ja]) =
      Some [\<lparr>p_op = ''replace'', p_path = ''/spec/containers/0/image'', p_value = ''reg.example/a:1''\<rparr>]"
    by (simp add: ex_defs webhook_defs)
  from first_match_only [OF h1 h2 h3 h4, of "[?b]" "[?jb]" ex_createPod] r1 r2
  show ?thesis by simp
qed

section \<open>Restore controller: when a restore starts, and where it goes\<close>

lemmas restore_defs = processSourceCluster_def findResourceBinding_def isSourceClusterStillAvailable_def
  findCheckpointBackups_def startRestoreProcess_def createCheckpointRestore_def getRestore_def
  createRestoreObject_def createRestorePropagationPolicy_def CreateOrUpdatePropagationPolicy_def
  targetClusterOf_def sameResource_def ToLower_def handlePodRestore_def findWorkForResource_def
  RestoreReconcile_def Let_def

lemmas ex_restore_defs = ex_podRef_def ex_stsRef_def ex_migration_def ex_karmada_def ex_backup_def

lemma find_Some_holds: "find P xs = Some x \<Longrightarrow> P x"
  by (induction xs) (auto split: if_splits)

text \<open>
  \<open>findResourceBinding\<close> only returns a binding that lists the source cluster, and
  \<open>processSourceCluster\<close> goes on only when the binding it got does not list it: no
  call of \<open>processSourceCluster\<close>, and so no pass of the controller, writes anything.
\<close>

lemma processSourceCluster_creates_nothing:
  "processSourceCluster k statefulMigration sourceCluster = (k', e) \<Longrightarrow> k' = k"
  by (auto simp: processSourceCluster_def findResourceBinding_def isSourceClusterStillAvailable_def
           split: sum.splits option.splits if_splits dest: find_Some_holds)

lemma restorePass_creates_nothing:
  "restorePass k statefulMigration clusters = (k', e) \<Longrightarrow> k' = k"
proof (induction clusters arbitrary: k)
  case Nil
  then show ?case by simp
next
  case (Cons c cs)
  obtain k1 e1 where p: "processSourceCluster k statefulMigration c = (k1, e1)"
    by (cases "processSourceCluster k statefulMigration c")
  then have "k1 = k" by (rule processSourceCluster_creates_nothing)
  with Cons p show ?case by (cases e1) auto
qed

text \<open>
  Creating the restore request of a backup twice leaves one request: the second call
  finds the first call's object and returns.
\<close>

lemma find_last_hit: "P x \<Longrightarrow> find P (xs @ [x]) \<noteq> None"
  by (auto simp: find_None_iff)

lemma createRestorePropagationPolicy_keeps:
  "createRestorePropagationPolicy k restore statefulMigration = (k1, e) \<Longrightarrow>
   k_restores k1 = k_restores k \<and> k_fault k1 = k_fault k"
  by (auto simp: createRestorePropagationPolicy_def CreateOrUpdatePropagationPolicy_def Let_def
        split: option.splits if_splits)

lemma createCheckpointRestore_idempotent:
  assumes "k_fault k = (\<lambda>call. None)"
    and "createCheckpointRestore k backup statefulMigration = (k1, None)"
  shows "createCheckpointRestore k1 backup statefulMigration = (k1, None)"
proof -
  let ?name = "cb_Name backup @ ''-restore''"
  let ?P = "\<lambda>r. cr_Name r = ?name \<and> cr_Namespace r = cb_Namespace backup"
  have again: "createCheckpointRestore k1 backup statefulMigration = (k1, None)"
    if "k_fault k1 GetRestore = None" and "find ?P (k_restores k1) \<noteq> None"
    using that by (auto simp: createCheckpointRestore_def getRestore_def Let_def)
  show ?thesis
  proof (cases "find ?P (k_restores k)")
    case (Some existing)
    with assms have "k1 = k"
      by (simp add: createCheckpointRestore_def getRestore_def Let_def)
    with assms(1) Some again show ?thesis by simp
  next
    case None
    let ?restore = "\<lparr>cr_Name = ?name, cr_Namespace = cb_Namespace backup,
                     cr_Labels = [(''migration.dcnlab.com/restore'', ''true''),
                                  (''migration.dcnlab.com/backup'', cb_Name backup)],
                     cr_BackupRef = cb_Name backup,
                     cr_PodName = pr_Name (sp_PodRef (cb_Spec backup)),
                     cr_Containers = sp_Containers (cb_Spec backup)\<rparr>"
    let ?k' = "k\<lparr>k_restores := k_restores k @ [?restore]\<rparr>"
    from None have nex: "\<not> list_ex ?P (k_restores k)"
      by (auto simp: find_None_iff list_ex_iff)
    then have cro: "createRestoreObject k ?restore = (?k', None)"
      using assms(1) by (simp add: createRestoreObject_def)
    from assms None cro
    have "createRestorePropagationPolicy ?k' ?restore statefulMigration = (k1, None)"
      by (simp add: createCheckpointRestore_def getRestore_def Let_def)
    then have "k_restores k1 = k_restores ?k' \<and> k_fault k1 = k_fault ?k'"
      by (rule createRestorePropagationPolicy_keeps)
    then have r: "k_restores k1 = k_restores k @ [?restore]" and f: "k_fault k1 GetRestore = None"
      using assms(1) by simp_all
    have "find ?P (k_restores k1) \<noteq> None" unfolding r by (rule find_last_hit) simp
    with f show ?thesis by (rule again)
  qed
qed

text \<open>
  C8. A pass that sees the source cluster still listed in the binding creates no restore
  request, and once the cluster has been removed the request
  \<open>{checkpointRequestName}-restore\<close> is created (idempotently). The first half holds
  (lemma \<open>processSourceCluster_creates_nothing\<close>); the second fails. Here the binding of
  the workload lists \<open>c2\<close> only, \<open>c1\<close> has been removed, backup \<open>cb1\<close> exists, and
  the pass over the migration leaves the federation plane as it was, without any restore
  request.
\<close>

theorem removed_cluster_creates_no_restore:
  "RestoreReconcile (ex_karmada ex_stsRef [''c2'']) (ex_migration ex_stsRef)
     = (ex_karmada ex_stsRef [''c2''], None)
   \<and> k_restores (fst (processSourceCluster (ex_karmada ex_stsRef [''c2'']) (ex_migration ex_stsRef) ''c1'')) = []
   \<and> map cb_Name (k_backups (ex_karmada ex_stsRef [''c2''])) = [''cb1'']
   \<and> map (map tc_Name \<circ> rb_Clusters) (k_bindings (ex_karmada ex_stsRef [''c2''])) = [[''c2'']]"
  by (simp add: restore_defs ex_restore_defs)


section \<open>Checkpoint controller: the frame of the capture pipeline\<close>

lemma outside_fields:
  assumes "outside s' = outside s"
  shows "r_NodeName s' = r_NodeName s" "r_KubeletClient s' = r_KubeletClient s"
    "r_RegistryClient s' = r_RegistryClient s" "r_Scheduler s' = r_Scheduler s"
    "r_scheduledJobs s' = r_scheduledJobs s" "r_entries s' = r_entries s"
    "r_nextEntry s' = r_nextEntry s" "w_pods s' = w_pods s" "w_secrets s' = w_secrets s"
    "w_fault s' = w_fault s" "e_token s' = e_token s" "e_nodeIP s' = e_nodeIP s"
    "e_kubelet s' = e_kubelet s" "e_glob s' = e_glob s" "e_exec s' = e_exec s"
    "e_now s' = e_now s" "e_timestamp s' = e_timestamp s" "e_cronValid s' = e_cronValid s"
proof -
  have "r_NodeName (outside s') = r_NodeName (outside s)" using assms by simp
  then show "r_NodeName s' = r_NodeName s" by (simp add: outside_def)
  have "r_KubeletClient (outside s') = r_KubeletClient (outside s)" using assms by simp
  then show "r_KubeletClient s' = r_KubeletClient s" by (simp add: outside_def)
  have "r_RegistryClient (outside s') = r_RegistryClient (outside s)" using assms by simp
  then show "r_RegistryClient s' = r_RegistryClient s" by (simp add: outside_def)
  have "r_Scheduler (outside s') = r_Scheduler (outside s)" using assms by simp
  then show "r_Scheduler s' = r_Scheduler s" by (simp add: outside_def)
  have "r_scheduledJobs (outside s') = r_scheduledJobs (outside s)" using assms by simp
  then show "r_scheduledJobs s' = r_scheduledJobs s" by (simp add: outside_def)
  have "r_entries (outside s') = r_entries (outside s)" using assms by simp
  then show "r_entries s' = r_entries s" by (simp add: outside_def)
  have "r_nextEntry (outside s') = r_nextEntry (outside s)" using assms by simp
  then show "r_nextEntry s' = r_nextEntry s" by (simp add: outside_def)
  have "w_pods (outside s') = w_pods (outside s)" using assms by simp
  then show "w_pods s' = w_pods s" by (simp add: outside_def)
  have "w_secrets (outside s') = w_secrets (outside s)" using assms by simp
  then show "w_secrets s' = w_secrets s" by (simp add: outside_def)
  have "w_fault (outside s') = w_fault (outside s)" using assms by simp
  then show "w_fault s' = w_fault s" by (simp add: outside_def)
  have "e_token (outside s') = e_token (outside s)" using assms by simp
  then show "e_token s' = e_token s" by (simp add: outside_def)
  have "e_nodeIP (outside s') = e_nodeIP (outside s)" using assms by simp
  then show "e_nodeIP s' = e_nodeIP s" by (simp add: outside_def)
  have "e_kubelet (outside s') = e_kubelet (outside s)" using assms by simp
  then show "e_kubelet s' = e_kubelet s" by (simp add: outside_def)
  have "e_glob (outside s') = e_glob (outside s)" using assms by simp
  then show "e_glob s' = e_glob s" by (simp add: outside_def)
  have "e_exec (outside s') = e_exec (outside s)" using assms by simp
  then show "e_exec s' = e_exec s" by (simp add: outside_def)
  have "e_now (outside s') = e_now (outside s)" using assms by simp
  then show "e_now s' = e_now s" by (simp add: outside_def)
  have "e_timestamp (outside s') = e_timestamp (outside s)" using assms by simp
  then show "e_timestamp s' = e_timestamp s" by (simp add: outside_def)
  have "e_cronValid (outside s') = e_cronValid (outside s)" using assms by simp
  then show "e_cronValid s' = e_cronValid s" by (simp add: outside_def)
qed

lemma meta_fields:
  assumes "meta b' = meta b"
  shows "cb_Name b' = cb_Name b" "cb_Namespace b' = cb_Namespace b" "cb_Spec b' = cb_Spec b"
    "cb_Finalizers b' = cb_Finalizers b" "cb_DeletionTimestamp b' = cb_DeletionTimestamp b"
proof -
  have "cb_Name (meta b') = cb_Name (meta b)" using assms by simp
  then show "cb_Name b' = cb_Name b" by (simp add: meta_def)
  have "cb_Namespace (meta b') = cb_Namespace (meta b)" using assms by simp
  then show "cb_Namespace b' = cb_Namespace b" by (simp add: meta_def)
  have "cb_Spec (meta b') = cb_Spec (meta b)" using assms by simp
  then show "cb_Spec b' = cb_Spec b" by (simp add: meta_def)
  have "cb_Finalizers (meta b') = cb_Finalizers (meta b)" using assms by simp
  then show "cb_Finalizers b' = cb_Finalizers b" by (simp add: meta_def)
  have "cb_DeletionTimestamp (meta b') = cb_DeletionTimestamp (meta b)" using assms by simp
  then show "cb_DeletionTimestamp b' = cb_DeletionTimestamp b" by (simp add: meta_def)
qed

lemma sframed_refl [simp]: "sframed s s"
  by (simp add: sframed_def)

lemma sframed_trans: "sframed s s1 \<Longrightarrow> sframed s1 s2 \<Longrightarrow> sframed s s2"
  by (auto simp: sframed_def)

lemma framed_refl [simp]: "framed s b s b"
  by (simp add: framed_def)

lemma framed_trans: "framed s b s1 b1 \<Longrightarrow> framed s1 b1 s2 b2 \<Longrightarrow> framed s b s2 b2"
  by (auto simp: framed_def intro: sframed_trans)

lemma adds_refl [simp]: "adds P s s"
  by (simp add: adds_def)

lemma adds_trans: "adds P s s1 \<Longrightarrow> adds P s1 s2 \<Longrightarrow> adds P s s2"
  by (auto simp: adds_def)

lemma adds_mono: "adds P s s' \<Longrightarrow> (\<And>ev. P ev \<Longrightarrow> Q ev) \<Longrightarrow> adds Q s s'"
  by (auto simp: adds_def list_all_iff)

lemma adds_emit: "adds P s s1 \<Longrightarrow> P ev \<Longrightarrow> adds P s (emit ev s1)"
  by (auto simp: adds_def emit_def)

lemma adds_files [simp]: "adds P s (s1\<lparr>w_files := fs\<rparr>) = adds P s s1"
  by (simp add: adds_def)

lemma cstep_refl [simp]: "cstep P s b s b"
  by (simp add: cstep_def)

lemma cstep_trans: "cstep P s b s1 b1 \<Longrightarrow> cstep P s1 b1 s2 b2 \<Longrightarrow> cstep P s b s2 b2"
  by (auto simp: cstep_def intro: framed_trans adds_trans)

lemma sstep_sframed: "sstep P s s' \<Longrightarrow> sframed s s'"
  by (simp add: sstep_def sframed_def metaView_def)

lemma sstep_inSync: "sstep P s s' \<Longrightarrow> inSync s b \<Longrightarrow> inSync s' b"
  by (auto simp: sstep_def inSync_def dest: outside_fields(10))

lemma sstep_imp_cstep: "sstep P s s1 \<Longrightarrow> cstep P s b s1 b"
  by (auto simp: cstep_def framed_def sstep_sframed sstep_inSync) (simp add: sstep_def)

lemma cstep_sstep: "cstep P s b s1 b1 \<Longrightarrow> sstep P s1 s2 \<Longrightarrow> cstep P s b s2 b1"
  using cstep_trans sstep_imp_cstep by blast

lemma cstep_fields:
  assumes "cstep P s b s' b'"
  shows "cb_Spec b' = cb_Spec b" "cb_Name b' = cb_Name b" "cb_Namespace b' = cb_Namespace b"
    "e_timestamp s' = e_timestamp s" "r_RegistryClient s' = r_RegistryClient s"
    "r_KubeletClient s' = r_KubeletClient s" "w_pods s' = w_pods s" "w_fault s' = w_fault s"
    "r_scheduledJobs s' = r_scheduledJobs s" "r_entries s' = r_entries s" "e_now s' = e_now s"
  using assms by (auto simp: cstep_def framed_def sframed_def dest: outside_fields meta_fields)

lemma StatusUpdate_sframed: "StatusUpdate s x = (s', r) \<Longrightarrow> sframed s s'"
  by (auto simp: StatusUpdate_def Let_def sframed_def emit_def outside_def metaView_def meta_def fun_eq_iff
           split: option.splits list.splits)

lemma StatusUpdate_adds: "StatusUpdate s x = (s', r) \<Longrightarrow> adds isStatusEv s s'"
  by (auto simp: StatusUpdate_def Let_def adds_def emit_def split: option.splits list.splits)

lemma setPhase_meta [simp]: "meta (setPhase p m b) = meta b"
  by (simp add: setPhase_def meta_def)

lemma setPhase_phase [simp]: "st_Phase (cb_Status (setPhase p m b)) = p"
  by (simp add: setPhase_def)

lemma setPhase_names [simp]:
  "cb_Name (setPhase p m b) = cb_Name b" "cb_Namespace (setPhase p m b) = cb_Namespace b"
  by (simp_all add: setPhase_def)

text \<open>With the API server answering and the object in place, a status write goes through at the first try.\<close>

lemma StatusUpdate_healthy:
  assumes "w_statusFaults s = []" and "w_backups s (cb_Namespace x, cb_Name x) = Some stored"
  shows "StatusUpdate s x =
          (s\<lparr>w_trace := w_trace s @ [EvStatusUpdate (cb_Namespace x) (cb_Name x) (st_Phase (cb_Status x))],
             w_statusFaults := [],
             w_backups := (w_backups s)((cb_Namespace x, cb_Name x) \<mapsto> stored\<lparr>cb_Status := cb_Status x\<rparr>)\<rparr>, None)"
  using assms by (simp add: StatusUpdate_def Let_def emit_def)

lemma updatePhase_healthy:
  assumes "inSync s b" and "w_backups s (cb_Namespace b, cb_Name b) = Some x"
  shows "updatePhase s b p m =
          (s\<lparr>w_trace := w_trace s @ [EvStatusUpdate (cb_Namespace b) (cb_Name b) p],
             w_statusFaults := [],
             w_backups := (w_backups s)((cb_Namespace b, cb_Name b) \<mapsto> setPhase p m x)\<rparr>,
           setPhase p m b, None)"
proof -
  from assms have n: "cb_Namespace x = cb_Namespace b" "cb_Name x = cb_Name b"
    and f: "w_statusFaults s = []" and g: "w_fault s GetBackup = None"
    by (auto simp: inSync_def)
  have gb: "getBackup s (cb_Namespace b) (cb_Name b) = Inr x"
    using assms(2) g by (simp add: getBackup_def)
  have st: "w_backups s (cb_Namespace (setPhase p m x), cb_Name (setPhase p m x)) = Some x"
    using assms(2) n by simp
  have "x\<lparr>cb_Status := cb_Status (setPhase p m x)\<rparr> = setPhase p m x"
    by (simp add: setPhase_def)
  with StatusUpdate_healthy [OF f st] n
  have "StatusUpdate s (setPhase p m x) =
          (s\<lparr>w_trace := w_trace s @ [EvStatusUpdate (cb_Namespace b) (cb_Name b) p],
             w_statusFaults := [],
             w_backups := (w_backups s)((cb_Namespace b, cb_Name b) \<mapsto> setPhase p m x)\<rparr>, None)"
    by simp
  with gb show ?thesis
    by (simp add: updatePhase_def numeral_3_eq_3)
qed

lemma updatePhase_inSync:
  assumes "inSync s b" and "updatePhase s b p m = (s', b', r)"
  shows "inSync s' b' \<and> b' = setPhase p m b \<and> r = None"
proof -
  from assms(1) obtain x where x: "w_backups s (cb_Namespace b, cb_Name b) = Some x"
    by (auto simp: inSync_def split: option.splits)
  from updatePhase_healthy [OF assms(1) x, of p m] assms(2)
  have s': "s' = s\<lparr>w_trace := w_trace s @ [EvStatusUpdate (cb_Namespace b) (cb_Name b) p],
             w_statusFaults := [],
             w_backups := (w_backups s)((cb_Namespace b, cb_Name b) \<mapsto> setPhase p m x)\<rparr>"
    and b': "b' = setPhase p m b" and r: "r = None" by simp_all
  from assms(1) x have "inSync s' (setPhase p m b)"
    unfolding s' by (simp add: inSync_def)
  with b' r show ?thesis by simp
qed

lemma updatePhaseLoop_base:
  "updatePhaseLoop n s b p m = (s', b', r) \<Longrightarrow>
   sframed s s' \<and> adds isStatusEv s s' \<and> (b' = b \<or> b' = setPhase p m b)"
proof (induction n arbitrary: s)
  case 0
  then show ?case by simp
next
  case (Suc n)
  show ?case
  proof (cases "getBackup s (cb_Namespace b) (cb_Name b)")
    case (Inl e)
    with Suc.prems show ?thesis by simp
  next
    case (Inr latest)
    obtain s1 r1 where su: "StatusUpdate s (setPhase p m latest) = (s1, r1)"
      by (cases "StatusUpdate s (setPhase p m latest)")
    then have f1: "sframed s s1" and a1: "adds isStatusEv s s1"
      by (rule StatusUpdate_sframed, rule StatusUpdate_adds)
    show ?thesis
    proof (cases r1)
      case None
      with Suc.prems Inr su have "s' = s1 \<and> b' = setPhase p m b" by simp
      with f1 a1 show ?thesis by simp
    next
      case (Some err)
      show ?thesis
      proof (cases "IsConflict err \<and> n \<noteq> 0")
        case True
        with Suc.prems Inr su Some have "updatePhaseLoop n s1 b p m = (s', b', r)" by simp
        then have "sframed s1 s' \<and> adds isStatusEv s1 s' \<and> (b' = b \<or> b' = setPhase p m b)"
          by (rule Suc.IH)
        with f1 a1 show ?thesis by (auto intro: sframed_trans adds_trans)
      next
        case False
        with Suc.prems Inr su Some have "s' = s1 \<and> b' = b" by auto
        with f1 a1 show ?thesis by simp
      qed
    qed
  qed
qed

lemma updatePhase_framed:
  assumes "updatePhase s b p m = (s', b', r)" and "p \<noteq> ''''"
  shows "framed s b s' b' \<and> adds isStatusEv s s'"
proof -
  from assms(1) have base: "sframed s s'" "adds isStatusEv s s'" "b' = b \<or> b' = setPhase p m b"
    unfolding updatePhase_def using updatePhaseLoop_base by blast+
  from base(3) have m: "meta b' = meta b" by auto
  from base(3) assms(2) have ph: "st_Phase (cb_Status b) \<noteq> '''' \<longrightarrow> st_Phase (cb_Status b') \<noteq> ''''"
    by auto
  have "inSync s b \<longrightarrow> inSync s' b'" using updatePhase_inSync [OF _ assms(1)] by blast
  with base m ph show ?thesis by (simp add: framed_def)
qed

lemma recordCheckpointFileLoop_base:
  "recordCheckpointFileLoop n s b c path = (s', b', r) \<Longrightarrow>
   sframed s s' \<and> adds isStatusEv s s' \<and> meta b' = meta b \<and>
   st_Phase (cb_Status b') = st_Phase (cb_Status b)"
proof (induction n arbitrary: s)
  case 0
  then show ?case by simp
next
  case (Suc n)
  show ?case
  proof (cases "getBackup s (cb_Namespace b) (cb_Name b)")
    case (Inl e)
    with Suc.prems show ?thesis by simp
  next
    case (Inr latest)
    let ?files = "st_CheckpointFiles (cb_Status latest) @
                  [\<lparr>cf_ContainerName = c, cf_FilePath = path, cf_CheckpointTime = e_now s\<rparr>]"
    let ?latest' = "latest\<lparr>cb_Status := (cb_Status latest)\<lparr>st_CheckpointFiles := ?files\<rparr>\<rparr>"
    show ?thesis
    proof (cases "list_ex (\<lambda>checkpointFile. cf_ContainerName checkpointFile = c \<and>
                              cf_FilePath checkpointFile = path) (st_CheckpointFiles (cb_Status latest))")
      case True
      with Suc.prems Inr have "s' = s \<and> b' = b" by simp
      then show ?thesis by simp
    next
      case False
      obtain s1 r1 where su: "StatusUpdate s ?latest' = (s1, r1)"
        by (cases "StatusUpdate s ?latest'")
      then have f1: "sframed s s1" and a1: "adds isStatusEv s s1"
        by (rule StatusUpdate_sframed, rule StatusUpdate_adds)
      show ?thesis
      proof (cases r1)
        case None
        with Suc.prems Inr su False
        have "s' = s1 \<and> b' = b\<lparr>cb_Status := (cb_Status b)\<lparr>st_CheckpointFiles := ?files\<rparr>\<rparr>"
          by (simp add: Let_def)
        with f1 a1 show ?thesis by (simp add: meta_def)
      next
        case (Some err)
        show ?thesis
        proof (cases "IsConflict err \<and> n \<noteq> 0")
          case True
          with Suc.prems Inr su Some False
          have "recordCheckpointFileLoop n s1 b c path = (s', b', r)" by (simp add: Let_def)
          then have "sframed s1 s' \<and> adds isStatusEv s1 s' \<and> meta b' = meta b \<and>
                     st_Phase (cb_Status b') = st_Phase (cb_Status b)" by (rule Suc.IH)
          with f1 a1 show ?thesis by (auto intro: sframed_trans adds_trans)
        next
          case F2: False
          with Suc.prems Inr su Some False have "s' = s1 \<and> b' = b" by (auto simp: Let_def)
          with f1 a1 show ?thesis by simp
        qed
      qed
    qed
  qed
qed

lemma recordBuiltImageLoop_base:
  "recordBuiltImageLoop n s b c img pushed = (s', b', r) \<Longrightarrow>
   sframed s s' \<and> adds isStatusEv s s' \<and> meta b' = meta b \<and>
   st_Phase (cb_Status b') = st_Phase (cb_Status b)"
proof (induction n arbitrary: s)
  case 0
  then show ?case by simp
next
  case (Suc n)
  show ?case
  proof (cases "getBackup s (cb_Namespace b) (cb_Name b)")
    case (Inl e)
    with Suc.prems show ?thesis by simp
  next
    case (Inr latest)
    let ?images = "st_BuiltImages (cb_Status latest) @
                  [\<lparr>bi_ContainerName = c, bi_ImageName = img, bi_BuildTime = e_now s, bi_Pushed = pushed\<rparr>]"
    let ?latest' = "latest\<lparr>cb_Status := (cb_Status latest)\<lparr>st_BuiltImages := ?images\<rparr>\<rparr>"
    show ?thesis
    proof (cases "list_ex (\<lambda>builtImage. bi_ContainerName builtImage = c \<and>
                              bi_ImageName builtImage = img) (st_BuiltImages (cb_Status latest))")
      case True
      with Suc.prems Inr have "s' = s \<and> b' = b" by simp
      then show ?thesis by simp
    next
      case False
      obtain s1 r1 where su: "StatusUpdate s ?latest' = (s1, r1)"
        by (cases "StatusUpdate s ?latest'")
      then have f1: "sframed s s1" and a1: "adds isStatusEv s s1"
        by (rule StatusUpdate_sframed, rule StatusUpdate_adds)
      show ?thesis
      proof (cases r1)
        case None
        with Suc.prems Inr su False
        have "s' = s1 \<and> b' = b\<lparr>cb_Status := (cb_Status b)\<lparr>st_BuiltImages := ?images\<rparr>\<rparr>"
          by (simp add: Let_def)
        with f1 a1 show ?thesis by (simp add: meta_def)
      next
        case (Some err)
        show ?thesis
        proof (cases "IsConflict err \<and> n \<noteq> 0")
          case True
          with Suc.prems Inr su Some False
          have "recordBuiltImageLoop n s1 b c img pushed = (s', b', r)" by (simp add: Let_def)
          then have "sframed s1 s' \<and> adds isStatusEv s1 s' \<and> meta b' = meta b \<and>
                     st_Phase (cb_Status b') = st_Phase (cb_Status b)" by (rule Suc.IH)
          with f1 a1 show ?thesis by (auto intro: sframed_trans adds_trans)
        next
          case F2: False
          with Suc.prems Inr su Some False have "s' = s1 \<and> b' = b" by (auto simp: Let_def)
          with f1 a1 show ?thesis by simp
        qed
      qed
    qed
  qed
qed

lemma recordCheckpointFile_inSync:
  assumes "inSync s b" and "recordCheckpointFile s b c path = (s', b', r)"
  shows "inSync s' b'"
proof -
  from assms(1) obtain x where x: "w_backups s (cb_Namespace b, cb_Name b) = Some x"
    and n: "cb_Namespace x = cb_Namespace b" "cb_Name x = cb_Name b"
    and ph: "st_Phase (cb_Status x) = st_Phase (cb_Status b)"
    and f: "w_statusFaults s = []" and g: "w_fault s GetBackup = None"
    by (auto simp: inSync_def split: option.splits)
  have gb: "getBackup s (cb_Namespace b) (cb_Name b) = Inr x"
    using x g by (simp add: getBackup_def)
  let ?files = "st_CheckpointFiles (cb_Status x) @
                  [\<lparr>cf_ContainerName = c, cf_FilePath = path, cf_CheckpointTime = e_now s\<rparr>]"
  let ?x' = "x\<lparr>cb_Status := (cb_Status x)\<lparr>st_CheckpointFiles := ?files\<rparr>\<rparr>"
  show ?thesis
  proof (cases "list_ex (\<lambda>checkpointFile. cf_ContainerName checkpointFile = c \<and>
                            cf_FilePath checkpointFile = path) (st_CheckpointFiles (cb_Status x))")
    case True
    with assms(2) gb have "s' = s \<and> b' = b"
      by (simp add: recordCheckpointFile_def numeral_3_eq_3)
    with assms(1) show ?thesis by simp
  next
    case False
    have st: "w_backups s (cb_Namespace ?x', cb_Name ?x') = Some x" using x n by simp
    from StatusUpdate_healthy [OF f st] assms(2) gb False
    have "s' = s\<lparr>w_trace := w_trace s @ [EvStatusUpdate (cb_Namespace ?x') (cb_Name ?x') (st_Phase (cb_Status ?x'))],
             w_statusFaults := [],
             w_backups := (w_backups s)((cb_Namespace ?x', cb_Name ?x') \<mapsto> x\<lparr>cb_Status := cb_Status ?x'\<rparr>)\<rparr>
          \<and> b' = b\<lparr>cb_Status := (cb_Status b)\<lparr>st_CheckpointFiles := ?files\<rparr>\<rparr>"
      by (simp add: recordCheckpointFile_def numeral_3_eq_3 Let_def)
    with n ph g show ?thesis by (simp add: inSync_def)
  qed
qed

lemma recordBuiltImage_inSync:
  assumes "inSync s b" and "recordBuiltImage s b c img pushed = (s', b', r)"
  shows "inSync s' b'"
proof -
  from assms(1) obtain x where x: "w_backups s (cb_Namespace b, cb_Name b) = Some x"
    and n: "cb_Namespace x = cb_Namespace b" "cb_Name x = cb_Name b"
    and ph: "st_Phase (cb_Status x) = st_Phase (cb_Status b)"
    and f: "w_statusFaults s = []" and g: "w_fault s GetBackup = None"
    by (auto simp: inSync_def split: option.splits)
  have gb: "getBackup s (cb_Namespace b) (cb_Name b) = Inr x"
    using x g by (simp add: getBackup_def)
  let ?images = "st_BuiltImages (cb_Status x) @
                  [\<lparr>bi_ContainerName = c, bi_ImageName = img, bi_BuildTime = e_now s, bi_Pushed = pushed\<rparr>]"
  let ?x' = "x\<lparr>cb_Status := (cb_Status x)\<lparr>st_BuiltImages := ?images\<rparr>\<rparr>"
  show ?thesis
  proof (cases "list_ex (\<lambda>builtImage. bi_ContainerName builtImage = c \<and>
                            bi_ImageName builtImage = img) (st_BuiltImages (cb_Status x))")
    case True
    with assms(2) gb have "s' = s \<and> b' = b"
      by (simp add: recordBuiltImage_def numeral_3_eq_3)
    with assms(1) show ?thesis by simp
  next
    case False
    have st: "w_backups s (cb_Namespace ?x', cb_Name ?x') = Some x" using x n by simp
    from StatusUpdate_healthy [OF f st] assms(2) gb False
    have "s' = s\<lparr>w_trace := w_trace s @ [EvStatusUpdate (cb_Namespace ?x') (cb_Name ?x') (st_Phase (cb_Status ?x'))],
             w_statusFaults := [],
             w_backups := (w_backups s)((cb_Namespace ?x', cb_Name ?x') \<mapsto> x\<lparr>cb_Status := cb_Status ?x'\<rparr>)\<rparr>
          \<and> b' = b\<lparr>cb_Status := (cb_Status b)\<lparr>st_BuiltImages := ?images\<rparr>\<rparr>"
      by (simp add: recordBuiltImage_def numeral_3_eq_3 Let_def)
    with n ph g show ?thesis by (simp add: inSync_def)
  qed
qed

lemma isStatusEv_containerEv: "isStatusEv ev \<Longrightarrow> containerEv nr img ev"
  by (cases ev) auto

lemma isBuildEv_containerEv: "isBuildEv img ev \<Longrightarrow> containerEv nr img ev"
  by (cases ev) auto

lemma isPushEv_containerEv: "isPushEv ev \<Longrightarrow> containerEv False img ev"
  by (cases ev) auto

lemma updatePhase_c:
  assumes "updatePhase s b p m = (s', b', r)" and "p \<noteq> ''''"
  shows "cstep (containerEv nr img) s b s' b'"
  using updatePhase_framed [OF assms] adds_mono [OF _ isStatusEv_containerEv]
  by (auto simp: cstep_def)

lemma recordCheckpointFile_c:
  assumes "recordCheckpointFile s b c path = (s', b', r)"
  shows "cstep (containerEv nr img) s b s' b'"
proof -
  from assms have base: "sframed s s'" "adds isStatusEv s s'" "meta b' = meta b"
    "st_Phase (cb_Status b') = st_Phase (cb_Status b)"
    unfolding recordCheckpointFile_def using recordCheckpointFileLoop_base by blast+
  from base(2) have "adds (containerEv nr img) s s'"
    by (rule adds_mono) (rule isStatusEv_containerEv)
  moreover have "inSync s b \<longrightarrow> inSync s' b'" using recordCheckpointFile_inSync [OF _ assms] by blast
  ultimately show ?thesis using base by (simp add: cstep_def framed_def)
qed

lemma recordBuiltImage_c:
  assumes "recordBuiltImage s b c i pushed = (s', b', r)"
  shows "cstep (containerEv nr img) s b s' b'"
proof -
  from assms have base: "sframed s s'" "adds isStatusEv s s'" "meta b' = meta b"
    "st_Phase (cb_Status b') = st_Phase (cb_Status b)"
    unfolding recordBuiltImage_def using recordBuiltImageLoop_base by blast+
  from base(2) have "adds (containerEv nr img) s s'"
    by (rule adds_mono) (rule isStatusEv_containerEv)
  moreover have "inSync s b \<longrightarrow> inSync s' b'" using recordBuiltImage_inSync [OF _ assms] by blast
  ultimately show ?thesis using base by (simp add: cstep_def framed_def)
qed

lemma outside_emit [simp]: "outside (emit ev s) = outside s"
  by (simp add: outside_def emit_def)

lemma emit_fields [simp]:
  "w_backups (emit ev s) = w_backups s" "w_statusFaults (emit ev s) = w_statusFaults s"
  "w_files (emit ev s) = w_files s" "e_exec (emit ev s) = e_exec s" "w_fault (emit ev s) = w_fault s"
  "w_pods (emit ev s) = w_pods s" "e_kubelet (emit ev s) = e_kubelet s"
  "r_KubeletClient (emit ev s) = r_KubeletClient s" "r_RegistryClient (emit ev s) = r_RegistryClient s"
  by (simp_all add: emit_def)

lemma outside_files [simp]: "outside (s\<lparr>w_files := fs\<rparr>) = outside s"
  by (simp add: outside_def)

lemma sstep_refl [simp]: "sstep P s s"
  by (simp add: sstep_def)

lemma sstep_emit: "sstep P s s1 \<Longrightarrow> P ev \<Longrightarrow> sstep P s (emit ev s1)"
  by (simp add: sstep_def adds_emit)

lemma sstep_files [simp]: "sstep P s (s1\<lparr>w_files := fs\<rparr>) = sstep P s s1"
  by (simp add: sstep_def)

lemma run_fst [simp]: "fst (run s cmd) = emit (EvExec cmd) s"
  by (simp add: run_def)

lemma run_eq: "run s cmd = (s', r) \<Longrightarrow> s' = emit (EvExec cmd) s"
  by (auto simp: run_def)

lemma CreateCheckpoint_c:
  "CreateCheckpoint s kc ns pod c = (s', r) \<Longrightarrow> sstep (containerEv nr img) s s'"
  by (auto simp: CreateCheckpoint_def Let_def split: prod.splits KubeletReply.splits if_splits
        option.splits list.splits intro!: sstep_emit)

lemma buildCheckpointImage_c:
  "buildCheckpointImage s path img base c = (s', r) \<Longrightarrow> sstep (containerEv nr img) s s'"
  by (auto simp: buildCheckpointImage_def Let_def split: prod.splits sum.splits if_splits
        dest!: run_eq intro!: sstep_emit)

lemma PushImage_c:
  "PushImage s rc i = (s', r) \<Longrightarrow> sstep (containerEv False img) s s'"
  by (auto simp: PushImage_def login_def Let_def split: prod.splits sum.splits if_splits
        dest!: run_eq intro!: sstep_emit)

lemma deleteCheckpointFile_c:
  "deleteCheckpointFile s path = (s', r) \<Longrightarrow> sstep (containerEv nr img) s s'"
  by (auto simp: deleteCheckpointFile_def Let_def split: if_splits option.splits intro!: sstep_emit)

lemma createStage_c:
  assumes "createStage s b c = (s', b', r)"
  shows "cstep (containerEv nr img) s b s' b'"
proof -
  let ?P = "containerEv nr img"
  obtain s1 b1 e1 where u1: "updatePhase s b PhaseCheckpointing (''Creating checkpoint for container '' @ c_Name c) = (s1, b1, e1)"
    by (rule prod_cases3)
  then have c1: "cstep ?P s b s1 b1" by (rule updatePhase_c) simp
  show ?thesis
  proof (cases "r_KubeletClient s1")
    case None
    with assms u1 have "s' = s1 \<and> b' = b1" by (simp add: createStage_def)
    with c1 show ?thesis by simp
  next
    case (Some kc)
    obtain s2 r2 where cc: "CreateCheckpoint s1 kc (pr_Namespace (sp_PodRef (cb_Spec b1)))
                       (pr_Name (sp_PodRef (cb_Spec b1))) (c_Name c) = (s2, r2)"
      by (cases "CreateCheckpoint s1 kc (pr_Namespace (sp_PodRef (cb_Spec b1)))
                       (pr_Name (sp_PodRef (cb_Spec b1))) (c_Name c)")
    then have "sstep ?P s1 s2" by (rule CreateCheckpoint_c)
    with c1 have c2: "cstep ?P s b s2 b1" by (rule cstep_sstep)
    show ?thesis
    proof (cases r2)
      case (Inl err)
      obtain s3 b3 e3 where u3: "updatePhase s2 b1 PhaseFailed (''Failed to create checkpoint: '' @ errText err) = (s3, b3, e3)"
        by (rule prod_cases3)
      then have "cstep ?P s2 b1 s3 b3" by (rule updatePhase_c) simp
      with c2 have c3: "cstep ?P s b s3 b3" by (rule cstep_trans)
      from assms u1 Some cc Inl u3 have "s' = s3 \<and> b' = b3" by (simp add: createStage_def)
      with c3 show ?thesis by simp
    next
      case (Inr path)
      obtain s3 b3 e3 where rc: "recordCheckpointFile s2 b1 (c_Name c) path = (s3, b3, e3)"
        by (rule prod_cases3)
      then have "cstep ?P s2 b1 s3 b3" by (rule recordCheckpointFile_c)
      with c2 have c3: "cstep ?P s b s3 b3" by (rule cstep_trans)
      obtain s4 b4 e4 where u4: "updatePhase s3 b3 PhaseCheckpointed
           (''Checkpoint created for container '' @ c_Name c @ '': '' @ path) = (s4, b4, e4)"
        by (rule prod_cases3)
      then have "cstep ?P s3 b3 s4 b4" by (rule updatePhase_c) simp
      with c3 have c4: "cstep ?P s b s4 b4" by (rule cstep_trans)
      from assms u1 Some cc Inr rc u4 have "s' = s4 \<and> b' = b4" by (simp add: createStage_def)
      with c4 show ?thesis by simp
    qed
  qed
qed

lemma deleteCheckpointFile_fst:
  "sstep (containerEv nr img) s (fst (deleteCheckpointFile s path))"
  by (cases "deleteCheckpointFile s path") (auto dest: deleteCheckpointFile_c)

lemma pushStage_c:
  assumes "pushStage s b c imageName full = (s', b', r)"
  shows "cstep (containerEv (sp_Registry (cb_Spec b) = None) img) s b s' b'"
proof (cases "sp_Registry (cb_Spec b)")
  case None
  obtain s4 b4 e4 where
    r: "recordBuiltImage s b (c_Name c) imageName False = (s4, b4, e4)"
    by (rule prod_cases3)
  then have c4: "cstep (containerEv True img) s b s4 b4" by (rule recordBuiltImage_c)
  then have "cb_Spec b4 = cb_Spec b" by (rule cstep_fields)
  with assms None r have res: "s' = fst (deleteCheckpointFile s4 full) \<and> b' = b4"
    by (simp add: pushStage_def)
  from c4 have "cstep (containerEv True img) s b (fst (deleteCheckpointFile s4 full)) b4"
    by (rule cstep_sstep) (rule deleteCheckpointFile_fst)
  with res None show ?thesis by simp
next
  case reg: (Some registry)
  let ?P = "containerEv False img"
  have nr: "(sp_Registry (cb_Spec b) = None) = False" using reg by simp
  have fin: "cstep ?P s b s' b'"
    if c3: "cstep ?P s b s3 b3" and rb: "recordBuiltImage s3 b3 (c_Name c) imageName pushed = (s4, b4, e4)"
      and res: "s' = (if sp_Registry (cb_Spec b4) = None \<or> pushed then fst (deleteCheckpointFile s4 full) else s4) \<and> b' = b4"
    for s3 b3 s4 b4 e4 pushed
  proof -
    from rb have "cstep ?P s3 b3 s4 b4" by (rule recordBuiltImage_c)
    with c3 have c4: "cstep ?P s b s4 b4" by (rule cstep_trans)
    then have "cstep ?P s b (fst (deleteCheckpointFile s4 full)) b4"
      by (rule cstep_sstep) (rule deleteCheckpointFile_fst)
    with c4 res show ?thesis by (simp split: if_splits)
  qed
  show ?thesis
  proof (cases "r_RegistryClient s")
    case None
    obtain s4 b4 e4 where rb: "recordBuiltImage s b (c_Name c) imageName False = (s4, b4, e4)"
      by (rule prod_cases3)
    with assms reg None
    have "s' = (if sp_Registry (cb_Spec b4) = None \<or> False then fst (deleteCheckpointFile s4 full) else s4) \<and> b' = b4"
      by (auto simp: pushStage_def split: if_splits)
    with fin [OF _ rb] reg show ?thesis by simp
  next
    case rc: (Some rc)
    obtain s1 b1 e1 where u1: "updatePhase s b PhaseImagePushing (''Pushing image '' @ imageName @ '' to registry'') = (s1, b1, e1)"
      by (rule prod_cases3)
    then have c1: "cstep ?P s b s1 b1" by (rule updatePhase_c) simp
    obtain s2 r2 where pi: "PushImage s1 rc imageName = (s2, r2)"
      by (cases "PushImage s1 rc imageName")
    then have "sstep ?P s1 s2" by (rule PushImage_c)
    with c1 have c2: "cstep ?P s b s2 b1" by (rule cstep_sstep)
    show ?thesis
    proof (cases r2)
      case err: (Some err)
      obtain s3 b3 e3 where u3: "updatePhase s2 b1 PhaseFailed (''Failed to push image: '' @ errText err) = (s3, b3, e3)"
        by (rule prod_cases3)
      then have "cstep ?P s2 b1 s3 b3" by (rule updatePhase_c) simp
      with c2 have c3: "cstep ?P s b s3 b3" by (rule cstep_trans)
      from assms reg rc u1 pi err u3 have "s' = s3 \<and> b' = b3" by (simp add: pushStage_def)
      with c3 reg show ?thesis by simp
    next
      case None
      obtain s3 b3 e3 where u3: "updatePhase s2 b1 PhaseImagePushed (''Image pushed successfully: '' @ imageName) = (s3, b3, e3)"
        by (rule prod_cases3)
      then have "cstep ?P s2 b1 s3 b3" by (rule updatePhase_c) simp
      with c2 have c3: "cstep ?P s b s3 b3" by (rule cstep_trans)
      obtain s4 b4 e4 where rb: "recordBuiltImage s3 b3 (c_Name c) imageName True = (s4, b4, e4)"
        by (rule prod_cases3)
      with assms reg rc u1 pi None u3
      have "s' = (if sp_Registry (cb_Spec b4) = None \<or> True then fst (deleteCheckpointFile s4 full) else s4) \<and> b' = b4"
        by (simp add: pushStage_def)
      with fin [OF c3 rb] reg show ?thesis by simp
    qed
  qed
qed

lemma resolveImageName_cstep:
  "cstep P s b s1 b1 \<Longrightarrow> resolveImageName s1 b1 c = resolveImageName s b c"
  by (simp add: resolveImageName_def cstep_fields)

lemma buildStage_c:
  assumes "buildStage s b pod c path0 = (s', b', r)"
  shows "cstep (containerEv (sp_Registry (cb_Spec b) = None) (resolveImageName s b c)) s b s' b'"
proof -
  let ?img = "resolveImageName s b c"
  let ?P = "containerEv (sp_Registry (cb_Spec b) = None) ?img"
  let ?found = "(if \<not> fileExists s (Join CheckpointBasePath path0)
            then findCheckpointFile s (pr_Namespace (sp_PodRef (cb_Spec b)))
                   (pr_Name (sp_PodRef (cb_Spec b))) (c_Name c) path0
            else Inr path0)"
  show ?thesis
  proof (cases ?found)
    case (Inl err)
    with assms have "s' = s \<and> b' = b" by (simp add: buildStage_def Let_def)
    then show ?thesis by simp
  next
    case (Inr path)
    show ?thesis
    proof (cases "baseImageOf pod (c_Name c) = ''''")
      case True
      with assms Inr have "s' = s \<and> b' = b" by (simp add: buildStage_def Let_def)
      then show ?thesis by simp
    next
      case False
      obtain s1 b1 e1 where u1: "updatePhase s b PhaseImageBuilding
           (''Building checkpoint image for container '' @ c_Name c) = (s1, b1, e1)"
        by (rule prod_cases3)
      then have c1: "cstep ?P s b s1 b1" by (rule updatePhase_c) simp
      obtain s2 r2 where bd: "buildCheckpointImage s1 path ?img (baseImageOf pod (c_Name c)) (c_Name c) = (s2, r2)"
        by (cases "buildCheckpointImage s1 path ?img (baseImageOf pod (c_Name c)) (c_Name c)")
      then have "sstep ?P s1 s2" by (rule buildCheckpointImage_c)
      with c1 have c2: "cstep ?P s b s2 b1" by (rule cstep_sstep)
      show ?thesis
      proof (cases r2)
        case (Some err)
        obtain s3 b3 e3 where u3: "updatePhase s2 b1 PhaseFailed (''Failed to build image: '' @ errText err) = (s3, b3, e3)"
          by (rule prod_cases3)
        then have "cstep ?P s2 b1 s3 b3" by (rule updatePhase_c) simp
        with c2 have c3: "cstep ?P s b s3 b3" by (rule cstep_trans)
        from assms Inr False u1 bd Some u3 have "s' = s3 \<and> b' = b3"
          by (simp add: buildStage_def Let_def)
        with c3 show ?thesis by simp
      next
        case None
        obtain s3 b3 e3 where u3: "updatePhase s2 b1 PhaseImageBuilt
            (''Image built successfully for container '' @ c_Name c @ '': '' @ ?img) = (s3, b3, e3)"
          by (rule prod_cases3)
        then have "cstep ?P s2 b1 s3 b3" by (rule updatePhase_c) simp
        with c2 have c3: "cstep ?P s b s3 b3" by (rule cstep_trans)
        from assms Inr False u1 bd None u3
        have ps: "pushStage s3 b3 c ?img (Join CheckpointBasePath path0) = (s', b', r)"
          by (simp add: buildStage_def Let_def)
        have "cb_Spec b3 = cb_Spec b" using c3 by (rule cstep_fields)
        with pushStage_c [OF ps, of ?img] have "cstep ?P s3 b3 s' b'" by simp
        with c3 show ?thesis by (rule cstep_trans)
      qed
    qed
  qed
qed

lemma checkpointContainer_c:
  assumes "checkpointContainer s b pod c = (s', b', r)"
  shows "cstep (containerEv (sp_Registry (cb_Spec b) = None) (resolveImageName s b c)) s b s' b'"
proof -
  let ?P = "containerEv (sp_Registry (cb_Spec b) = None) (resolveImageName s b c)"
  show ?thesis
  proof (cases "resumeCheck s b c")
    case None
    with assms have "s' = s \<and> b' = b" by (simp add: checkpointContainer_def)
    then show ?thesis by simp
  next
    case (Some path)
    obtain s1 b1 r1 where st: "(if path = '''' then createStage s b c else (s, b, Inr path)) = (s1, b1, r1)"
      by (rule prod_cases3)
    have c1: "cstep ?P s b s1 b1"
    proof (cases "path = ''''")
      case True
      with st have "createStage s b c = (s1, b1, r1)" by simp
      then show ?thesis by (rule createStage_c)
    next
      case False
      with st show ?thesis by simp
    qed
    show ?thesis
    proof (cases r1)
      case (Inl err)
      with assms Some st have "s' = s1 \<and> b' = b1" by (simp add: checkpointContainer_def)
      with c1 show ?thesis by simp
    next
      case (Inr p)
      with assms Some st have bs: "buildStage s1 b1 pod c p = (s', b', r)"
        by (simp add: checkpointContainer_def)
      have "cb_Spec b1 = cb_Spec b" using c1 by (rule cstep_fields)
      moreover have "resolveImageName s1 b1 c = resolveImageName s b c"
        using c1 by (rule resolveImageName_cstep)
      ultimately have "cstep ?P s1 b1 s' b'" using buildStage_c [OF bs] by simp
      with c1 show ?thesis by (rule cstep_trans)
    qed
  qed
qed

lemmas ce_defs = Reconcile_def getBackup_def getPod_def initializeClients_def NewKubeletClient_def
  NewRegistryClient_def secretField_def ensureFinalizer_def Update_def isPodOnThisNode_def
  reconcileNormal_def reconcileDelete_def performCheckpoint_def containersToProcess_def
  completeCheckpoint_def checkpointContainer_def resumeCheck_def getCheckpointFilePath_def
  createStage_def buildStage_def pushStage_def updatePhase_def recordCheckpointFile_def
  recordBuiltImage_def StatusUpdate_def DeletePodCall_def CreateCheckpoint_def
  buildCheckpointImage_def PushImage_def login_def registryHost_def run_def
  deleteCheckpointFile_def findCheckpointFile_def fileExists_def Join_def Clean_def isRooted_def
  Rel_def TrimPrefix_def TrimSpace_def spaceLen_def spaceLenRev_def asciiSpace_def wideSpace_def
  Base_def baseImageOf_def resolveImageName_def setPhase_def emit_def
  shouldStopPod_def unscheduleJob_def syncEntry_def backupKey_def cronFire_def
  numeral_3_eq_3 Let_def

lemmas ex_ce_defs = ex_request_def ex_appPod_def ex_tar_def ex_sys_def ex_execOk_def ex_pushFails_def

lemma containerEv_exec:
  assumes "containerEv nr img (EvExec cmd)"
  shows "(take 2 cmd = [''buildah'', ''commit''] \<longrightarrow> last cmd = img) \<and>
         (nr \<longrightarrow> take 2 cmd \<noteq> [''buildah'', ''push''] \<and> take 2 cmd \<noteq> [''buildah'', ''login''])"
  using assms by auto

text \<open>
  C6 (as amended). For every container that the capture pipeline processes, the image it
  builds is the image of the request's containers entry when a registry is configured and
  the entry names an image; when no registry is configured or the entry names no image,
  it is \<open>localhost/checkpoint-{pod}-{container}:{YYYYMMDD-HHMMSS}\<close>. Every
  \<open>buildah commit\<close> of the call commits under that name, and without a registry the
  call runs no \<open>buildah login\<close> and no \<open>buildah push\<close>.
\<close>

theorem image_name_resolution:
  assumes "checkpointContainer s b pod c = (s', b', r)"
  shows "(sp_Registry (cb_Spec b) \<noteq> None \<and> c_Image c \<noteq> '''' \<longrightarrow> resolveImageName s b c = c_Image c)
       \<and> (sp_Registry (cb_Spec b) = None \<or> c_Image c = '''' \<longrightarrow>
            resolveImageName s b c =
              ''localhost/checkpoint-'' @ pr_Name (sp_PodRef (cb_Spec b)) @ ''-'' @ c_Name c @ '':'' @ e_timestamp s)
       \<and> (\<exists>evs. w_trace s' = w_trace s @ evs \<and>
             (\<forall>cmd. EvExec cmd \<in> set evs \<longrightarrow>
                (take 2 cmd = [''buildah'', ''commit''] \<longrightarrow> last cmd = resolveImageName s b c) \<and>
                (sp_Registry (cb_Spec b) = None \<longrightarrow>
                   take 2 cmd \<noteq> [''buildah'', ''push''] \<and> take 2 cmd \<noteq> [''buildah'', ''login''])))"
proof -
  from checkpointContainer_c [OF assms]
  obtain evs where evs: "w_trace s' = w_trace s @ evs"
    and ok: "list_all (containerEv (sp_Registry (cb_Spec b) = None) (resolveImageName s b c)) evs"
    by (auto simp: cstep_def adds_def)
  have "\<forall>cmd. EvExec cmd \<in> set evs \<longrightarrow>
                (take 2 cmd = [''buildah'', ''commit''] \<longrightarrow> last cmd = resolveImageName s b c) \<and>
                (sp_Registry (cb_Spec b) = None \<longrightarrow>
                   take 2 cmd \<noteq> [''buildah'', ''push''] \<and> take 2 cmd \<noteq> [''buildah'', ''login''])"
  proof (intro allI impI)
    fix cmd assume "EvExec cmd \<in> set evs"
    with ok have "containerEv (sp_Registry (cb_Spec b) = None) (resolveImageName s b c) (EvExec cmd)"
      unfolding list_all_iff by blast
    then show "(take 2 cmd = [''buildah'', ''commit''] \<longrightarrow> last cmd = resolveImageName s b c) \<and>
                (sp_Registry (cb_Spec b) = None \<longrightarrow>
                   take 2 cmd \<noteq> [''buildah'', ''push''] \<and> take 2 cmd \<noteq> [''buildah'', ''login''])"
      by (rule containerEv_exec)
  qed
  with evs have "\<exists>evs. w_trace s' = w_trace s @ evs \<and>
             (\<forall>cmd. EvExec cmd \<in> set evs \<longrightarrow>
                (take 2 cmd = [''buildah'', ''commit''] \<longrightarrow> last cmd = resolveImageName s b c) \<and>
                (sp_Registry (cb_Spec b) = None \<longrightarrow>
                   take 2 cmd \<noteq> [''buildah'', ''push''] \<and> take 2 cmd \<noteq> [''buildah'', ''login'']))"
    by blast
  then show ?thesis by (simp add: resolveImageName_def)
qed

theorem image_name_resolution_witness:
  "resolveImageName (ex_sys (ex_request ''immediately'' None (Some ex_reg) [ex_web] '''') (Some (ex_appPod ''N1'' ''Running'')) ex_execOk)
       (ex_request ''immediately'' None (Some ex_reg) [ex_web] '''') ex_web = ''ckpt/web:abc''
   \<and> resolveImageName (ex_sys (ex_request ''immediately'' None None [ex_web] '''') (Some (ex_appPod ''N1'' ''Running'')) ex_execOk)
       (ex_request ''immediately'' None None [ex_web] '''') ex_web = ''localhost/checkpoint-app-0-web:20250104-143022''"
proof -
  let ?b1 = "ex_request ''immediately'' None (Some ex_reg) [ex_web] ''''"
  let ?b2 = "ex_request ''immediately'' None None [ex_web] ''''"
  let ?pod = "ex_appPod ''N1'' ''Running''"
  let ?s1 = "ex_sys ?b1 (Some ?pod) ex_execOk"
  let ?s2 = "ex_sys ?b2 (Some ?pod) ex_execOk"
  have r1: "sp_Registry (cb_Spec ?b1) \<noteq> None \<and> c_Image ex_web \<noteq> ''''"
    by (simp add: ex_request_def ex_web_def)
  have r2: "sp_Registry (cb_Spec ?b2) = None \<or> c_Image ex_web = ''''"
    by (simp add: ex_request_def)
  have c1: "checkpointContainer ?s1 ?b1 ?pod ex_web =
              (fst (checkpointContainer ?s1 ?b1 ?pod ex_web),
               fst (snd (checkpointContainer ?s1 ?b1 ?pod ex_web)),
               snd (snd (checkpointContainer ?s1 ?b1 ?pod ex_web)))" by simp
  have c2: "checkpointContainer ?s2 ?b2 ?pod ex_web =
              (fst (checkpointContainer ?s2 ?b2 ?pod ex_web),
               fst (snd (checkpointContainer ?s2 ?b2 ?pod ex_web)),
               snd (snd (checkpointContainer ?s2 ?b2 ?pod ex_web)))" by simp
  from image_name_resolution [OF c1] r1
  have a: "resolveImageName ?s1 ?b1 ex_web = c_Image ex_web" by blast
  from image_name_resolution [OF c2] r2
  have b: "resolveImageName ?s2 ?b2 ex_web =
       ''localhost/checkpoint-'' @ pr_Name (sp_PodRef (cb_Spec ?b2)) @ ''-'' @ c_Name ex_web @ '':'' @ e_timestamp ?s2"
    by blast
  from a b show ?thesis
    by (simp add: ex_request_def ex_web_def ex_sys_def)
qed

text \<open>
  The claim as first stated has the supplied image used whether or not a registry is
  configured. Request \<open>cb1\<close> names image \<open>ckpt/web:abc\<close> for \<open>web\<close> and has
  no registry: the image recorded by the reconcile is the generated local one.
\<close>

theorem supplied_image_replaced_without_registry:
  "c_Image ex_web = ''ckpt/web:abc''
   \<and> sp_Containers (cb_Spec (ex_request ''immediately'' None None [ex_web] '''')) = [ex_web]
   \<and> map_option (map bi_ImageName \<circ> st_BuiltImages \<circ> cb_Status)
       (w_backups (fst (Reconcile (ex_sys (ex_request ''immediately'' None None [ex_web] '''')
                            (Some (ex_appPod ''N1'' ''Running'')) ex_execOk) ''t'' ''cb1'')) (''t'', ''cb1''))
     = Some [''localhost/checkpoint-app-0-web:20250104-143022'']"
  by (simp add: ce_defs ex_ce_defs ex_web_def)

lemma quiet_refl [simp]: "quiet s s"
  by (simp add: quiet_def)

lemma quiet_trans:
  assumes "quiet s s1" and "quiet s1 s2"
  shows "quiet s s2"
proof -
  have a: "adds isUpdateEv s s2" using assms by (auto simp: quiet_def intro: adds_trans)
  have f: "w_pods s2 = w_pods s \<and> w_files s2 = w_files s \<and> w_fault s2 = w_fault s \<and>
           r_NodeName s2 = r_NodeName s" using assms by (simp add: quiet_def)
  have k: "\<exists>x. w_backups s k = Some x \<and> cb_Status x' = cb_Status x \<and> cb_Spec x' = cb_Spec x \<and>
               cb_Namespace x' = cb_Namespace x \<and> cb_Name x' = cb_Name x"
    if "w_backups s2 k = Some x'" for k x'
  proof -
    from that assms(2) obtain x1 where "w_backups s1 k = Some x1"
      "cb_Status x' = cb_Status x1" "cb_Spec x' = cb_Spec x1"
      "cb_Namespace x' = cb_Namespace x1" "cb_Name x' = cb_Name x1" unfolding quiet_def by blast
    moreover from this assms(1) obtain x where "w_backups s k = Some x"
      "cb_Status x1 = cb_Status x" "cb_Spec x1 = cb_Spec x"
      "cb_Namespace x1 = cb_Namespace x" "cb_Name x1 = cb_Name x" unfolding quiet_def by blast
    ultimately show ?thesis by simp
  qed
  from a f k show ?thesis unfolding quiet_def by blast
qed

lemma quiet_reconciler:
  "quiet s (s\<lparr>r_KubeletClient := a\<rparr>)" "quiet s (s\<lparr>r_RegistryClient := b\<rparr>)"
  "quiet s (s\<lparr>r_Scheduler := c, r_scheduledJobs := d, r_entries := e\<rparr>)"
  "quiet s (s\<lparr>r_entries := e, r_scheduledJobs := d\<rparr>)"
  "quiet s (s\<lparr>r_entries := e\<rparr>)"
  "quiet s (s\<lparr>r_entries := e, r_nextEntry := n, r_scheduledJobs := d\<rparr>)"
  by (simp_all add: quiet_def adds_def)

lemma unscheduleJob_quiet [simp]: "quiet s (unscheduleJob s key)"
  by (simp add: unscheduleJob_def quiet_reconciler split: option.splits)

lemma syncEntry_quiet [simp]: "quiet s (syncEntry s i b)"
  by (simp add: syncEntry_def quiet_reconciler)

lemma initializeClients_quiet:
  assumes "initializeClients s b = (s1, e)"
  shows "quiet s s1 \<and> w_backups s1 = w_backups s \<and> w_trace s1 = w_trace s"
  using assms
  by (auto simp: initializeClients_def quiet_def adds_def
        split: option.splits sum.splits if_splits prod.splits)

lemma Update_quiet:
  assumes "Update s x = (s1, r)"
    and "\<forall>st. w_backups s (cb_Namespace x, cb_Name x) = Some st \<longrightarrow> cb_Spec x = cb_Spec st"
  shows "quiet s s1"
  using assms
  by (auto simp: Update_def Let_def quiet_def adds_def emit_def split: option.splits if_splits)

lemma Update_result:
  assumes "Update s x = (s1, Inr y)"
  shows "\<exists>st. w_backups s (cb_Namespace x, cb_Name x) = Some st \<and>
            y = st\<lparr>cb_Finalizers := cb_Finalizers x, cb_Spec := cb_Spec x\<rparr>"
  using assms
  by (auto simp: Update_def Let_def split: option.splits if_splits)

lemma performCheckpoint_terminal:
  "st_Phase (cb_Status b) \<in> {PhaseCompleted, PhaseCompletedPodDeleted, PhaseCompletedWithError} \<Longrightarrow>
   performCheckpoint s b = (s, b, None)"
  by (auto simp: performCheckpoint_def)

lemma reconcileNormal_quiet:
  assumes "reconcileNormal s b = (s', res)"
    and "st_Phase (cb_Status b) \<in> {PhaseCompleted, PhaseCompletedPodDeleted, PhaseCompletedWithError} \<or>
         (sp_Schedule (cb_Spec b) = ''immediately'' \<and> st_Phase (cb_Status b) \<noteq> '''')"
  shows "quiet s s'"
proof (cases "sp_Schedule (cb_Spec b) = ''immediately''")
  case True
  with assms have "s' = s" by (auto simp: reconcileNormal_def)
  then show ?thesis by simp
next
  case False
  with assms(2) have t: "st_Phase (cb_Status b) \<in> {PhaseCompleted, PhaseCompletedPodDeleted, PhaseCompletedWithError}"
    by simp
  let ?s1 = "unscheduleJob s (backupKey b)"
  let ?s2 = "?s1\<lparr>r_entries := (r_entries ?s1)(r_nextEntry ?s1 \<mapsto> b),
                   r_nextEntry := Suc (r_nextEntry ?s1),
                   r_scheduledJobs := (r_scheduledJobs ?s1)(backupKey b \<mapsto> r_nextEntry ?s1)\<rparr>"
  have q1: "quiet s ?s1" by simp
  have q2: "quiet s ?s2" by (rule quiet_trans [OF q1]) (rule quiet_reconciler)
  have q3: "quiet s (syncEntry ?s2 (r_nextEntry ?s1) b)"
    by (rule quiet_trans [OF q2]) simp
  from assms(1) False performCheckpoint_terminal [OF t, of ?s2]
  have "s' = ?s1 \<or> s' = ?s2 \<or> s' = syncEntry ?s2 (r_nextEntry ?s1) b"
    by (auto simp: reconcileNormal_def Let_def split: if_splits)
  with q1 q2 q3 show ?thesis by blast
qed

lemma isPodOnThisNode_quiet:
  "quiet s s1 \<Longrightarrow> cb_Spec b1 = cb_Spec b \<Longrightarrow> isPodOnThisNode s1 b1 = isPodOnThisNode s b"
  by (auto simp: isPodOnThisNode_def getPod_def quiet_def split: option.splits)

lemma getBackup_stored: "getBackup s ns name = Inr b \<Longrightarrow> w_backups s (ns, name) = Some b"
  by (auto simp: getBackup_def split: option.splits)

lemma Reconcile_quiet:
  assumes "Reconcile s ns name = (s', res)"
    and "\<forall>b. getBackup s ns name = Inr b \<longrightarrow> idle s b \<and> cb_Namespace b = ns \<and> cb_Name b = name"
  shows "quiet s s'"
proof (cases "getBackup s ns name")
  case (Inl err)
  with assms(1) have "s' = s \<or> s' = unscheduleJob s (ns @ ''/'' @ name)"
    by (auto simp: Reconcile_def split: if_splits)
  then show ?thesis by auto
next
  case (Inr b)
  with assms(2) have idle: "idle s b" and key: "cb_Namespace b = ns" "cb_Name b = name" by auto
  from Inr have st: "w_backups s (ns, name) = Some b" by (rule getBackup_stored)
  obtain s1 e1 where ic: "initializeClients s b = (s1, e1)" by (cases "initializeClients s b")
  then have q1: "quiet s s1" and b1: "w_backups s1 = w_backups s"
    using initializeClients_quiet by blast+
  show ?thesis
  proof (cases e1)
    case (Some err)
    with assms(1) Inr ic have "s' = s1" by (simp add: Reconcile_def)
    with q1 show ?thesis by simp
  next
    case None
    obtain s2 r2 where ef: "ensureFinalizer s1 b = (s2, r2)" by (cases "ensureFinalizer s1 b")
    have q12: "quiet s1 s2"
    proof (cases "CheckpointBackupFinalizer \<in> set (cb_Finalizers b)")
      case True
      with ef have "s2 = s1" by (simp add: ensureFinalizer_def)
      then show ?thesis by simp
    next
      case False
      with ef have "Update s1 (b\<lparr>cb_Finalizers := cb_Finalizers b @ [CheckpointBackupFinalizer]\<rparr>) = (s2, r2)"
        by (simp add: ensureFinalizer_def)
      then show ?thesis by (rule Update_quiet) (simp add: b1 key st)
    qed
    with q1 have q2: "quiet s s2" by (rule quiet_trans)
    show ?thesis
    proof (cases r2)
      case (Inl err)
      with assms(1) Inr ic None ef have "s' = s2" by (simp add: Reconcile_def)
      with q2 show ?thesis by simp
    next
      case r: (Inr backup)
      have same: "cb_Status backup = cb_Status b \<and> cb_Spec backup = cb_Spec b \<and>
                  cb_Namespace backup = ns \<and> cb_Name backup = name"
      proof (cases "CheckpointBackupFinalizer \<in> set (cb_Finalizers b)")
        case True
        with ef r have "backup = b" by (simp add: ensureFinalizer_def)
        with key show ?thesis by simp
      next
        case False
        with ef r have "Update s1 (b\<lparr>cb_Finalizers := cb_Finalizers b @ [CheckpointBackupFinalizer]\<rparr>) = (s2, Inr backup)"
          by (simp add: ensureFinalizer_def)
        from Update_result [OF this] b1 st key show ?thesis by auto
      qed
      show ?thesis
      proof (cases "cb_DeletionTimestamp backup \<noteq> None")
        case True
        with assms(1) Inr ic None ef r have rd: "reconcileDelete s2 backup = (s', res)"
          by (simp add: Reconcile_def)
        let ?s3 = "unscheduleJob s2 (backupKey backup)"
        have q3: "quiet s2 ?s3" by simp
        have sp: "\<forall>st. w_backups ?s3 (ns, name) = Some st \<longrightarrow> cb_Spec backup = cb_Spec st"
        proof (intro allI impI)
          fix x' assume "w_backups ?s3 (ns, name) = Some x'"
          with quiet_trans [OF q2 q3] st have "cb_Spec x' = cb_Spec b"
            unfolding quiet_def by fastforce
          with same show "cb_Spec backup = cb_Spec x'" by simp
        qed
        obtain s4 r4 where up: "Update ?s3 (backup\<lparr>cb_Finalizers := filter (\<lambda>f. f \<noteq> CheckpointBackupFinalizer)
                                  (cb_Finalizers backup)\<rparr>) = (s4, r4)"
          by (cases "Update ?s3 (backup\<lparr>cb_Finalizers := filter (\<lambda>f. f \<noteq> CheckpointBackupFinalizer)
                                  (cb_Finalizers backup)\<rparr>)")
        then have "quiet ?s3 s4" by (rule Update_quiet) (use same sp in auto)
        with q2 q3 have q4: "quiet s s4" by (blast intro: quiet_trans)
        from rd up have "s' = s4" by (auto simp: reconcileDelete_def Let_def split: sum.splits)
        with q4 show ?thesis by simp
      next
        case nd: False
        show ?thesis
        proof (cases "st_Phase (cb_Status backup) = PhaseCompletedPodDeleted")
          case True
          with assms(1) Inr ic None ef r nd have "s' = s2" by (simp add: Reconcile_def)
          with q2 show ?thesis by simp
        next
          case np: False
          have pn: "isPodOnThisNode s2 backup = isPodOnThisNode s b"
            using q2 same by (simp add: isPodOnThisNode_quiet)
          show ?thesis
          proof (cases "isPodOnThisNode s b = Inr True")
            case True
            with assms(1) Inr ic None ef r nd np pn have rn: "reconcileNormal s2 backup = (s', res)"
              by (simp add: Reconcile_def)
            from idle True same
            have "st_Phase (cb_Status backup) \<in> {PhaseCompleted, PhaseCompletedPodDeleted, PhaseCompletedWithError} \<or>
                  (sp_Schedule (cb_Spec backup) = ''immediately'' \<and> st_Phase (cb_Status backup) \<noteq> '''')"
              by (simp add: idle_def)
            with rn have "quiet s2 s'" by (rule reconcileNormal_quiet)
            with q2 show ?thesis by (rule quiet_trans)
          next
            case False
            with assms(1) Inr ic None ef r nd np pn have "s' = s2"
              by (auto simp: Reconcile_def split: sum.splits)
            with q2 show ?thesis by simp
          qed
        qed
      qed
    qed
  qed
qed

text \<open>
  C1 (as amended). A reconcile of a request whose pod is not resident on this node (the pod
  being absent included) writes no status: every stored request keeps its status, no pod
  and no file is touched, and the only API call it can make is the metadata update that adds
  or removes the finalizer. When the request already carries the finalizer and is not being
  deleted, the reconcile makes no API call at all and leaves the stored requests as they are.
\<close>

theorem nonlocal_reconcile_frame:
  assumes "getBackup s ns name = Inr b" and "cb_Namespace b = ns" and "cb_Name b = name"
    and "isPodOnThisNode s b = Inr False"
    and "Reconcile s ns name = (s', res)"
  shows "adds isUpdateEv s s' \<and> w_pods s' = w_pods s \<and> w_files s' = w_files s
       \<and> (\<forall>k x'. w_backups s' k = Some x' \<longrightarrow>
             (\<exists>x. w_backups s k = Some x \<and> cb_Status x' = cb_Status x))
       \<and> (CheckpointBackupFinalizer \<in> set (cb_Finalizers b) \<and> cb_DeletionTimestamp b = None \<longrightarrow>
             w_trace s' = w_trace s \<and> w_backups s' = w_backups s)"
proof -
  have "\<forall>x. getBackup s ns name = Inr x \<longrightarrow> idle s x \<and> cb_Namespace x = ns \<and> cb_Name x = name"
    using assms(1-4) by (simp add: idle_def)
  with assms(5) have q: "quiet s s'" by (rule Reconcile_quiet)
  have nw: "w_trace s' = w_trace s \<and> w_backups s' = w_backups s"
    if fin: "CheckpointBackupFinalizer \<in> set (cb_Finalizers b)" and nd: "cb_DeletionTimestamp b = None"
  proof -
    obtain s1 e1 where ic: "initializeClients s b = (s1, e1)" by (cases "initializeClients s b")
    then have q1: "quiet s s1" and b1: "w_backups s1 = w_backups s" and t1: "w_trace s1 = w_trace s"
      using initializeClients_quiet by blast+
    have ef: "ensureFinalizer s1 b = (s1, Inr b)" using fin by (simp add: ensureFinalizer_def)
    have "isPodOnThisNode s1 b = Inr False" using q1 assms(4) by (simp add: isPodOnThisNode_quiet)
    with assms(1,5) ic ef nd have "s' = s1"
      by (cases e1) (auto simp: Reconcile_def split: if_splits)
    with b1 t1 show ?thesis by simp
  qed
  from q nw show ?thesis unfolding quiet_def by blast
qed

theorem nonlocal_reconcile_frame_witness:
  "isPodOnThisNode (ex_sys (ex_request ''immediately'' None None [] '''') (Some (ex_appPod ''N2'' ''Running'')) ex_execOk)
      (ex_request ''immediately'' None None [] '''') = Inr False
   \<and> w_trace (fst (Reconcile (ex_sys (ex_request ''immediately'' None None [] '''')
                              (Some (ex_appPod ''N2'' ''Running'')) ex_execOk) ''t'' ''cb1'')) = []
   \<and> w_backups (fst (Reconcile (ex_sys (ex_request ''immediately'' None None [] '''')
                              (Some (ex_appPod ''N2'' ''Running'')) ex_execOk) ''t'' ''cb1''))
      = w_backups (ex_sys (ex_request ''immediately'' None None [] '''') (Some (ex_appPod ''N2'' ''Running'')) ex_execOk)"
proof -
  let ?b = "ex_request ''immediately'' None None [] ''''"
  let ?s = "ex_sys ?b (Some (ex_appPod ''N2'' ''Running'')) ex_execOk"
  have h1: "getBackup ?s ''t'' ''cb1'' = Inr ?b" by (simp add: getBackup_def ex_sys_def)
  have h2: "cb_Namespace ?b = ''t''" and h3: "cb_Name ?b = ''cb1''" by (simp_all add: ex_request_def)
  have h4: "isPodOnThisNode ?s ?b = Inr False"
    by (simp add: isPodOnThisNode_def getPod_def ex_sys_def ex_request_def ex_appPod_def)
  have h5: "Reconcile ?s ''t'' ''cb1'' = (fst (Reconcile ?s ''t'' ''cb1''), snd (Reconcile ?s ''t'' ''cb1''))"
    by simp
  have f: "CheckpointBackupFinalizer \<in> set (cb_Finalizers ?b) \<and> cb_DeletionTimestamp ?b = None"
    by (simp add: ex_request_def)
  have t: "w_trace ?s = []" by (simp add: ex_sys_def)
  from nonlocal_reconcile_frame [OF h1 h2 h3 h4 h5] f t h4 show ?thesis by simp
qed

text \<open>
  The claim as first stated has no metadata write either. Request \<open>cb1\<close> without the
  finalizer, whose pod does not exist: the reconcile adds the finalizer with one update call
  before it looks for the pod.
\<close>

theorem nonlocal_reconcile_adds_finalizer:
  "isPodOnThisNode (ex_sys ((ex_request ''immediately'' None None [] '''')\<lparr>cb_Finalizers := []\<rparr>) None ex_execOk)
      ((ex_request ''immediately'' None None [] '''')\<lparr>cb_Finalizers := []\<rparr>) = Inr False
   \<and> w_trace (ex_sys ((ex_request ''immediately'' None None [] '''')\<lparr>cb_Finalizers := []\<rparr>) None ex_execOk) = []
   \<and> w_trace (fst (Reconcile (ex_sys ((ex_request ''immediately'' None None [] '''')\<lparr>cb_Finalizers := []\<rparr>)
                              None ex_execOk) ''t'' ''cb1'')) = [EvUpdate ''t'' ''cb1'']
   \<and> map_option cb_Finalizers
        (w_backups (ex_sys ((ex_request ''immediately'' None None [] '''')\<lparr>cb_Finalizers := []\<rparr>) None ex_execOk)
           (''t'', ''cb1'')) = Some []
   \<and> map_option cb_Finalizers
        (w_backups (fst (Reconcile (ex_sys ((ex_request ''immediately'' None None [] '''')\<lparr>cb_Finalizers := []\<rparr>)
                              None ex_execOk) ''t'' ''cb1'')) (''t'', ''cb1''))
      = Some [CheckpointBackupFinalizer]"
  by (simp add: ce_defs ex_ce_defs)




lemma containerEv_notStart: "containerEv nr img ev \<Longrightarrow> \<not> isStartEv ev"
  by (cases ev) auto

lemma cstep_mono: "cstep P s b s' b' \<Longrightarrow> (\<And>ev. P ev \<Longrightarrow> Q ev) \<Longrightarrow> cstep Q s b s' b'"
  unfolding cstep_def using adds_mono by blast

lemma checkpointContainers_c:
  "checkpointContainers s b pod cs = (s', b', r) \<Longrightarrow> cstep (\<lambda>ev. \<not> isStartEv ev) s b s' b'"
proof (induction cs arbitrary: s b)
  case Nil
  then show ?case by simp
next
  case (Cons c cs)
  obtain s1 b1 r1 where cc: "checkpointContainer s b pod c = (s1, b1, r1)" by (rule prod_cases3)
  from checkpointContainer_c [OF cc] have c1: "cstep (\<lambda>ev. \<not> isStartEv ev) s b s1 b1"
    by (rule cstep_mono) (rule containerEv_notStart)
  show ?case
  proof (cases r1)
    case None
    with Cons.prems cc have "checkpointContainers s1 b1 pod cs = (s', b', r)" by simp
    then have "cstep (\<lambda>ev. \<not> isStartEv ev) s1 b1 s' b'" by (rule Cons.IH)
    with c1 show ?thesis by (rule cstep_trans)
  next
    case (Some e)
    with Cons.prems cc have "s' = s1 \<and> b' = b1" by simp
    with c1 show ?thesis by simp
  qed
qed

lemma cstep_inSync: "cstep P s b s' b' \<Longrightarrow> inSync s b \<Longrightarrow> inSync s' b'"
  by (simp add: cstep_def framed_def)

lemma inSync_stored:
  "inSync s b \<Longrightarrow> \<exists>x. w_backups s (cb_Namespace b, cb_Name b) = Some x"
  by (auto simp: inSync_def split: option.splits)

lemma updatePhase_sync:
  assumes "inSync s b" and "w_backups s (cb_Namespace b, cb_Name b) = Some x"
    and "updatePhase s b p m = (s', b', r)"
  shows "r = None" "b' = setPhase p m b" "inSync s' b'"
    "w_backups s' = (w_backups s)((cb_Namespace b, cb_Name b) \<mapsto> setPhase p m x)"
    "outside s' = outside s" "w_files s' = w_files s"
    "w_trace s' = w_trace s @ [EvStatusUpdate (cb_Namespace b) (cb_Name b) p]"
proof -
  from updatePhase_healthy [OF assms(1,2), of p m] assms(3)
  have s': "s' = s\<lparr>w_trace := w_trace s @ [EvStatusUpdate (cb_Namespace b) (cb_Name b) p],
             w_statusFaults := [],
             w_backups := (w_backups s)((cb_Namespace b, cb_Name b) \<mapsto> setPhase p m x)\<rparr>"
    and b': "b' = setPhase p m b" and r: "r = None" by simp_all
  show "r = None" by (rule r)
  show "b' = setPhase p m b" by (rule b')
  show "inSync s' b'" using updatePhase_inSync [OF assms(1,3)] by blast
  show "w_backups s' = (w_backups s)((cb_Namespace b, cb_Name b) \<mapsto> setPhase p m x)"
    unfolding s' by simp
  show "outside s' = outside s" unfolding s' by (simp add: outside_def)
  show "w_files s' = w_files s" unfolding s' by simp
  show "w_trace s' = w_trace s @ [EvStatusUpdate (cb_Namespace b) (cb_Name b) p]"
    unfolding s' by simp
qed

lemma unscheduleJob_fields [simp]:
  "w_pods (unscheduleJob s k) = w_pods s" "w_backups (unscheduleJob s k) = w_backups s"
  "w_statusFaults (unscheduleJob s k) = w_statusFaults s" "w_fault (unscheduleJob s k) = w_fault s"
  "w_trace (unscheduleJob s k) = w_trace s" "w_files (unscheduleJob s k) = w_files s"
  "r_scheduledJobs (unscheduleJob s k) k = None"
  by (simp_all add: unscheduleJob_def split: option.splits)

lemma unscheduleJob_entry:
  "r_scheduledJobs s k = Some i \<Longrightarrow> r_entries (unscheduleJob s k) i = None"
  by (simp add: unscheduleJob_def)

lemma setPhase_fields [simp]:
  "cb_Spec (setPhase p m b) = cb_Spec b"
  "st_CheckpointFiles (cb_Status (setPhase p m b)) = st_CheckpointFiles (cb_Status b)"
  "st_BuiltImages (cb_Status (setPhase p m b)) = st_BuiltImages (cb_Status b)"
  "st_Message (cb_Status (setPhase p m b)) = m"
  by (simp_all add: setPhase_def)

lemma completeCheckpoint_stopPod:
  assumes sync: "inSync s b" and stop: "shouldStopPod b"
    and pod: "w_pods s (pod_Namespace pod, pod_Name pod) = Some p"
    and cc: "completeCheckpoint s b pod = (s', b', r)"
  shows "w_fault s DeletePod = None \<Longrightarrow>
           r = None \<and> w_pods s' (pod_Namespace pod, pod_Name pod) = None \<and>
           r_scheduledJobs s' (backupKey b) = None \<and>
           (\<forall>i. r_scheduledJobs s (backupKey b) = Some i \<longrightarrow> r_entries s' i = None) \<and>
           st_Phase (cb_Status b') = PhaseCompletedPodDeleted \<and>
           map_option (st_Phase \<circ> cb_Status) (w_backups s' (cb_Namespace b, cb_Name b))
             = Some PhaseCompletedPodDeleted"
    and "w_fault s DeletePod = Some e \<Longrightarrow>
           r = Some e \<and> w_pods s' = w_pods s \<and>
           st_Phase (cb_Status b') = PhaseCompletedWithError \<and>
           map_option (st_Phase \<circ> cb_Status) (w_backups s' (cb_Namespace b, cb_Name b))
             = Some PhaseCompletedWithError \<and>
           map_option (st_CheckpointFiles \<circ> cb_Status) (w_backups s' (cb_Namespace b, cb_Name b))
             = map_option (st_CheckpointFiles \<circ> cb_Status) (w_backups s (cb_Namespace b, cb_Name b)) \<and>
           map_option (st_BuiltImages \<circ> cb_Status) (w_backups s' (cb_Namespace b, cb_Name b))
             = map_option (st_BuiltImages \<circ> cb_Status) (w_backups s (cb_Namespace b, cb_Name b)) \<and>
           st_CheckpointFiles (cb_Status b') = st_CheckpointFiles (cb_Status b) \<and>
           st_BuiltImages (cb_Status b') = st_BuiltImages (cb_Status b)"
proof -
  from sync obtain x where x: "w_backups s (cb_Namespace b, cb_Name b) = Some x"
    using inSync_stored by blast
  define b0 where "b0 = b\<lparr>cb_Status := (cb_Status b)\<lparr>st_LastCheckpointTime := Some (e_now s)\<rparr>\<rparr>"
  have n0: "cb_Namespace b0 = cb_Namespace b" "cb_Name b0 = cb_Name b" "cb_Spec b0 = cb_Spec b"
    "st_CheckpointFiles (cb_Status b0) = st_CheckpointFiles (cb_Status b)"
    "st_BuiltImages (cb_Status b0) = st_BuiltImages (cb_Status b)"
    by (simp_all add: b0_def)
  have sync0: "inSync s b0" using sync by (auto simp: inSync_def b0_def split: option.splits)
  have x0: "w_backups s (cb_Namespace b0, cb_Name b0) = Some x" using x n0 by simp
  obtain s1 b1 r1 where u1: "updatePhase s b0 PhaseCompleted ''All containers checkpointed successfully'' = (s1, b1, r1)"
    by (rule prod_cases3)
  note f1 = updatePhase_sync [OF sync0 x0 u1]
  note o1 = outside_fields [OF f1(5)]
  have u1': "updatePhase s (b\<lparr>cb_Status := (cb_Status b)\<lparr>st_LastCheckpointTime := Some (e_now s)\<rparr>\<rparr>)
               PhaseCompleted ''All containers checkpointed successfully'' = (s1, b1, None)"
    using u1 f1(1) by (simp add: b0_def)
  have stop1: "shouldStopPod b1" using stop f1(2) n0 by (simp add: shouldStopPod_def)
  have n1: "cb_Namespace b1 = cb_Namespace b" "cb_Name b1 = cb_Name b" "backupKey b1 = backupKey b"
    using f1(2) n0 by (simp_all add: backupKey_def)
  have x1: "w_backups s1 (cb_Namespace b1, cb_Name b1)
              = Some (setPhase PhaseCompleted ''All containers checkpointed successfully'' x)"
    using f1(4) n0 n1 by simp
  have pod1: "w_pods s1 (pod_Namespace pod, pod_Name pod) = Some p" using pod o1 by simp
  {
    assume nf: "w_fault s DeletePod = None"
    define s2 where "s2 = (emit (EvDeletePod (pod_Namespace pod) (pod_Name pod)) s1)
                            \<lparr>w_pods := (w_pods s1)((pod_Namespace pod, pod_Name pod) := None)\<rparr>"
    have d: "DeletePodCall s1 pod = (s2, None)"
      using nf o1 pod1 by (simp add: DeletePodCall_def Let_def s2_def)
    define s3 where "s3 = unscheduleJob s2 (backupKey b1)"
    have sync3: "inSync s3 b1" using f1(3) by (auto simp: inSync_def s3_def s2_def split: option.splits)
    have x3: "w_backups s3 (cb_Namespace b1, cb_Name b1)
              = Some (setPhase PhaseCompleted ''All containers checkpointed successfully'' x)"
      using x1 by (simp add: s3_def s2_def)
    obtain s4 b4 r4 where u4: "updatePhase s3 b1 PhaseCompletedPodDeleted
         ''Checkpoint completed and pod deleted successfully'' = (s4, b4, r4)"
      by (rule prod_cases3)
    note f4 = updatePhase_sync [OF sync3 x3 u4]
    note o4 = outside_fields [OF f4(5)]
    have "completeCheckpoint s b pod = (s4, b4, None)"
      using u1' stop1 d u4 f4(1) by (simp add: completeCheckpoint_def Let_def s3_def)
    with cc have e: "s' = s4" "b' = b4" "r = None" by simp_all
    have p4: "w_pods s4 (pod_Namespace pod, pod_Name pod) = None"
      using o4 by (simp add: s3_def s2_def)
    have j4: "r_scheduledJobs s4 (backupKey b) = None"
      using o4 n1 by (simp add: s3_def)
    have j2: "r_scheduledJobs s2 = r_scheduledJobs s" using o1 by (simp add: s2_def emit_def)
    have e4: "\<forall>i. r_scheduledJobs s (backupKey b) = Some i \<longrightarrow> r_entries s4 i = None"
      using o4 n1 j2 by (simp add: s3_def unscheduleJob_entry)
    have "r = None \<and> w_pods s' (pod_Namespace pod, pod_Name pod) = None \<and>
           r_scheduledJobs s' (backupKey b) = None \<and>
           (\<forall>i. r_scheduledJobs s (backupKey b) = Some i \<longrightarrow> r_entries s' i = None) \<and>
           st_Phase (cb_Status b') = PhaseCompletedPodDeleted \<and>
           map_option (st_Phase \<circ> cb_Status) (w_backups s' (cb_Namespace b, cb_Name b))
             = Some PhaseCompletedPodDeleted"
      using e p4 j4 e4 f4(2) f4(4) n1 by simp
  }
  then show "w_fault s DeletePod = None \<Longrightarrow>
           r = None \<and> w_pods s' (pod_Namespace pod, pod_Name pod) = None \<and>
           r_scheduledJobs s' (backupKey b) = None \<and>
           (\<forall>i. r_scheduledJobs s (backupKey b) = Some i \<longrightarrow> r_entries s' i = None) \<and>
           st_Phase (cb_Status b') = PhaseCompletedPodDeleted \<and>
           map_option (st_Phase \<circ> cb_Status) (w_backups s' (cb_Namespace b, cb_Name b))
             = Some PhaseCompletedPodDeleted" .
  {
    assume ft: "w_fault s DeletePod = Some e"
    define s2 where "s2 = emit (EvDeletePod (pod_Namespace pod) (pod_Name pod)) s1"
    have d: "DeletePodCall s1 pod = (s2, Some e)"
      using ft o1 by (simp add: DeletePodCall_def Let_def s2_def)
    have sync2: "inSync s2 b1" using f1(3) by (auto simp: inSync_def s2_def split: option.splits)
    have x2: "w_backups s2 (cb_Namespace b1, cb_Name b1)
              = Some (setPhase PhaseCompleted ''All containers checkpointed successfully'' x)"
      using x1 by (simp add: s2_def)
    obtain s4 b4 r4 where u4: "updatePhase s2 b1 PhaseCompletedWithError
         (''Checkpoint completed but failed to delete pod: '' @ errText e) = (s4, b4, r4)"
      by (rule prod_cases3)
    note f4 = updatePhase_sync [OF sync2 x2 u4]
    note o4 = outside_fields [OF f4(5)]
    have "completeCheckpoint s b pod = (s4, b4, Some e)"
      using u1' stop1 d u4 by (simp add: completeCheckpoint_def Let_def)
    with cc have eq: "s' = s4" "b' = b4" "r = Some e" by simp_all
    have p4: "w_pods s4 = w_pods s" using o4 o1 by (simp add: s2_def)
    have "r = Some e \<and> w_pods s' = w_pods s \<and>
           st_Phase (cb_Status b') = PhaseCompletedWithError \<and>
           map_option (st_Phase \<circ> cb_Status) (w_backups s' (cb_Namespace b, cb_Name b))
             = Some PhaseCompletedWithError \<and>
           map_option (st_CheckpointFiles \<circ> cb_Status) (w_backups s' (cb_Namespace b, cb_Name b))
             = map_option (st_CheckpointFiles \<circ> cb_Status) (w_backups s (cb_Namespace b, cb_Name b)) \<and>
           map_option (st_BuiltImages \<circ> cb_Status) (w_backups s' (cb_Namespace b, cb_Name b))
             = map_option (st_BuiltImages \<circ> cb_Status) (w_backups s (cb_Namespace b, cb_Name b)) \<and>
           st_CheckpointFiles (cb_Status b') = st_CheckpointFiles (cb_Status b) \<and>
           st_BuiltImages (cb_Status b') = st_BuiltImages (cb_Status b)"
      using eq p4 f4(2) f4(4) f1(2) n0 n1 x by simp
  }
  then show "w_fault s DeletePod = Some e \<Longrightarrow>
           r = Some e \<and> w_pods s' = w_pods s \<and>
           st_Phase (cb_Status b') = PhaseCompletedWithError \<and>
           map_option (st_Phase \<circ> cb_Status) (w_backups s' (cb_Namespace b, cb_Name b))
             = Some PhaseCompletedWithError \<and>
           map_option (st_CheckpointFiles \<circ> cb_Status) (w_backups s' (cb_Namespace b, cb_Name b))
             = map_option (st_CheckpointFiles \<circ> cb_Status) (w_backups s (cb_Namespace b, cb_Name b)) \<and>
           map_option (st_BuiltImages \<circ> cb_Status) (w_backups s' (cb_Namespace b, cb_Name b))
             = map_option (st_BuiltImages \<circ> cb_Status) (w_backups s (cb_Namespace b, cb_Name b)) \<and>
           st_CheckpointFiles (cb_Status b') = st_CheckpointFiles (cb_Status b) \<and>
           st_BuiltImages (cb_Status b') = st_BuiltImages (cb_Status b)" .
qed

lemma getPod_emit [simp]: "getPod (emit ev s) ns n = getPod s ns n"
  by (simp add: getPod_def split: option.splits)

lemma getPod_stored: "getPod s ns n = Inr pod \<Longrightarrow> w_pods s (ns, n) = Some pod"
  by (auto simp: getPod_def split: option.splits)

lemma inSync_emit [simp]: "inSync (emit ev s) b = inSync s b"
  by (simp add: inSync_def)

text \<open>
  C4. A request with \<open>stopPod\<close> set, whose pipeline has succeeded for every container,
  with the API server accepting the status writes: when the pod deletion succeeds, the pod
  is gone, the cron entry of the request is removed and the phase ends at
  CompletedPodDeleted, in the object returned and in the stored one; when the deletion
  fails with \<open>e\<close>, the call returns \<open>e\<close>, the phase is CompletedWithError, and the
  checkpoint files and built images recorded by the pipeline are the ones still recorded.
\<close>

theorem stopPod_deletes_pod:
  assumes guard: "st_Phase (cb_Status b) \<notin> {PhaseCompleted, PhaseCompletedPodDeleted, PhaseCompletedWithError,
                     PhaseCheckpointing, PhaseCheckpointed, PhaseImageBuilding, PhaseImageBuilt,
                     PhaseImagePushing, PhaseImagePushed}"
    and stop: "shouldStopPod b"
    and sync: "inSync s b"
    and pod: "getPod s (pr_Namespace (sp_PodRef (cb_Spec b))) (pr_Name (sp_PodRef (cb_Spec b))) = Inr pod"
    and podkey: "pod_Namespace pod = pr_Namespace (sp_PodRef (cb_Spec b))"
                "pod_Name pod = pr_Name (sp_PodRef (cb_Spec b))"
    and running: "pod_Phase pod = ''Running''"
    and pipeline: "checkpointContainers (emit (EvStart (cb_Namespace b) (cb_Name b)) s) b pod
                     (containersToProcess b pod) = (s1, b1, None)"
    and run: "performCheckpoint s b = (s', b', r)"
  shows "(w_fault s DeletePod = None \<longrightarrow>
           r = None \<and> w_pods s' (pod_Namespace pod, pod_Name pod) = None \<and>
           r_scheduledJobs s' (backupKey b) = None \<and>
           (\<forall>i. r_scheduledJobs s (backupKey b) = Some i \<longrightarrow> r_entries s' i = None) \<and>
           st_Phase (cb_Status b') = PhaseCompletedPodDeleted \<and>
           map_option (st_Phase \<circ> cb_Status) (w_backups s' (cb_Namespace b, cb_Name b))
             = Some PhaseCompletedPodDeleted)
       \<and> (\<forall>e. w_fault s DeletePod = Some e \<longrightarrow>
           r = Some e \<and> w_pods s' = w_pods s \<and>
           st_Phase (cb_Status b') = PhaseCompletedWithError \<and>
           map_option (st_Phase \<circ> cb_Status) (w_backups s' (cb_Namespace b, cb_Name b))
             = Some PhaseCompletedWithError \<and>
           map_option (st_CheckpointFiles \<circ> cb_Status) (w_backups s' (cb_Namespace b, cb_Name b))
             = map_option (st_CheckpointFiles \<circ> cb_Status) (w_backups s1 (cb_Namespace b, cb_Name b)) \<and>
           map_option (st_BuiltImages \<circ> cb_Status) (w_backups s' (cb_Namespace b, cb_Name b))
             = map_option (st_BuiltImages \<circ> cb_Status) (w_backups s1 (cb_Namespace b, cb_Name b)) \<and>
           st_CheckpointFiles (cb_Status b') = st_CheckpointFiles (cb_Status b1) \<and>
           st_BuiltImages (cb_Status b') = st_BuiltImages (cb_Status b1))"
proof -
  let ?s0 = "emit (EvStart (cb_Namespace b) (cb_Name b)) s"
  from pipeline have c1: "cstep (\<lambda>ev. \<not> isStartEv ev) ?s0 b s1 b1" by (rule checkpointContainers_c)
  have sync1: "inSync s1 b1" using c1 sync by (simp add: cstep_inSync)
  note fl = cstep_fields [OF c1]
  have stop1: "shouldStopPod b1" using stop fl(1) by (simp add: shouldStopPod_def)
  have pod1: "w_pods s1 (pod_Namespace pod, pod_Name pod) = Some pod"
    using getPod_stored [OF pod] podkey fl(7) by simp
  have "performCheckpoint s b = completeCheckpoint s1 b1 pod"
    using guard pod running pipeline by (simp add: performCheckpoint_def Let_def)
  with run have cc: "completeCheckpoint s1 b1 pod = (s', b', r)" by simp
  have k: "backupKey b1 = backupKey b" "cb_Namespace b1 = cb_Namespace b" "cb_Name b1 = cb_Name b"
    using fl(2,3) by (simp_all add: backupKey_def)
  have w: "w_fault s1 = w_fault s" "w_pods s1 = w_pods s" "r_scheduledJobs s1 = r_scheduledJobs s"
    using fl(7,8,9) by (simp_all add: emit_def)
  from completeCheckpoint_stopPod(1) [OF sync1 stop1 pod1 cc]
  have a: "w_fault s DeletePod = None \<longrightarrow>
           r = None \<and> w_pods s' (pod_Namespace pod, pod_Name pod) = None \<and>
           r_scheduledJobs s' (backupKey b) = None \<and>
           (\<forall>i. r_scheduledJobs s (backupKey b) = Some i \<longrightarrow> r_entries s' i = None) \<and>
           st_Phase (cb_Status b') = PhaseCompletedPodDeleted \<and>
           map_option (st_Phase \<circ> cb_Status) (w_backups s' (cb_Namespace b, cb_Name b))
             = Some PhaseCompletedPodDeleted"
    using k w by simp
  have c: "r = Some e \<and> w_pods s' = w_pods s \<and>
           st_Phase (cb_Status b') = PhaseCompletedWithError \<and>
           map_option (st_Phase \<circ> cb_Status) (w_backups s' (cb_Namespace b, cb_Name b))
             = Some PhaseCompletedWithError \<and>
           map_option (st_CheckpointFiles \<circ> cb_Status) (w_backups s' (cb_Namespace b, cb_Name b))
             = map_option (st_CheckpointFiles \<circ> cb_Status) (w_backups s1 (cb_Namespace b, cb_Name b)) \<and>
           map_option (st_BuiltImages \<circ> cb_Status) (w_backups s' (cb_Namespace b, cb_Name b))
             = map_option (st_BuiltImages \<circ> cb_Status) (w_backups s1 (cb_Namespace b, cb_Name b)) \<and>
           st_CheckpointFiles (cb_Status b') = st_CheckpointFiles (cb_Status b1) \<and>
           st_BuiltImages (cb_Status b') = st_BuiltImages (cb_Status b1)"
    if "w_fault s DeletePod = Some e" for e
    using completeCheckpoint_stopPod(2) [OF sync1 stop1 pod1 cc, of e] that k w by simp
  from a c show ?thesis by blast
qed

theorem stopPod_deletes_pod_witness:
  "w_pods (fst (performCheckpoint
       (ex_ready (ex_request ''*/5 * * * *'' (Some True) None [] '''') (Some (ex_appPod ''N1'' ''Running'')) ex_execOk (\<lambda>call. None))
       (ex_request ''*/5 * * * *'' (Some True) None [] ''''))) (''t'', ''app-0'') = None
   \<and> r_scheduledJobs (fst (performCheckpoint
       (ex_ready (ex_request ''*/5 * * * *'' (Some True) None [] '''') (Some (ex_appPod ''N1'' ''Running'')) ex_execOk (\<lambda>call. None))
       (ex_request ''*/5 * * * *'' (Some True) None [] ''''))) ''t/cb1'' = None
   \<and> r_entries (fst (performCheckpoint
       (ex_ready (ex_request ''*/5 * * * *'' (Some True) None [] '''') (Some (ex_appPod ''N1'' ''Running'')) ex_execOk (\<lambda>call. None))
       (ex_request ''*/5 * * * *'' (Some True) None [] ''''))) 1 = None
   \<and> map_option (st_Phase \<circ> cb_Status) (w_backups (fst (performCheckpoint
       (ex_ready (ex_request ''*/5 * * * *'' (Some True) None [] '''') (Some (ex_appPod ''N1'' ''Running'')) ex_execOk (\<lambda>call. None))
       (ex_request ''*/5 * * * *'' (Some True) None [] ''''))) (''t'', ''cb1'')) = Some PhaseCompletedPodDeleted
   \<and> snd (snd (performCheckpoint
       (ex_ready (ex_request ''*/5 * * * *'' (Some True) None [] '''') (Some (ex_appPod ''N1'' ''Running'')) ex_execOk ex_deleteFails)
       (ex_request ''*/5 * * * *'' (Some True) None [] ''''))) = Some (Failure ''pods app-0 is forbidden'')
   \<and> map_option (st_Phase \<circ> cb_Status) (w_backups (fst (performCheckpoint
       (ex_ready (ex_request ''*/5 * * * *'' (Some True) None [] '''') (Some (ex_appPod ''N1'' ''Running'')) ex_execOk ex_deleteFails)
       (ex_request ''*/5 * * * *'' (Some True) None [] ''''))) (''t'', ''cb1'')) = Some PhaseCompletedWithError"
proof -
  let ?b = "ex_request ''*/5 * * * *'' (Some True) None [] ''''"
  let ?pod = "ex_appPod ''N1'' ''Running''"
  let ?s = "ex_ready ?b (Some ?pod) ex_execOk (\<lambda>call. None)"
  let ?t = "ex_ready ?b (Some ?pod) ex_execOk ex_deleteFails"
  let ?X = "checkpointContainers (emit (EvStart (cb_Namespace ?b) (cb_Name ?b)) ?s) ?b ?pod (containersToProcess ?b ?pod)"
  let ?Y = "checkpointContainers (emit (EvStart (cb_Namespace ?b) (cb_Name ?b)) ?t) ?b ?pod (containersToProcess ?b ?pod)"
  have guard: "st_Phase (cb_Status ?b) \<notin> {PhaseCompleted, PhaseCompletedPodDeleted, PhaseCompletedWithError,
                     PhaseCheckpointing, PhaseCheckpointed, PhaseImageBuilding, PhaseImageBuilt,
                     PhaseImagePushing, PhaseImagePushed}"
    by (simp add: ex_request_def)
  have stop: "shouldStopPod ?b" by (simp add: shouldStopPod_def ex_request_def)
  have syncs: "inSync ?s ?b" and synct: "inSync ?t ?b"
    by (simp_all add: inSync_def ex_ready_def ex_sys_def ex_request_def ex_deleteFails_def)
  have pods: "getPod ?s (pr_Namespace (sp_PodRef (cb_Spec ?b))) (pr_Name (sp_PodRef (cb_Spec ?b))) = Inr ?pod"
    and podt: "getPod ?t (pr_Namespace (sp_PodRef (cb_Spec ?b))) (pr_Name (sp_PodRef (cb_Spec ?b))) = Inr ?pod"
    by (simp_all add: getPod_def ex_ready_def ex_sys_def ex_request_def ex_deleteFails_def)
  have podkey: "pod_Namespace ?pod = pr_Namespace (sp_PodRef (cb_Spec ?b))"
               "pod_Name ?pod = pr_Name (sp_PodRef (cb_Spec ?b))"
    by (simp_all add: ex_request_def ex_appPod_def)
  have running: "pod_Phase ?pod = ''Running''" by (simp add: ex_appPod_def)
  have "snd (snd ?X) = None" by (simp add: ce_defs ex_ce_defs ex_ready_def)
  then have X: "?X = (fst ?X, fst (snd ?X), None)" by (simp add: prod_eq_iff)
  have "snd (snd ?Y) = None" by (simp add: ce_defs ex_ce_defs ex_ready_def ex_deleteFails_def)
  then have Y: "?Y = (fst ?Y, fst (snd ?Y), None)" by (simp add: prod_eq_iff)
  have rs: "performCheckpoint ?s ?b = (fst (performCheckpoint ?s ?b), fst (snd (performCheckpoint ?s ?b)),
              snd (snd (performCheckpoint ?s ?b)))"
    and rt: "performCheckpoint ?t ?b = (fst (performCheckpoint ?t ?b), fst (snd (performCheckpoint ?t ?b)),
              snd (snd (performCheckpoint ?t ?b)))"
    by simp_all
  have fs: "w_fault ?s DeletePod = None" "r_scheduledJobs ?s (backupKey ?b) = Some 1"
    "backupKey ?b = ''t/cb1''" "cb_Namespace ?b = ''t''" "cb_Name ?b = ''cb1''"
    "pod_Namespace ?pod = ''t''" "pod_Name ?pod = ''app-0''"
    by (simp_all add: ex_ready_def ex_sys_def ex_request_def ex_appPod_def backupKey_def)
  have ft: "w_fault ?t DeletePod = Some (Failure ''pods app-0 is forbidden'')"
    by (simp add: ex_ready_def ex_deleteFails_def)
  from stopPod_deletes_pod [OF guard stop syncs pods podkey running X rs] fs
  have a: "w_pods (fst (performCheckpoint ?s ?b)) (''t'', ''app-0'') = None
     \<and> r_scheduledJobs (fst (performCheckpoint ?s ?b)) ''t/cb1'' = None
     \<and> r_entries (fst (performCheckpoint ?s ?b)) 1 = None
     \<and> map_option (st_Phase \<circ> cb_Status) (w_backups (fst (performCheckpoint ?s ?b)) (''t'', ''cb1''))
         = Some PhaseCompletedPodDeleted"
    by simp
  from stopPod_deletes_pod [OF guard stop synct podt podkey running Y rt] ft fs(4,5)
  have b: "snd (snd (performCheckpoint ?t ?b)) = Some (Failure ''pods app-0 is forbidden'')
     \<and> map_option (st_Phase \<circ> cb_Status) (w_backups (fst (performCheckpoint ?t ?b)) (''t'', ''cb1''))
         = Some PhaseCompletedWithError"
    by simp
  from a b show ?thesis by simp
qed

lemma isStatusEv_notRemove: "isStatusEv ev \<Longrightarrow> \<not> isRemoveEv ev"
  by (cases ev) auto

lemma kept_refl [simp]: "kept s b s b"
  by (simp add: kept_def)

lemma kept_trans: "kept s b s1 b1 \<Longrightarrow> kept s1 b1 s2 b2 \<Longrightarrow> kept s b s2 b2"
  unfolding kept_def using adds_trans by auto

lemma kept_state:
  "kept s b s1 b1 \<Longrightarrow> w_backups s2 = w_backups s1 \<Longrightarrow> w_files s2 = w_files s1 \<Longrightarrow>
   adds (\<lambda>ev. \<not> isRemoveEv ev) s1 s2 \<Longrightarrow> kept s b s2 b1"
  unfolding kept_def imagesView_def using adds_trans by auto

lemma errText_wrap [simp]: "errText (wrap m e) = m @ '': '' @ errText e"
  by (cases e) simp_all

lemma wrap_text: "wrap m e = x \<Longrightarrow> errText x = m @ '': '' @ errText e"
  by (drule arg_cong [where f = errText]) simp

lemma updatePhase_noremove:
  assumes "updatePhase s b p m = (s', b', r)"
  shows "adds (\<lambda>ev. \<not> isRemoveEv ev) s s'"
proof -
  from assms have "adds isStatusEv s s'"
    unfolding updatePhase_def using updatePhaseLoop_base by blast
  then show ?thesis by (rule adds_mono) (rule isStatusEv_notRemove)
qed

lemma updatePhase_kept:
  assumes "inSync s b" and "updatePhase s b p m = (s', b', r)"
  shows "kept s b s' b'"
proof -
  from assms(1) obtain x where x: "w_backups s (cb_Namespace b, cb_Name b) = Some x"
    using inSync_stored by blast
  note f = updatePhase_sync [OF assms(1) x assms(2)]
  have "imagesView s' = imagesView s"
    using f(4) x by (auto simp: imagesView_def fun_eq_iff)
  with f(2,6) updatePhase_noremove [OF assms(2)] show ?thesis by (simp add: kept_def)
qed

lemma recordCheckpointFile_kept:
  assumes "inSync s b" and "recordCheckpointFile s b c path = (s', b', r)"
  shows "kept s b s' b'"
proof -
  from assms(1) obtain x where x: "w_backups s (cb_Namespace b, cb_Name b) = Some x"
    and n: "cb_Namespace x = cb_Namespace b" "cb_Name x = cb_Name b"
    and f: "w_statusFaults s = []" and g: "w_fault s GetBackup = None"
    by (auto simp: inSync_def split: option.splits)
  have gb: "getBackup s (cb_Namespace b) (cb_Name b) = Inr x"
    using x g by (simp add: getBackup_def)
  have a: "adds (\<lambda>ev. \<not> isRemoveEv ev) s s'"
  proof -
    from assms(2) have "adds isStatusEv s s'"
      unfolding recordCheckpointFile_def using recordCheckpointFileLoop_base by blast
    then show ?thesis by (rule adds_mono) (rule isStatusEv_notRemove)
  qed
  let ?files = "st_CheckpointFiles (cb_Status x) @
                  [\<lparr>cf_ContainerName = c, cf_FilePath = path, cf_CheckpointTime = e_now s\<rparr>]"
  let ?x' = "x\<lparr>cb_Status := (cb_Status x)\<lparr>st_CheckpointFiles := ?files\<rparr>\<rparr>"
  show ?thesis
  proof (cases "list_ex (\<lambda>checkpointFile. cf_ContainerName checkpointFile = c \<and>
                            cf_FilePath checkpointFile = path) (st_CheckpointFiles (cb_Status x))")
    case True
    with assms(2) gb have "s' = s \<and> b' = b"
      by (simp add: recordCheckpointFile_def numeral_3_eq_3)
    then show ?thesis by simp
  next
    case False
    have st: "w_backups s (cb_Namespace ?x', cb_Name ?x') = Some x" using x n by simp
    from StatusUpdate_healthy [OF f st] assms(2) gb False
    have e: "s' = s\<lparr>w_trace := w_trace s @ [EvStatusUpdate (cb_Namespace ?x') (cb_Name ?x') (st_Phase (cb_Status ?x'))],
             w_statusFaults := [],
             w_backups := (w_backups s)((cb_Namespace ?x', cb_Name ?x') \<mapsto> x\<lparr>cb_Status := cb_Status ?x'\<rparr>)\<rparr>
          \<and> b' = b\<lparr>cb_Status := (cb_Status b)\<lparr>st_CheckpointFiles := ?files\<rparr>\<rparr>"
      by (simp add: recordCheckpointFile_def numeral_3_eq_3 Let_def)
    then have "imagesView s' = imagesView s" using x n
      by (auto simp: imagesView_def fun_eq_iff)
    moreover from e have "w_files s' = w_files s" by simp
    moreover from e have "st_BuiltImages (cb_Status b') = st_BuiltImages (cb_Status b)" by simp
    ultimately show ?thesis using a by (simp add: kept_def)
  qed
qed

lemma sstep_backups: "sstep P s s' \<Longrightarrow> w_backups s' = w_backups s"
  by (simp add: sstep_def)

lemma emit_trace: "w_trace (emit ev s) = w_trace s @ [ev]"
  by (simp add: emit_def)

lemma buildCheckpointImage_ok:
  assumes "buildCheckpointImage s path img base c = (s', None)"
  shows "w_files s' = w_files s \<and> fileExists s (Join CheckpointBasePath path) \<and>
         (\<exists>evs workingContainer. w_trace s' = w_trace s @ evs \<and> list_all (\<lambda>ev. \<not> isRemoveEv ev) evs \<and>
            EvExec [''buildah'', ''add'', workingContainer, Join CheckpointBasePath path, ''/''] \<in> set evs)"
proof -
  let ?full = "Join CheckpointBasePath path"
  from assms have ex: "fileExists s ?full"
    by (auto simp: buildCheckpointImage_def Let_def split: if_splits)
  from assms obtain out where o: "e_exec s [''buildah'', ''from'', ''scratch''] = Inr out"
    by (auto simp: buildCheckpointImage_def Let_def run_def split: if_splits sum.splits)
  let ?nc = "TrimSpace out"
  let ?evs = "[EvExec [''buildah'', ''from'', ''scratch''],
               EvExec [''buildah'', ''add'', ?nc, ?full, ''/''],
               EvExec [''buildah'', ''config'', ''--annotation=io.kubernetes.cri-o.annotations.checkpoint.name='' @ img, ?nc],
               EvExec [''buildah'', ''config'', ''--annotation=io.kubernetes.cri-o.annotations.checkpoint.rootfsImageName='' @ base, ?nc],
               EvExec [''buildah'', ''commit'', ?nc, img],
               EvExec [''buildah'', ''rm'', ?nc]]"
  from assms ex o have "w_trace s' = w_trace s @ ?evs \<and> w_files s' = w_files s"
    by (auto simp: buildCheckpointImage_def Let_def run_def emit_def split: if_splits sum.splits)
  moreover have "list_all (\<lambda>ev. \<not> isRemoveEv ev) ?evs" by simp
  moreover have "EvExec [''buildah'', ''add'', ?nc, ?full, ''/''] \<in> set ?evs" by simp
  ultimately show ?thesis using ex by blast
qed

lemma PushImage_noremove:
  "PushImage s rc i = (s', r) \<Longrightarrow> w_files s' = w_files s \<and> adds (\<lambda>ev. \<not> isRemoveEv ev) s s'"
  by (auto simp: PushImage_def login_def Let_def run_def emit_def adds_def
        split: prod.splits sum.splits if_splits)

lemma CreateCheckpoint_noremove:
  "CreateCheckpoint s kc ns pod c = (s', r) \<Longrightarrow> adds (\<lambda>ev. \<not> isRemoveEv ev) s s'"
  by (auto simp: CreateCheckpoint_def Let_def adds_def emit_def
        split: prod.splits KubeletReply.splits if_splits option.splits list.splits)

lemma CreateCheckpoint_files:
  assumes "CreateCheckpoint s kc ns pod c = (s', Inr path)"
  shows "w_files s' = fold (\<lambda>(p, t) fs. AList.update p t fs)
           (snd (e_kubelet s (kc_kubeletURL kc @ ''/checkpoint/'' @ ns @ ''/'' @ pod @ ''/'' @ c @ ''?timeout=300'')))
           (w_files s)"
  using assms
  by (auto simp: CreateCheckpoint_def Let_def emit_def
        split: prod.splits KubeletReply.splits if_splits option.splits list.splits)

lemma tidy_refl [simp]: "tidy s b s b"
  by (simp add: tidy_def)

lemma tidy_trans: "tidy s b s1 b1 \<Longrightarrow> tidy s1 b1 s2 b2 \<Longrightarrow> tidy s b s2 b2"
  unfolding tidy_def using adds_trans by auto

lemma kept_tidy: "kept s b s' b' \<Longrightarrow> tidy s b s' b'"
  by (simp add: kept_def tidy_def)

lemma kept_files: "kept s b s' b' \<Longrightarrow> w_files s' = w_files s"
  by (simp add: kept_def)

lemma tidy_state:
  "tidy s b s1 b1 \<Longrightarrow> w_backups s2 = w_backups s1 \<Longrightarrow>
   adds (\<lambda>ev. \<not> isRemoveEv ev) s1 s2 \<Longrightarrow> tidy s b s2 b1"
  unfolding tidy_def imagesView_def using adds_trans by auto

lemma createStage_capture:
  assumes sync: "inSync s b" and run: "createStage s b c = (s', b', r)"
  shows "tidy s b s' b' \<and>
         (\<forall>path. r = Inr path \<longrightarrow>
            (\<exists>kc. r_KubeletClient s = Some kc \<and> w_files s' = filesAfterCheckpoint s kc b c))"
proof -
  obtain s1 b1 e1 where u1: "updatePhase s b PhaseCheckpointing (''Creating checkpoint for container '' @ c_Name c) = (s1, b1, e1)"
    by (rule prod_cases3)
  have k1: "kept s b s1 b1" using sync u1 by (rule updatePhase_kept)
  have y1: "inSync s1 b1" and m1: "b1 = setPhase PhaseCheckpointing (''Creating checkpoint for container '' @ c_Name c) b"
    using updatePhase_inSync [OF sync u1] by blast+
  from u1 have "framed s b s1 b1" using updatePhase_framed by blast
  then have o1: "outside s1 = outside s" by (simp add: framed_def sframed_def)
  note of1 = outside_fields [OF o1]
  show ?thesis
  proof (cases "r_KubeletClient s1")
    case None
    with run u1 have "s' = s1 \<and> b' = b1 \<and> (\<exists>e. r = Inl e)" by (auto simp: createStage_def)
    with k1 show ?thesis by (auto simp: kept_tidy)
  next
    case (Some kc)
    obtain s2 r2 where cc: "CreateCheckpoint s1 kc (pr_Namespace (sp_PodRef (cb_Spec b1)))
                       (pr_Name (sp_PodRef (cb_Spec b1))) (c_Name c) = (s2, r2)"
      by (cases "CreateCheckpoint s1 kc (pr_Namespace (sp_PodRef (cb_Spec b1)))
                       (pr_Name (sp_PodRef (cb_Spec b1))) (c_Name c)")
    then have ss: "sstep (containerEv False '''') s1 s2" by (rule CreateCheckpoint_c)
    have t2: "tidy s b s2 b1"
      using kept_tidy [OF k1] sstep_backups [OF ss] CreateCheckpoint_noremove [OF cc] by (rule tidy_state)
    have y2: "inSync s2 b1" using ss y1 by (rule sstep_inSync)
    show ?thesis
    proof (cases r2)
      case (Inl err)
      obtain s3 b3 e3 where u3: "updatePhase s2 b1 PhaseFailed (''Failed to create checkpoint: '' @ errText err) = (s3, b3, e3)"
        by (rule prod_cases3)
      have "tidy s2 b1 s3 b3" using y2 u3 by (intro kept_tidy updatePhase_kept)
      with t2 have t3: "tidy s b s3 b3" by (rule tidy_trans)
      from run u1 Some cc Inl u3 have "s' = s3 \<and> b' = b3 \<and> (\<exists>e. r = Inl e)" by (auto simp: createStage_def)
      with t3 show ?thesis by auto
    next
      case (Inr path)
      have f2: "w_files s2 = filesAfterCheckpoint s kc b c"
        using CreateCheckpoint_files [OF cc [unfolded Inr]] of1 kept_files [OF k1] m1
        by (simp add: filesAfterCheckpoint_def)
      obtain s3 b3 e3 where rc: "recordCheckpointFile s2 b1 (c_Name c) path = (s3, b3, e3)"
        by (rule prod_cases3)
      have k3: "kept s2 b1 s3 b3" using y2 rc by (rule recordCheckpointFile_kept)
      have y3: "inSync s3 b3" using y2 rc by (rule recordCheckpointFile_inSync)
      obtain s4 b4 e4 where u4: "updatePhase s3 b3 PhaseCheckpointed
           (''Checkpoint created for container '' @ c_Name c @ '': '' @ path) = (s4, b4, e4)"
        by (rule prod_cases3)
      have k4: "kept s3 b3 s4 b4" using y3 u4 by (rule updatePhase_kept)
      from k3 k4 have k34: "kept s2 b1 s4 b4" by (rule kept_trans)
      with t2 have t4: "tidy s b s4 b4" using kept_tidy tidy_trans by blast
      have f4: "w_files s4 = filesAfterCheckpoint s kc b c" using f2 kept_files [OF k34] by simp
      from run u1 Some cc Inr rc u4 have "s' = s4 \<and> b' = b4" by (simp add: createStage_def)
      with t4 f4 Some of1 show ?thesis by auto
    qed
  qed
qed

lemma createStage_error:
  "createStage s b c = (s', b', Inl e) \<Longrightarrow>
   e = Failure ''nil pointer dereference: KubeletClient'' \<or>
   (\<exists>err. e = wrap ''failed to create checkpoint via kubelet API'' err)"
  by (auto simp: createStage_def split: prod.splits option.splits sum.splits)

lemma pushStage_fail:
  assumes sync: "inSync s b" and run: "pushStage s b c img full = (s', b', Some e)"
  shows "kept s b s' b' \<and> sp_Registry (cb_Spec b) \<noteq> None \<and>
         (\<exists>err. e = wrap ''failed to push checkpoint image'' err \<and> pushFailed s' b' (errText err))"
proof (cases "sp_Registry (cb_Spec b)")
  case None
  with run show ?thesis by (simp add: pushStage_def split: prod.splits if_splits)
next
  case reg: (Some registry)
  show ?thesis
  proof (cases "r_RegistryClient s")
    case None
    with run reg show ?thesis by (simp add: pushStage_def split: prod.splits if_splits)
  next
    case rc: (Some rc)
    obtain s1 b1 e1 where u1: "updatePhase s b PhaseImagePushing (''Pushing image '' @ img @ '' to registry'') = (s1, b1, e1)"
      by (rule prod_cases3)
    have k1: "kept s b s1 b1" using sync u1 by (rule updatePhase_kept)
    have y1: "inSync s1 b1" using updatePhase_inSync [OF sync u1] by blast
    obtain s2 r2 where pi: "PushImage s1 rc img = (s2, r2)" by (cases "PushImage s1 rc img")
    then have ss: "sstep (containerEv False img) s1 s2" by (rule PushImage_c)
    from PushImage_noremove [OF pi] have pf: "w_files s2 = w_files s1"
      and pa: "adds (\<lambda>ev. \<not> isRemoveEv ev) s1 s2" by simp_all
    have k2: "kept s b s2 b1" using k1 sstep_backups [OF ss] pf pa by (rule kept_state)
    have y2: "inSync s2 b1" using ss y1 by (rule sstep_inSync)
    show ?thesis
    proof (cases r2)
      case None
      with run reg rc u1 pi show ?thesis by (simp add: pushStage_def split: prod.splits if_splits)
    next
      case err: (Some err)
      obtain s3 b3 e3 where u3: "updatePhase s2 b1 PhaseFailed (''Failed to push image: '' @ errText err) = (s3, b3, e3)"
        by (rule prod_cases3)
      have "kept s2 b1 s3 b3" using y2 u3 by (rule updatePhase_kept)
      with k2 have k3: "kept s b s3 b3" by (rule kept_trans)
      from y2 obtain x where x: "w_backups s2 (cb_Namespace b1, cb_Name b1) = Some x"
        using inSync_stored by blast
      note f = updatePhase_sync [OF y2 x u3]
      have pf: "pushFailed s3 b3 (errText err)" using f(2,4) by (simp add: pushFailed_def)
      from run reg rc u1 pi err u3
      have "s' = s3 \<and> b' = b3 \<and> e = wrap ''failed to push checkpoint image'' err"
        by (simp add: pushStage_def)
      with k3 pf reg show ?thesis by auto
    qed
  qed
qed

lemma archiveKept_pre:
  "adds (\<lambda>ev. \<not> isRemoveEv ev) s s1 \<Longrightarrow> archiveKept s1 s' \<Longrightarrow> archiveKept s s'"
proof -
  assume "adds (\<lambda>ev. \<not> isRemoveEv ev) s s1" and "archiveKept s1 s'"
  then obtain e1 e2 wc ar where
    "w_trace s1 = w_trace s @ e1" "list_all (\<lambda>ev. \<not> isRemoveEv ev) e1"
    "w_trace s' = w_trace s1 @ e2" "list_all (\<lambda>ev. \<not> isRemoveEv ev) e2"
    "EvExec [''buildah'', ''add'', wc, ar, ''/''] \<in> set e2" "fileExists s' ar"
    unfolding adds_def archiveKept_def by blast
  then have "w_trace s' = w_trace s @ (e1 @ e2) \<and> list_all (\<lambda>ev. \<not> isRemoveEv ev) (e1 @ e2) \<and>
             EvExec [''buildah'', ''add'', wc, ar, ''/''] \<in> set (e1 @ e2) \<and> fileExists s' ar"
    by simp
  then show "archiveKept s s'" unfolding archiveKept_def by blast
qed

lemma archiveKept_post:
  assumes "w_trace s2 = w_trace s1 @ evs" and "list_all (\<lambda>ev. \<not> isRemoveEv ev) evs"
    and "EvExec [''buildah'', ''add'', wc, ar, ''/''] \<in> set evs"
    and "adds (\<lambda>ev. \<not> isRemoveEv ev) s2 s'" and "fileExists s' ar"
  shows "archiveKept s1 s'"
proof -
  from assms(4) obtain e2 where "w_trace s' = w_trace s2 @ e2" "list_all (\<lambda>ev. \<not> isRemoveEv ev) e2"
    unfolding adds_def by blast
  with assms have "w_trace s' = w_trace s1 @ (evs @ e2) \<and> list_all (\<lambda>ev. \<not> isRemoveEv ev) (evs @ e2) \<and>
             EvExec [''buildah'', ''add'', wc, ar, ''/''] \<in> set (evs @ e2) \<and> fileExists s' ar"
    by simp
  then show ?thesis unfolding archiveKept_def by blast
qed

lemma buildStage_pushfail:
  assumes sync: "inSync s b"
    and run: "buildStage s b pod c path0 = (s', b', Some (wrap ''failed to push checkpoint image'' perr))"
  shows "kept s b s' b' \<and> sp_Registry (cb_Spec b) \<noteq> None \<and> pushFailed s' b' (errText perr) \<and>
         archiveKept s s'"
proof -
  let ?img = "resolveImageName s b c"
  let ?found = "(if \<not> fileExists s (Join CheckpointBasePath path0)
            then findCheckpointFile s (pr_Namespace (sp_PodRef (cb_Spec b)))
                   (pr_Name (sp_PodRef (cb_Spec b))) (c_Name c) path0
            else Inr path0)"
  show ?thesis
  proof (cases ?found)
    case (Inl err)
    with run have "wrap ''failed to find checkpoint file after creation'' err
                   = wrap ''failed to push checkpoint image'' perr"
      by (simp add: buildStage_def Let_def)
    then have False by (auto dest!: wrap_text)
    then show ?thesis ..
  next
    case (Inr path)
    show ?thesis
    proof (cases "baseImageOf pod (c_Name c) = ''''")
      case True
      with run Inr have "wrap ''failed to push checkpoint image'' perr
                   = Failure (''could not find base image for container '' @ c_Name c)"
        by (simp add: buildStage_def Let_def)
      then have False by (auto dest!: wrap_text)
      then show ?thesis ..
    next
      case False
      obtain s1 b1 e1 where u1: "updatePhase s b PhaseImageBuilding
           (''Building checkpoint image for container '' @ c_Name c) = (s1, b1, e1)"
        by (rule prod_cases3)
      have k1: "kept s b s1 b1" using sync u1 by (rule updatePhase_kept)
      have y1: "inSync s1 b1" and m1: "b1 = setPhase PhaseImageBuilding
           (''Building checkpoint image for container '' @ c_Name c) b"
        using updatePhase_inSync [OF sync u1] by blast+
      obtain s2 r2 where bd: "buildCheckpointImage s1 path ?img (baseImageOf pod (c_Name c)) (c_Name c) = (s2, r2)"
        by (cases "buildCheckpointImage s1 path ?img (baseImageOf pod (c_Name c)) (c_Name c)")
      then have ss: "sstep (containerEv False ?img) s1 s2" by (rule buildCheckpointImage_c)
      have y2: "inSync s2 b1" using ss y1 by (rule sstep_inSync)
      show ?thesis
      proof (cases r2)
        case (Some err)
        obtain s3 b3 e3 where u3: "updatePhase s2 b1 PhaseFailed (''Failed to build image: '' @ errText err) = (s3, b3, e3)"
          by (rule prod_cases3)
        from run Inr False u1 bd Some u3
        have "wrap ''failed to build checkpoint image'' err = wrap ''failed to push checkpoint image'' perr"
          by (simp add: buildStage_def Let_def)
        then have False by (auto dest!: wrap_text)
        then show ?thesis ..
      next
        case None
        from buildCheckpointImage_ok [OF bd [unfolded None]] obtain evs wc where
          bf: "w_files s2 = w_files s1" and ex: "fileExists s1 (Join CheckpointBasePath path)"
          and tr: "w_trace s2 = w_trace s1 @ evs" and nr: "list_all (\<lambda>ev. \<not> isRemoveEv ev) evs"
          and ad: "EvExec [''buildah'', ''add'', wc, Join CheckpointBasePath path, ''/''] \<in> set evs"
          by blast
        have a12: "adds (\<lambda>ev. \<not> isRemoveEv ev) s1 s2" using tr nr unfolding adds_def by blast
        have k2: "kept s b s2 b1" using k1 sstep_backups [OF ss] bf a12 by (rule kept_state)
        obtain s3 b3 e3 where u3: "updatePhase s2 b1 PhaseImageBuilt
            (''Image built successfully for container '' @ c_Name c @ '': '' @ ?img) = (s3, b3, e3)"
          by (rule prod_cases3)
        have k23: "kept s2 b1 s3 b3" using y2 u3 by (rule updatePhase_kept)
        have y3: "inSync s3 b3" and m3: "b3 = setPhase PhaseImageBuilt
            (''Image built successfully for container '' @ c_Name c @ '': '' @ ?img) b1"
          using updatePhase_inSync [OF y2 u3] by blast+
        from run Inr False u1 bd None u3
        have ps: "pushStage s3 b3 c ?img (Join CheckpointBasePath path0)
                    = (s', b', Some (wrap ''failed to push checkpoint image'' perr))"
          by (simp add: buildStage_def Let_def)
        from pushStage_fail [OF y3 ps] obtain err where
          k4: "kept s3 b3 s' b'" and rg: "sp_Registry (cb_Spec b3) \<noteq> None"
          and we: "wrap ''failed to push checkpoint image'' perr = wrap ''failed to push checkpoint image'' err"
          and pf: "pushFailed s' b' (errText err)"
          by blast
        from we have "errText err = errText perr" by (auto dest!: wrap_text)
        with pf have pf': "pushFailed s' b' (errText perr)" by simp
        from k23 k4 have k24: "kept s2 b1 s' b'" by (rule kept_trans)
        with k2 have k: "kept s b s' b'" by (rule kept_trans)
        from rg m1 m3 have rg': "sp_Registry (cb_Spec b) \<noteq> None" by simp
        have "w_files s' = w_files s1" using kept_files [OF k24] bf by simp
        with ex have ex': "fileExists s' (Join CheckpointBasePath path)" by (simp add: fileExists_def)
        have "adds (\<lambda>ev. \<not> isRemoveEv ev) s2 s'" using k24 by (simp add: kept_def)
        with tr nr ad have "archiveKept s1 s'" using ex' by (rule archiveKept_post)
        moreover have "adds (\<lambda>ev. \<not> isRemoveEv ev) s s1" using k1 by (simp add: kept_def)
        ultimately have "archiveKept s s'" by (rule archiveKept_pre [rotated])
        with k rg' pf' show ?thesis by simp
      qed
    qed
  qed
qed

text \<open>
  C5. A run of the pipeline for one container that ends with the push error, the API server
  accepting the status writes: the request has a registry configured; the phase is Failed
  and the message is \<open>Failed to push image: \<close> followed by the text of the push error, in
  the object returned and in the stored one; no stored request and not the object returned
  has gained a built image. The files on the node are, after a fresh capture, exactly the
  files from before the call with the kubelet's writes applied, and after a resumed one
  the files from before the call; the call has removed no file, and the archive it added
  to the image exists when it returns.
\<close>

theorem push_failure_keeps_artifact:
  assumes sync: "inSync s b"
    and run: "checkpointContainer s b pod c = (s', b', Some (wrap ''failed to push checkpoint image'' perr))"
  shows "sp_Registry (cb_Spec b) \<noteq> None
       \<and> st_Phase (cb_Status b') = PhaseFailed
       \<and> st_Message (cb_Status b') = ''Failed to push image: '' @ errText perr
       \<and> map_option (st_Phase \<circ> cb_Status) (w_backups s' (cb_Namespace b, cb_Name b)) = Some PhaseFailed
       \<and> map_option (st_Message \<circ> cb_Status) (w_backups s' (cb_Namespace b, cb_Name b))
           = Some (''Failed to push image: '' @ errText perr)
       \<and> imagesView s' = imagesView s
       \<and> st_BuiltImages (cb_Status b') = st_BuiltImages (cb_Status b)
       \<and> (resumeCheck s b c = Some '''' \<longrightarrow>
            (\<exists>kc. r_KubeletClient s = Some kc \<and> w_files s' = filesAfterCheckpoint s kc b c))
       \<and> (resumeCheck s b c \<noteq> Some '''' \<longrightarrow> w_files s' = w_files s)
       \<and> archiveKept s s'"
proof (cases "resumeCheck s b c")
  case None
  with run show ?thesis by (simp add: checkpointContainer_def)
next
  case (Some path)
  obtain s1 b1 r1 where st: "(if path = '''' then createStage s b c else (s, b, Inr path)) = (s1, b1, r1)"
    by (rule prod_cases3)
  have k1: "tidy s b s1 b1 \<and> inSync s1 b1 \<and> cb_Spec b1 = cb_Spec b
            \<and> cb_Namespace b1 = cb_Namespace b \<and> cb_Name b1 = cb_Name b
            \<and> (path = '''' \<longrightarrow> (\<forall>p. r1 = Inr p \<longrightarrow>
                   (\<exists>kc. r_KubeletClient s = Some kc \<and> w_files s1 = filesAfterCheckpoint s kc b c)))
            \<and> (path \<noteq> '''' \<longrightarrow> w_files s1 = w_files s)"
  proof (cases "path = ''''")
    case True
    with st have cs: "createStage s b c = (s1, b1, r1)" by simp
    from cs have c: "cstep (containerEv False '''') s b s1 b1" by (rule createStage_c)
    from createStage_capture [OF sync cs] c sync True show ?thesis
      by (simp add: cstep_inSync cstep_fields)
  next
    case False
    with st sync show ?thesis by auto
  qed
  show ?thesis
  proof (cases r1)
    case (Inl err)
    with run Some st have e: "err = wrap ''failed to push checkpoint image'' perr"
      by (simp add: checkpointContainer_def)
    from Inl st have "createStage s b c = (s1, b1, Inl err)" by (auto split: if_splits)
    from createStage_error [OF this] e have False by (auto dest!: wrap_text)
    then show ?thesis ..
  next
    case (Inr p)
    with run Some st
    have bs: "buildStage s1 b1 pod c p = (s', b', Some (wrap ''failed to push checkpoint image'' perr))"
      by (simp add: checkpointContainer_def)
    from k1 have y1: "inSync s1 b1" by simp
    from buildStage_pushfail [OF y1 bs]
    have k2: "kept s1 b1 s' b'" and rg: "sp_Registry (cb_Spec b1) \<noteq> None"
      and pf: "pushFailed s' b' (errText perr)" and ak: "archiveKept s1 s'" by simp_all
    from k1 k2 have t: "tidy s b s' b'" using kept_tidy tidy_trans by blast
    have ak': "archiveKept s s'" using k1 ak by (auto simp: tidy_def intro: archiveKept_pre)
    have n: "cb_Namespace b' = cb_Namespace b \<and> cb_Name b' = cb_Name b"
      using buildStage_c [OF bs] k1 by (simp add: cstep_fields)
    have f1: "resumeCheck s b c = Some '''' \<longrightarrow>
            (\<exists>kc. r_KubeletClient s = Some kc \<and> w_files s' = filesAfterCheckpoint s kc b c)"
      using k1 Some Inr kept_files [OF k2] by auto
    have f2: "resumeCheck s b c \<noteq> Some '''' \<longrightarrow> w_files s' = w_files s"
      using k1 Some kept_files [OF k2] by auto
    from t rg pf k1 n f1 f2 ak' show ?thesis by (simp add: tidy_def pushFailed_def)
  qed
qed

theorem push_failure_keeps_artifact_witness:
  "snd (snd (checkpointContainer
       (ex_withRegistry (ex_ready (ex_request ''immediately'' None (Some ex_reg) [ex_web] '''')
                           (Some (ex_appPod ''N1'' ''Running'')) ex_pushFails (\<lambda>call. None)))
       (ex_request ''immediately'' None (Some ex_reg) [ex_web] '''') (ex_appPod ''N1'' ''Running'') ex_web))
     = Some (Failure ''failed to push checkpoint image: failed to push image ckpt/web:abc to reg.example/ckpt/web:abc: exit status 125'')
   \<and> map_option (st_Phase \<circ> cb_Status) (w_backups (fst (checkpointContainer
       (ex_withRegistry (ex_ready (ex_request ''immediately'' None (Some ex_reg) [ex_web] '''')
                           (Some (ex_appPod ''N1'' ''Running'')) ex_pushFails (\<lambda>call. None)))
       (ex_request ''immediately'' None (Some ex_reg) [ex_web] '''') (ex_appPod ''N1'' ''Running'') ex_web))
       (''t'', ''cb1'')) = Some PhaseFailed
   \<and> map_option (st_Message \<circ> cb_Status) (w_backups (fst (checkpointContainer
       (ex_withRegistry (ex_ready (ex_request ''immediately'' None (Some ex_reg) [ex_web] '''')
                           (Some (ex_appPod ''N1'' ''Running'')) ex_pushFails (\<lambda>call. None)))
       (ex_request ''immediately'' None (Some ex_reg) [ex_web] '''') (ex_appPod ''N1'' ''Running'') ex_web))
       (''t'', ''cb1''))
       = Some ''Failed to push image: failed to push image ckpt/web:abc to reg.example/ckpt/web:abc: exit status 125''
   \<and> imagesView (fst (checkpointContainer
       (ex_withRegistry (ex_ready (ex_request ''immediately'' None (Some ex_reg) [ex_web] '''')
                           (Some (ex_appPod ''N1'' ''Running'')) ex_pushFails (\<lambda>call. None)))
       (ex_request ''immediately'' None (Some ex_reg) [ex_web] '''') (ex_appPod ''N1'' ''Running'') ex_web))
       (''t'', ''cb1'') = Some []
   \<and> w_files (ex_withRegistry (ex_ready (ex_request ''immediately'' None (Some ex_reg) [ex_web] '''')
                           (Some (ex_appPod ''N1'' ''Running'')) ex_pushFails (\<lambda>call. None))) = []
   \<and> w_files (fst (checkpointContainer
       (ex_withRegistry (ex_ready (ex_request ''immediately'' None (Some ex_reg) [ex_web] '''')
                           (Some (ex_appPod ''N1'' ''Running'')) ex_pushFails (\<lambda>call. None)))
       (ex_request ''immediately'' None (Some ex_reg) [ex_web] '''') (ex_appPod ''N1'' ''Running'') ex_web))
       = [(''/var/lib/kubelet/checkpoints/checkpoint-t_app-0-web-2025-01-04T14:30:22Z.tar'', 100)]
   \<and> fileExists (fst (checkpointContainer
       (ex_withRegistry (ex_ready (ex_request ''immediately'' None (Some ex_reg) [ex_web] '''')
                           (Some (ex_appPod ''N1'' ''Running'')) ex_pushFails (\<lambda>call. None)))
       (ex_request ''immediately'' None (Some ex_reg) [ex_web] '''') (ex_appPod ''N1'' ''Running'') ex_web))
       ''/var/lib/kubelet/checkpoints/checkpoint-t_app-0-web-2025-01-04T14:30:22Z.tar''"
proof -
  let ?b = "ex_request ''immediately'' None (Some ex_reg) [ex_web] ''''"
  let ?pod = "ex_appPod ''N1'' ''Running''"
  let ?s = "ex_withRegistry (ex_ready ?b (Some ?pod) ex_pushFails (\<lambda>call. None))"
  let ?X = "checkpointContainer ?s ?b ?pod ex_web"
  let ?perr = "Failure ''failed to push image ckpt/web:abc to reg.example/ckpt/web:abc: exit status 125''"
  let ?kc = "\<lparr>kc_token = ''token'', kc_kubeletURL = ''https://localhost:10250''\<rparr>"
  have sync: "inSync ?s ?b"
    by (simp add: inSync_def ex_withRegistry_def ex_ready_def ex_sys_def ex_request_def)
  have r: "snd (snd ?X) = Some (wrap ''failed to push checkpoint image'' ?perr)"
    by (simp add: ce_defs ex_ce_defs ex_ready_def ex_withRegistry_def ex_reg_def ex_web_def)
  then have X: "?X = (fst ?X, fst (snd ?X), Some (wrap ''failed to push checkpoint image'' ?perr))"
    by (simp add: prod_eq_iff)
  have n: "cb_Namespace ?b = ''t''" "cb_Name ?b = ''cb1''" by (simp_all add: ex_request_def)
  have i: "imagesView ?s (''t'', ''cb1'') = Some []"
    by (simp add: imagesView_def ex_withRegistry_def ex_ready_def ex_sys_def ex_request_def)
  have rs: "resumeCheck ?s ?b ex_web = Some ''''"
    by (simp add: resumeCheck_def getCheckpointFilePath_def ex_request_def)
  have kc: "r_KubeletClient ?s = Some ?kc"
    by (simp add: ex_withRegistry_def ex_ready_def)
  have fa: "filesAfterCheckpoint ?s ?kc ?b ex_web
            = [(''/var/lib/kubelet/checkpoints/checkpoint-t_app-0-web-2025-01-04T14:30:22Z.tar'', 100)]"
    by (simp add: filesAfterCheckpoint_def ex_withRegistry_def ex_ready_def ex_sys_def ex_request_def
          ex_web_def ex_tar_def)
  have f0: "w_files ?s = []" by (simp add: ex_withRegistry_def ex_ready_def ex_sys_def)
  from push_failure_keeps_artifact [OF sync X] rs kc
  have fl: "w_files (fst ?X) = filesAfterCheckpoint ?s ?kc ?b ex_web" by auto
  with fa have fl': "w_files (fst ?X)
      = [(''/var/lib/kubelet/checkpoints/checkpoint-t_app-0-web-2025-01-04T14:30:22Z.tar'', 100)]" by simp
  then have fe: "fileExists (fst ?X) ''/var/lib/kubelet/checkpoints/checkpoint-t_app-0-web-2025-01-04T14:30:22Z.tar''"
    by (simp add: fileExists_def)
  from push_failure_keeps_artifact [OF sync X] r n i f0 fl' fe show ?thesis by simp
qed

end
